theory Spec2Isabelle
  imports Complex_Main
begin

section \<open>Data model (types.ts)\<close>

text \<open>
  JavaScript numbers are modelled as real numbers: finite values with exact arithmetic.
  \<open>NaN\<close>, the infinities and rounding of IEEE doubles are outside the model. Where the
  code takes \<open>Math.floor\<close> of a product of doubles, the model takes the floor of the exact
  product; the two differ by one when the rounded product falls on the other side of a
  whole number.
  Grid coordinates passed to the action layer are integers.
\<close>

datatype js_error = TypeError

text \<open>The enum \<open>BuildingType\<close> of types.ts, with its twenty members; \<open>None\<close> is called
  \<open>BNone\<close>.\<close>

datatype BuildingType =
    BNone | Road | Residential | Commercial | Industrial | Park | School | Hospital
  | Police | FireStation | GoldMine | Apartment | Mansion | Water | Bridge
  | MegaMall | SpacePort | University | Stadium | Casino

text \<open>App.tsx and constants.tsx mention \<open>BuildingType.ResearchCentre\<close>, a member that the
  enum does not have: the expression reads a missing property and is \<open>undefined\<close>. A
  value that may be \<open>undefined\<close> is an option here, and a building type \<open>t\<close> that is there
  is \<open>Some t\<close>.\<close>

definition BuildingType_ResearchCentre :: "BuildingType option" where
  "BuildingType_ResearchCentre = None"

datatype EconomicEvent = ENone | Boom | Recession | Strike | Audit | Festival

text \<open>\<open>BuildingConfig\<close>: the fields read by the simulation and the action layer
  (the display strings \<open>name\<close>, \<open>description\<close>, \<open>color\<close> are left out). The optional
  fields \<open>crime\<close>, \<open>pollution\<close>, \<open>maxAllowed\<close> are options; the pollution coefficient
  is called \<open>cfgPollution\<close> because the tile has a field \<open>pollution\<close> too.\<close>

record BuildingConfig =
  cfgType :: BuildingType
  cost :: real
  popGen :: real
  incomeGen :: real
  crime :: "real option"
  cfgPollution :: "real option"
  maxAllowed :: "real option"

text \<open>\<open>TileData\<close>; the coordinate fields \<open>x\<close>, \<open>y\<close> are called \<open>tileX\<close>, \<open>tileY\<close>.\<close>

record TileData =
  tileX :: int
  tileY :: int
  buildingType :: BuildingType
  pollution :: "real option"
  hasRoadAccess :: "bool option"

type_synonym Grid = "TileData list list"

record Demographics =
  children :: real
  adults :: real
  seniors :: real

record Jobs =
  commercial :: real
  industrial :: real
  jobsTotal :: real
  jobsUnemployment :: real

record BudgetDetails =
  tax :: real
  business :: real
  services :: real
  welfare :: real

record Budget =
  income :: real
  expenses :: real
  details :: BudgetDetails
  lastMonthProfit :: "real option"

record Vec2 =
  vecX :: real
  vecY :: real

datatype GoalTarget = TargetPopulation | TargetMoney | TargetBuildingCount

record AIGoal =
  goalDescription :: string
  targetType :: GoalTarget
  targetValue :: real
  goalBuildingType :: "BuildingType option"
  reward :: real
  completed :: bool

text \<open>
  JavaScript objects are references. The nested objects of a stats object
  (\<open>demographics\<close>, \<open>jobs\<close>, \<open>budget\<close>) live in a store and the stats record holds
  their addresses, so that the shallow copy \<open>{ ...currentStats }\<close> copies the addresses
  and not the objects. Every address holds an object; \<open>nextRef\<close> is the first address
  that no object literal has been allocated at yet.
\<close>

type_synonym ref = nat

record Heap =
  demographicsAt :: "ref \<Rightarrow> Demographics"
  jobsAt :: "ref \<Rightarrow> Jobs"
  budgetAt :: "ref \<Rightarrow> Budget"
  nextRef :: ref

record CityStats =
  money :: real
  population :: real
  day :: real
  taxRate :: real
  happiness :: real
  education :: real
  safety :: real
  housingCapacity :: real
  demographics :: ref
  jobs :: ref
  budget :: ref
  shadowEconomy :: real
  supplyLevel :: real
  loanPrincipal :: real
  loanInterestRate :: real
  activeEvent :: EconomicEvent
  eventDuration :: real
  sharePrice :: real
  investmentShares :: real
  investmentAverageCost :: real
  crimeRate :: real
  security :: real
  pollutionLevel :: real
  windDirection :: Vec2
  windSpeed :: real
  currentGoal :: "AIGoal option"

text \<open>The stats object of App.tsx carries three more fields than the \<open>CityStats\<close>
  of types.ts: the fog-of-war size, the research record and the active planet.\<close>

record Research =
  isResearchCentreBuilt :: bool
  landExpansionLevel :: real
  isMarsDiscovered :: bool
  nauticalLevel :: real

datatype Planet = Earth | Mars

record AppStats = CityStats +
  unlockedGridSize :: real
  research :: Research
  activePlanet :: Planet

section \<open>Building catalog (constants.tsx)\<close>

definition GRID_SIZE :: int where
  "GRID_SIZE = 45"

definition mkConfig ::
  "BuildingType \<Rightarrow> real \<Rightarrow> real \<Rightarrow> real \<Rightarrow> real option \<Rightarrow> real option \<Rightarrow> real option
     \<Rightarrow> BuildingConfig" where
  "mkConfig t c p i cr po mx =
     \<lparr> cfgType = t, cost = c, popGen = p, incomeGen = i, crime = cr, cfgPollution = po,
       maxAllowed = mx \<rparr>"

fun BUILDINGS :: "BuildingType \<Rightarrow> BuildingConfig" where
  "BUILDINGS BNone = mkConfig BNone 0 0 0 None None None"
| "BUILDINGS Road = mkConfig Road 10 0 0 None None None"
| "BUILDINGS Residential = mkConfig Residential 200 10 0 None None None"
| "BUILDINGS Commercial = mkConfig Commercial 200 0 15 None None None"
| "BUILDINGS Industrial = mkConfig Industrial 400 0 40 (Some 5) (Some 15) None"
| "BUILDINGS Park = mkConfig Park 50 1 0 None (Some (-10)) None"
| "BUILDINGS School = mkConfig School 500 0 (-10) (Some (-2)) None None"
| "BUILDINGS Hospital = mkConfig Hospital 1000 0 (-20) None None None"
| "BUILDINGS Police = mkConfig Police 400 0 (-10) (Some (-25)) None None"
| "BUILDINGS FireStation = mkConfig FireStation 450 0 (-15) (Some (-5)) None None"
| "BUILDINGS GoldMine = mkConfig GoldMine 1500 0 600 (Some 0) (Some 10) None"
| "BUILDINGS Apartment = mkConfig Apartment 100 2 0 (Some 2) None None"
| "BUILDINGS Mansion = mkConfig Mansion 1000 25 0 (Some (-5)) None None"
| "BUILDINGS Water = mkConfig Water 0 0 0 None None None"
| "BUILDINGS Bridge = mkConfig Bridge 150 0 0 None None None"
| "BUILDINGS Casino = mkConfig Casino 3000 0 300 (Some 30) None None"
| "BUILDINGS MegaMall = mkConfig MegaMall 12000 0 400 (Some 10) (Some 5) (Some 1)"
| "BUILDINGS SpacePort = mkConfig SpacePort 250000 0 5000 (Some 5) None (Some 1)"
| "BUILDINGS University = mkConfig University 8000 0 (-100) (Some (-10)) None (Some 1)"
| "BUILDINGS Stadium = mkConfig Stadium 14000 0 100 (Some 15) None (Some 1)"

text \<open>The catalog has one more entry, written under the computed key
  \<open>[BuildingType.ResearchCentre]\<close>, which is the key \<open>undefined\<close>: no building type
  looks it up.\<close>

section \<open>Action layer: performAction\<close>

text \<open>
  \<open>currentGrid[y]\<close> of a row that does not exist is \<open>undefined\<close>, and indexing it throws;
  \<open>currentGrid[y][x]\<close> past the end of an existing row is \<open>undefined\<close> (here \<open>None\<close>), and
  only reading a field of it throws.
\<close>

definition tileAt :: "Grid \<Rightarrow> int \<Rightarrow> int \<Rightarrow> js_error + TileData option" where
  "tileAt g x y =
     (if 0 \<le> y \<and> nat y < length g
      then Inr (if 0 \<le> x \<and> nat x < length (g ! nat y) then Some (g ! nat y ! nat x) else None)
      else Inl TypeError)"

text \<open>\<open>newGrid = currentGrid.map(row => [...row]); newGrid[y][x] = t\<close>, at a position
  that exists.\<close>

definition setTile :: "Grid \<Rightarrow> int \<Rightarrow> int \<Rightarrow> TileData \<Rightarrow> Grid" where
  "setTile g x y t = g[nat y := (g ! nat y)[nat x := t]]"

text \<open>
  App.tsx, \<open>performAction(action, type, x, y)\<close>. The grid and stats it reads through
  \<open>gridRef\<close> and \<open>statsRef\<close> are arguments; the result is the returned boolean with the
  grid and stats that \<open>setGrid\<close> and \<open>setStats\<close> leave behind. The two tests against
  \<open>BuildingType.ResearchCentre\<close> compare a building type that is there with \<open>undefined\<close>.
\<close>

definition performAction ::
  "Grid \<Rightarrow> AppStats \<Rightarrow> string \<Rightarrow> BuildingType option \<Rightarrow> int \<Rightarrow> int
     \<Rightarrow> js_error + (bool \<times> Grid \<times> AppStats)" where
  "performAction currentGrid currentStats action type x y =
     (if x < 0 \<or> x \<ge> GRID_SIZE \<or> y < 0 \<or> y \<ge> GRID_SIZE
      then Inr (False, currentGrid, currentStats)
      else
        let center = \<lfloor>real_of_int GRID_SIZE / 2\<rfloor>;
            halfSize = \<lfloor>unlockedGridSize currentStats / 2\<rfloor>;
            minBounds = center - halfSize;
            maxBounds = center + halfSize;
            isOutOfBounds = (x < minBounds \<or> x > maxBounds \<or> y < minBounds \<or> y > maxBounds)
        in
        if action = ''BUILD'' \<and> isOutOfBounds then Inr (False, currentGrid, currentStats)
        else
          case tileAt currentGrid x y of
            Inl e \<Rightarrow> Inl e
          | Inr currentTile \<Rightarrow>
              if action = ''DEMOLISH'' then
                (case currentTile of
                   None \<Rightarrow> Inl TypeError
                 | Some tile \<Rightarrow>
                     if buildingType tile \<noteq> BNone \<and> buildingType tile \<noteq> Water then
                       let replacementType =
                             (if buildingType tile = Bridge then Water else BNone);
                           stats1 =
                             (if Some (buildingType tile) = BuildingType_ResearchCentre
                              then currentStats\<lparr> research :=
                                     (research currentStats)\<lparr> isResearchCentreBuilt := False \<rparr> \<rparr>
                              else currentStats);
                           newGrid = setTile currentGrid x y
                                       (tile\<lparr> buildingType := replacementType \<rparr>);
                           demolishCost = 5
                       in Inr (True, newGrid, stats1\<lparr> money := money stats1 - demolishCost \<rparr>)
                     else Inr (False, currentGrid, currentStats))
              else if action = ''BUILD'' \<and> type \<noteq> None then
                (case currentTile of
                   None \<Rightarrow> Inl TypeError
                 | Some tile \<Rightarrow>
                     let config = BUILDINGS (the type);
                         isWater = (buildingType tile = Water);
                         isBridge = (the type = Bridge)
                     in
                     if isWater \<and> \<not> isBridge then Inr (False, currentGrid, currentStats)
                     else if \<not> isWater \<and> isBridge then Inr (False, currentGrid, currentStats)
                     else
                       let isEmpty = (buildingType tile = BNone \<or> buildingType tile = Water)
                       in
                       if isEmpty \<and> money currentStats \<ge> cost config then
                         let newGrid = setTile currentGrid x y
                                         (tile\<lparr> buildingType := the type \<rparr>);
                             newResearch =
                               (if Some (the type) = BuildingType_ResearchCentre
                                then (research currentStats)\<lparr> isResearchCentreBuilt := True \<rparr>
                                else research currentStats)
                         in Inr (True, newGrid,
                                 currentStats\<lparr> money := money currentStats - cost config,
                                                research := newResearch \<rparr>)
                       else Inr (False, currentGrid, currentStats))
              else Inr (False, currentGrid, currentStats))"

text \<open>
  unnamed/part_001, the earlier \<open>performAction\<close>: no fog of war and no research record.
  It reads and writes only \<open>money\<close>, so it is stated for any extension of \<open>CityStats\<close>.
\<close>

definition performAction_part001 ::
  "Grid \<Rightarrow> 'a CityStats_scheme \<Rightarrow> string \<Rightarrow> BuildingType option \<Rightarrow> int \<Rightarrow> int
     \<Rightarrow> js_error + (bool \<times> Grid \<times> 'a CityStats_scheme)" where
  "performAction_part001 currentGrid currentStats action type x y =
     (if x < 0 \<or> x \<ge> GRID_SIZE \<or> y < 0 \<or> y \<ge> GRID_SIZE
      then Inr (False, currentGrid, currentStats)
      else
        case tileAt currentGrid x y of
          Inl e \<Rightarrow> Inl e
        | Inr currentTile \<Rightarrow>
            if action = ''DEMOLISH'' then
              (case currentTile of
                 None \<Rightarrow> Inl TypeError
               | Some tile \<Rightarrow>
                   if buildingType tile \<noteq> BNone \<and> buildingType tile \<noteq> Water then
                     let replacementType =
                           (if buildingType tile = Bridge then Water else BNone);
                         newGrid = setTile currentGrid x y
                                     (tile\<lparr> buildingType := replacementType \<rparr>);
                         demolishCost = 5
                     in Inr (True, newGrid,
                             currentStats\<lparr> money := money currentStats - demolishCost \<rparr>)
                   else Inr (False, currentGrid, currentStats))
            else if action = ''BUILD'' \<and> type \<noteq> None then
              (case currentTile of
                 None \<Rightarrow> Inl TypeError
               | Some tile \<Rightarrow>
                   let config = BUILDINGS (the type);
                       isWater = (buildingType tile = Water);
                       isBridge = (the type = Bridge)
                   in
                   if isWater \<and> \<not> isBridge then Inr (False, currentGrid, currentStats)
                   else if \<not> isWater \<and> isBridge then Inr (False, currentGrid, currentStats)
                   else
                     let isEmpty = (buildingType tile = BNone \<or> buildingType tile = Water)
                     in
                     if isEmpty \<and> money currentStats \<ge> cost config then
                       let newGrid = setTile currentGrid x y
                                       (tile\<lparr> buildingType := the type \<rparr>)
                       in Inr (True, newGrid,
                               currentStats\<lparr> money := money currentStats - cost config \<rparr>)
                     else Inr (False, currentGrid, currentStats))
            else Inr (False, currentGrid, currentStats))"


section \<open>Initial state (simulation.ts) and sample inputs\<close>

text \<open>\<open>INITIAL_STATS\<close> is an object literal with three nested object literals; they are
  allocated at address 0 of \<open>INITIAL_HEAP\<close>.\<close>


definition INITIAL_HEAP :: Heap where
  "INITIAL_HEAP =
     \<lparr> demographicsAt = (\<lambda>_. \<lparr> children = 0, adults = 0, seniors = 0 \<rparr>),
       jobsAt = (\<lambda>_. \<lparr> commercial = 0, industrial = 0, jobsTotal = 0,
                        jobsUnemployment = 0 \<rparr>),
       budgetAt = (\<lambda>_. \<lparr> income = 0, expenses = 0,
                          details = \<lparr> tax = 0, business = 0, services = 0, welfare = 0 \<rparr>,
                          lastMonthProfit = None \<rparr>),
       nextRef = 1 \<rparr>"

definition INITIAL_STATS :: CityStats where
  "INITIAL_STATS =
     \<lparr> money = 2000, population = 0, day = 1, taxRate = 0.1, happiness = 100,
       education = 0, safety = 100, housingCapacity = 0,
       demographics = 0, jobs = 0, budget = 0,
       shadowEconomy = 0, supplyLevel = 1, loanPrincipal = 0, loanInterestRate = 0.05,
       activeEvent = ENone, eventDuration = 0, sharePrice = 100, investmentShares = 0,
       investmentAverageCost = 0, crimeRate = 0, security = 100, pollutionLevel = 0,
       windDirection = \<lparr> vecX = 1, vecY = 0 \<rparr>, windSpeed = 0.5, currentGoal = None \<rparr>"

definition sampleAppStats :: "real \<Rightarrow> AppStats" where
  "sampleAppStats m =
     CityStats.extend (INITIAL_STATS\<lparr> money := m \<rparr>)
       (AppStats.fields 45
          \<lparr> isResearchCentreBuilt = False, landExpansionLevel = 0, isMarsDiscovered = False,
            nauticalLevel = 0 \<rparr> Earth)"

definition sampleTile :: "int \<Rightarrow> int \<Rightarrow> BuildingType \<Rightarrow> TileData" where
  "sampleTile x y b =
     \<lparr> tileX = x, tileY = y, buildingType = b, pollution = Some 0, hasRoadAccess = None \<rparr>"

definition sampleRow :: Grid where
  "sampleRow = [[sampleTile 0 0 Water, sampleTile 1 0 Road, sampleTile 2 0 BNone,
                 sampleTile 3 0 Bridge]]"


text \<open>Two grids differ at most in the tile at column \<open>x\<close> of row \<open>y\<close>.\<close>

definition onlyTileChanged :: "Grid \<Rightarrow> Grid \<Rightarrow> int \<Rightarrow> int \<Rightarrow> bool" where
  "onlyTileChanged g g' x y \<longleftrightarrow>
     length g' = length g \<and>
     (\<forall>i < length g. length (g' ! i) = length (g ! i) \<and>
        (\<forall>j < length (g ! i). (i, j) \<noteq> (nat y, nat x) \<longrightarrow> g' ! i ! j = g ! i ! j))"


section \<open>Economic simulation step: updateSimulation (utils/simulation.ts)\<close>

text \<open>
  The local variables of \<open>updateSimulation\<close> that live across its phases, with the copy
  \<open>newStats\<close> and the store. The local \<open>housingCapacity\<close> is called
  \<open>housingCapacityLocal\<close>, the stats record having a field of that name.
\<close>

record 'a Sim =
  newStats :: "'a CityStats_scheme"
  heap :: Heap
  schools :: nat
  hospitals :: nat
  police :: nat
  parks :: nat
  universities :: nat
  housingCapacityLocal :: real
  serviceUpkeep :: real
  commJobs :: real
  indJobs :: real
  rawCrime :: real
  rawPollution :: real
  totalJobs :: real
  unemployment :: real
  welfareCost :: real

text \<open>\<open>v || 0\<close> and the truth value of an optional number.\<close>

definition orZero :: "real option \<Rightarrow> real" where
  "orZero v = (case v of None \<Rightarrow> 0 | Some p \<Rightarrow> p)"

definition truthy :: "real option \<Rightarrow> bool" where
  "truthy v = (case v of None \<Rightarrow> False | Some p \<Rightarrow> p \<noteq> 0)"

text \<open>\<open>let newStats = { ...currentStats }; newStats.day += 1\<close> and the initial values of
  the counters. The copy is shallow: it holds the addresses of the nested objects of
  \<open>currentStats\<close>.\<close>

definition simStart :: "Heap \<Rightarrow> 'a CityStats_scheme \<Rightarrow> 'a Sim" where
  "simStart h currentStats =
     \<lparr> newStats = currentStats\<lparr> day := day currentStats + 1 \<rparr>,
       heap = h,
       schools = 0, hospitals = 0, police = 0, parks = 0, universities = 0,
       housingCapacityLocal = 0, serviceUpkeep = 0, commJobs = 0, indJobs = 0,
       rawCrime = 0, rawPollution = 0, totalJobs = 0, unemployment = 0, welfareCost = 0 \<rparr>"

text \<open>The part of the loop body that both versions share: the counters of schools,
  hospitals, police stations and parks.\<close>

definition countServices :: "BuildingType \<Rightarrow> 'a Sim \<Rightarrow> 'a Sim" where
  "countServices b st =
     (let st = (if b = School then st\<lparr> schools := schools st + 1 \<rparr> else st);
          st = (if b = Hospital then st\<lparr> hospitals := hospitals st + 1 \<rparr> else st);
          st = (if b = Police then st\<lparr> police := police st + 1 \<rparr> else st);
          st = (if b = Park then st\<lparr> parks := parks st + 1 \<rparr> else st)
      in st)"

text \<open>What the loop body does with the catalog entry of a building, given the income
  it credits (the configured income in simulation.ts).\<close>

definition applyConfig :: "BuildingConfig \<Rightarrow> real \<Rightarrow> 'a Sim \<Rightarrow> 'a Sim" where
  "applyConfig config inc st =
     (let st = (if inc \<noteq> 0
                then st\<lparr> newStats := (newStats st)\<lparr> money := money (newStats st) + inc \<rparr> \<rparr>
                else st);
          st = (if popGen config > 0
                then st\<lparr> housingCapacityLocal := housingCapacityLocal st + popGen config \<rparr>
                else st);
          st = (if truthy (crime config)
                then st\<lparr> rawCrime := rawCrime st + orZero (crime config) \<rparr>
                else st);
          st = (if truthy (cfgPollution config)
                then st\<lparr> rawPollution := rawPollution st + orZero (cfgPollution config) \<rparr>
                else st)
      in st)"

definition countJobs :: "BuildingType \<Rightarrow> 'a Sim \<Rightarrow> 'a Sim" where
  "countJobs b st =
     (let st = (if b = Commercial then st\<lparr> commJobs := commJobs st + 5 \<rparr> else st);
          st = (if b = Industrial then st\<lparr> indJobs := indJobs st + 8 \<rparr> else st)
      in st)"

text \<open>The service costs that simulation.ts hard-codes.\<close>

definition serviceCosts :: "BuildingType \<Rightarrow> 'a Sim \<Rightarrow> 'a Sim" where
  "serviceCosts b st =
     (let st = (if b = School then st\<lparr> serviceUpkeep := serviceUpkeep st + 10 \<rparr> else st);
          st = (if b = Hospital then st\<lparr> serviceUpkeep := serviceUpkeep st + 20 \<rparr> else st);
          st = (if b = Police then st\<lparr> serviceUpkeep := serviceUpkeep st + 15 \<rparr> else st);
          st = (if b = FireStation then st\<lparr> serviceUpkeep := serviceUpkeep st + 15 \<rparr> else st)
      in st)"

text \<open>The body of \<open>grid.forEach(row => row.forEach(tile => ...))\<close> in simulation.ts.\<close>

definition censusTile :: "TileData \<Rightarrow> 'a Sim \<Rightarrow> 'a Sim" where
  "censusTile tile st =
     (let b = buildingType tile;
          st = countServices b st;
          st = (if b \<noteq> BNone then
                  let st = serviceCosts b st;
                      config = BUILDINGS b
                  in applyConfig config (incomeGen config) st
                else st)
      in countJobs b st)"

definition simCensus :: "Grid \<Rightarrow> 'a Sim \<Rightarrow> 'a Sim" where
  "simCensus grid st =
     (let st = fold censusTile (concat grid) st
      in st\<lparr> newStats := (newStats st)\<lparr> housingCapacity := housingCapacityLocal st \<rparr> \<rparr>)"

text \<open>Crime, pollution, security, education and safety gauges; \<open>totalJobs\<close>.\<close>

definition simGauges :: "'a Sim \<Rightarrow> 'a Sim" where
  "simGauges st =
     (let ns = newStats st;
          ns = ns\<lparr> crimeRate := max 0 (rawCrime st) \<rparr>;
          ns = ns\<lparr> pollutionLevel := max 0 (rawPollution st) \<rparr>;
          ns = ns\<lparr> security := max 0 (100 - crimeRate ns) \<rparr>;
          totalJobs = commJobs st + indJobs st;
          educationLevel = min 100 (real (schools st) * 15);
          safetyLevel = max 0 (100 - crimeRate ns * 2);
          ns = ns\<lparr> education := educationLevel \<rparr>;
          ns = ns\<lparr> safety := safetyLevel \<rparr>
      in st\<lparr> newStats := ns, totalJobs := totalJobs \<rparr>)"

text \<open>
  Births, immigration, aging and deaths. Every assignment of the source in this phase
  goes through \<open>newStats.demographics\<close>: it writes the fields of the one object at the
  address \<open>demographics newStats\<close>. \<open>popDynamics\<close> is the sequence of these writes on that
  object.
\<close>

definition popDynamics ::
  "real \<Rightarrow> nat \<Rightarrow> nat \<Rightarrow> real \<Rightarrow> real \<Rightarrow> Demographics \<Rightarrow> Demographics" where
  "popDynamics happinessNow nSchools nHospitals housingCap crimeNow d =
     (let happinessFactor = happinessNow / 100;
          schoolFactor = 1 + (real nSchools * 50) / (max 1 (children d) + 1);
          totalPop = children d + adults d + seniors d;
          d = (if totalPop < housingCap then
                 let birthChance = 0.02 * happinessFactor;
                     births = real_of_int \<lfloor>adults d * birthChance\<rfloor>;
                     d = d\<lparr> children := children d + births \<rparr>
                 in if totalPop < 50 then d\<lparr> adults := adults d + 2 \<rparr>
                    else if totalPop < housingCap * 0.5 then d\<lparr> adults := adults d + 1 \<rparr>
                    else d
               else d);
          ageUpChildChance = 0.05 * schoolFactor;
          ageUpAdultChance = 0.02;
          deathChance = 0.05 / (1 + real nHospitals);
          agingChildren = real_of_int \<lfloor>children d * ageUpChildChance\<rfloor>;
          d = d\<lparr> children := children d - agingChildren \<rparr>;
          d = d\<lparr> adults := adults d + agingChildren \<rparr>;
          agingAdults = real_of_int \<lfloor>adults d * ageUpAdultChance\<rfloor>;
          d = d\<lparr> adults := adults d - agingAdults \<rparr>;
          d = d\<lparr> seniors := seniors d + agingAdults \<rparr>;
          crimeDeathFactor = (if crimeNow > 50 then 0.05 else 0);
          deaths = real_of_int \<lfloor>seniors d * (deathChance + crimeDeathFactor)\<rfloor>;
          d = d\<lparr> seniors := max 0 (seniors d - deaths) \<rparr>
      in d)"

definition simPopulation :: "'a Sim \<Rightarrow> 'a Sim" where
  "simPopulation st =
     (let ns = newStats st;
          r = demographics ns;
          d = popDynamics (happiness ns) (schools st) (hospitals st)
                (housingCapacityLocal st) (crimeRate ns) (demographicsAt (heap st) r);
          h = (heap st)\<lparr> demographicsAt := (demographicsAt (heap st))(r := d) \<rparr>;
          ns = ns\<lparr> population := children d + adults d + seniors d \<rparr>
      in st\<lparr> newStats := ns, heap := h \<rparr>)"

text \<open>\<open>Math.pow\<close> on the reals. For a negative base and a fractional exponent
  JavaScript gives \<open>NaN\<close>, which the model does not have.\<close>

definition Math_pow :: "real \<Rightarrow> real \<Rightarrow> real" where
  "Math_pow b e = b powr e"

text \<open>An object literal is allocated at the first free address.\<close>

definition allocBudget :: "Budget \<Rightarrow> Heap \<Rightarrow> ref \<times> Heap" where
  "allocBudget b h =
     (nextRef h, h\<lparr> budgetAt := (budgetAt h)(nextRef h := b), nextRef := nextRef h + 1 \<rparr>)"

definition allocJobs :: "Jobs \<Rightarrow> Heap \<Rightarrow> ref \<times> Heap" where
  "allocJobs j h =
     (nextRef h, h\<lparr> jobsAt := (jobsAt h)(nextRef h := j), nextRef := nextRef h + 1 \<rparr>)"

text \<open>Event decay and the share price; \<open>rnd\<close> is the value of \<open>Math.random()\<close>.\<close>

definition simEvents :: "real \<Rightarrow> 'a CityStats_scheme \<Rightarrow> 'a CityStats_scheme" where
  "simEvents rnd ns =
     (let ns = (if activeEvent ns \<noteq> ENone then
                  let ns = ns\<lparr> eventDuration := eventDuration ns - 1 \<rparr>
                  in if eventDuration ns \<le> 0 then ns\<lparr> activeEvent := ENone \<rparr> else ns
                else ns);
          marketTrend = (if activeEvent ns = Boom then 1.05
                         else if activeEvent ns = Recession then 0.95 else 1.0);
          volatility = (rnd * 0.1) - 0.05
      in ns\<lparr> sharePrice :=
              max 1 (real_of_int \<lfloor>sharePrice ns * (1 + volatility) * marketTrend\<rfloor>) \<rparr>)"

text \<open>Jobs statistics, welfare, events, running costs, revenue, theft, and the update of
  money and of the budget, in simulation.ts.\<close>

definition simEconomy :: "real \<Rightarrow> 'a Sim \<Rightarrow> 'a Sim" where
  "simEconomy rnd st =
     (let ns = newStats st;
          d = demographicsAt (heap st) (demographics ns);
          unemployment = max 0 (adults d - totalJobs st);
          welfareCost = unemployment * 2;
          ns = simEvents rnd ns;
          bureaucracyCost = real_of_int \<lfloor>Math_pow (population ns) 1.1 * 0.1\<rfloor>;
          serviceUpkeep = serviceUpkeep st + bureaucracyCost;
          supplyPenalty = 1 - (1 - supplyLevel ns);
          taxEfficiency = 1 - (shadowEconomy ns * 0.5);
          revenueMultiplier = 1.0;
          revenueMultiplier = (if activeEvent ns = Boom then 1.5 else revenueMultiplier);
          revenueMultiplier = (if activeEvent ns = Recession then 0.7 else revenueMultiplier);
          revenueMultiplier = (if activeEvent ns = Strike then 0.2 else revenueMultiplier);
          taxRevenue = real_of_int
            \<lfloor>adults d * 5 * taxRate ns * taxEfficiency * revenueMultiplier\<rfloor>;
          businessRevenue = real_of_int
            \<lfloor>min (totalJobs st) (adults d) * 2 * taxRate ns * supplyPenalty
               * revenueMultiplier\<rfloor>;
          totalIncome = taxRevenue + businessRevenue;
          theftLoss = (if crimeRate ns > 20
                       then real_of_int \<lfloor>(crimeRate ns - 20) * 5\<rfloor> else 0);
          totalExpenses = serviceUpkeep + welfareCost + theftLoss;
          ns = ns\<lparr> money := money ns + (totalIncome - totalExpenses) \<rparr>;
          (b, h) = allocBudget
                     \<lparr> income = totalIncome, expenses = totalExpenses,
                       details = \<lparr> tax = taxRevenue, business = businessRevenue,
                                   services = serviceUpkeep, welfare = welfareCost \<rparr>,
                       lastMonthProfit = Some (totalIncome - totalExpenses) \<rparr> (heap st);
          ns = ns\<lparr> budget := b \<rparr>
      in st\<lparr> newStats := ns, heap := h, serviceUpkeep := serviceUpkeep,
              unemployment := unemployment, welfareCost := welfareCost \<rparr>)"

text \<open>The debt spiral: with money below zero, one percent of the deficit, rounded down,
  is charged and booked, and 5 is taken off \<open>newStats.happiness\<close>.\<close>

definition simDebtSpiral :: "'a Sim \<Rightarrow> 'a Sim" where
  "simDebtSpiral st =
     (let ns = newStats st
      in if money ns < 0 then
           let debtService = \<bar>money ns\<bar> * 0.01;
               ns = ns\<lparr> money := money ns - real_of_int \<lfloor>debtService\<rfloor> \<rparr>;
               bud = budgetAt (heap st) (budget ns);
               h = (heap st)\<lparr> budgetAt := (budgetAt (heap st))
                      (budget ns := bud\<lparr> expenses := expenses bud + real_of_int \<lfloor>debtService\<rfloor> \<rparr>) \<rparr>;
               ns = ns\<lparr> happiness := happiness ns - 5 \<rparr>
           in st\<lparr> newStats := ns, heap := h \<rparr>
         else st)"

text \<open>\<open>newStats.jobs = { ... }\<close>: a new object.\<close>

definition simJobs :: "'a Sim \<Rightarrow> 'a Sim" where
  "simJobs st =
     (let (j, h) = allocJobs
                     \<lparr> commercial = commJobs st, industrial = indJobs st,
                       jobsTotal = totalJobs st, jobsUnemployment = unemployment st \<rparr>
                     (heap st)
      in st\<lparr> newStats := (newStats st)\<lparr> jobs := j \<rparr>, heap := h \<rparr>)"

text \<open>The second loop over the grid: pollution summed over the housing tiles.\<close>

definition isHousing :: "BuildingType \<Rightarrow> bool" where
  "isHousing b \<longleftrightarrow> b = Residential \<or> b = Apartment \<or> b = Mansion"

definition resPollutionTile :: "TileData \<Rightarrow> real \<times> nat \<Rightarrow> real \<times> nat" where
  "resPollutionTile tile acc =
     (case acc of (totalResPollution, resCount) \<Rightarrow>
        if isHousing (buildingType tile)
        then (totalResPollution + orZero (pollution tile), resCount + 1)
        else acc)"

text \<open>
  The happiness calculation. Its pieces take the values of the fields of \<open>newStats\<close>
  that the source reads at that point. First the tax and park terms, which both versions
  apply first.
\<close>

definition happinessTaxParks :: "real \<Rightarrow> nat \<Rightarrow> real" where
  "happinessTaxParks taxRate_v nParks =
     (let baseHappiness = 100;
          baseHappiness = baseHappiness - (taxRate_v * 200);
          baseHappiness = baseHappiness + min 20 (real nParks * 2)
      in baseHappiness)"

text \<open>Smog, local pollution of housing, unemployment and supply shortage.\<close>

definition happinessPenalties ::
  "real \<Rightarrow> real \<Rightarrow> real \<Rightarrow> Grid \<Rightarrow> real \<Rightarrow> real \<Rightarrow> real" where
  "happinessPenalties pollutionLevel_v shadowEconomy_v supplyLevel_v grid unemp baseHappiness =
     (let baseHappiness = (if pollutionLevel_v > 20
                           then baseHappiness - (pollutionLevel_v - 20)
                           else baseHappiness);
          (totalResPollution, resCount) = fold resPollutionTile (concat grid) (0, 0);
          baseHappiness =
            (if resCount > 0 then
               let avgResPollution = totalResPollution / real resCount
               in if avgResPollution > 10 then baseHappiness - avgResPollution * 2
                  else baseHappiness
             else baseHappiness);
          unempPenalty = (unemp * 0.5) * (1 - shadowEconomy_v);
          baseHappiness = baseHappiness - unempPenalty;
          baseHappiness = (if supplyLevel_v < 0.8
                           then baseHappiness - (1 - supplyLevel_v) * 20
                           else baseHappiness)
      in baseHappiness)"

text \<open>The event terms of simulation.ts.\<close>

definition happinessEvents :: "EconomicEvent \<Rightarrow> real \<Rightarrow> real" where
  "happinessEvents ev baseHappiness =
     (let baseHappiness = (if ev = Boom then baseHappiness + 10 else baseHappiness);
          baseHappiness = (if ev = Recession then baseHappiness - 10 else baseHappiness);
          baseHappiness = (if ev = Strike then baseHappiness - 20 else baseHappiness)
      in baseHappiness)"

text \<open>The crime penalty and the value of the last assignment,
  \<open>Math.max(0, Math.min(100, Math.floor(baseHappiness)))\<close>.\<close>

definition happinessFinish :: "real \<Rightarrow> real \<Rightarrow> real" where
  "happinessFinish crimeRate_v baseHappiness =
     (let baseHappiness = baseHappiness - (crimeRate_v * 0.5)
      in max 0 (min 100 (real_of_int \<lfloor>baseHappiness\<rfloor>)))"

definition simHappiness :: "Grid \<Rightarrow> 'a Sim \<Rightarrow> 'a Sim" where
  "simHappiness grid st =
     (let ns = newStats st;
          baseHappiness = happinessTaxParks (taxRate ns) (parks st);
          baseHappiness = happinessPenalties (pollutionLevel ns) (shadowEconomy ns)
                            (supplyLevel ns) grid (unemployment st) baseHappiness;
          baseHappiness = happinessEvents (activeEvent ns) baseHappiness
      in st\<lparr> newStats := ns\<lparr> happiness := happinessFinish (crimeRate ns) baseHappiness \<rparr> \<rparr>)"

text \<open>The state of simulation.ts after \<open>newStats.budget = { ... }\<close>, that is once income
  and expenses are applied and before the debt spiral.\<close>

definition simBeforeDebt :: "Heap \<Rightarrow> 'a CityStats_scheme \<Rightarrow> Grid \<Rightarrow> real \<Rightarrow> 'a Sim" where
  "simBeforeDebt h currentStats grid rnd =
     simEconomy rnd (simPopulation (simGauges (simCensus grid (simStart h currentStats))))"

text \<open>\<open>updateSimulation(currentStats, grid)\<close> of simulation.ts: the returned stats and the
  store it leaves. It does not write to the grid.\<close>

definition updateSimulation ::
  "Heap \<Rightarrow> 'a CityStats_scheme \<Rightarrow> Grid \<Rightarrow> real \<Rightarrow> 'a CityStats_scheme \<times> Heap" where
  "updateSimulation h currentStats grid rnd =
     (let st = simBeforeDebt h currentStats grid rnd;
          st = simDebtSpiral st;
          st = simJobs st;
          st = simHappiness grid st
      in (newStats st, heap st))"

section \<open>The later updateSimulation (unnamed/part_003)\<close>

text \<open>
  This version checks road access of every building, writes the result into the tile it
  is visiting (\<open>tile.hasRoadAccess = connected\<close>), and reads the flags back for the
  happiness penalty. The grid is therefore part of the state: the tile objects of the
  argument grid are the ones written to. Reading a neighbour \<open>grid[n.y][n.x]\<close>
  that is missing from a short row throws.
\<close>

fun neighbourScan :: "Grid \<Rightarrow> (int \<times> int) list \<Rightarrow> js_error + bool" where
  "neighbourScan grid [] = Inr False"
| "neighbourScan grid ((nx, ny) # ns) =
     (if ny \<ge> 0 \<and> ny < int (length grid) \<and> nx \<ge> 0 \<and> nx < int (length (grid ! 0))
      then (case tileAt grid nx ny of
              Inr (Some t) \<Rightarrow>
                if buildingType t = Road \<or> buildingType t = Bridge then Inr True
                else neighbourScan grid ns
            | Inr None \<Rightarrow> Inl TypeError
            | Inl e \<Rightarrow> Inl e)
      else neighbourScan grid ns)"

definition roadConnected :: "Grid \<Rightarrow> TileData \<Rightarrow> js_error + bool" where
  "roadConnected grid tile =
     (if buildingType tile = Road \<or> buildingType tile = Bridge \<or> buildingType tile = Water
      then Inr True
      else neighbourScan grid
             [(tileX tile + 1, tileY tile), (tileX tile - 1, tileY tile),
              (tileX tile, tileY tile + 1), (tileX tile, tileY tile - 1)])"

definition countUniversities :: "BuildingType \<Rightarrow> 'a Sim \<Rightarrow> 'a Sim" where
  "countUniversities b st =
     (if b = University then st\<lparr> universities := universities st + 1 \<rparr> else st)"

text \<open>The loop body at row \<open>i\<close>, column \<open>j\<close>; the local \<open>connected\<close> is called
  \<open>connected_v\<close>.\<close>

definition censusTile_part003 ::
  "nat \<Rightarrow> nat \<Rightarrow> Grid \<times> 'a Sim \<Rightarrow> js_error + (Grid \<times> 'a Sim)" where
  "censusTile_part003 i j acc =
     (case acc of (grid, st) \<Rightarrow>
        let tile = grid ! i ! j;
            b = buildingType tile;
            st = countServices b st;
            st = countUniversities b st
        in
        if b \<noteq> BNone then
          (case roadConnected grid tile of
             Inl e \<Rightarrow> Inl e
           | Inr connected_v \<Rightarrow>
               let grid = grid[i := (grid ! i)[j := tile\<lparr> hasRoadAccess := Some connected_v \<rparr>]];
                   config = BUILDINGS b;
                   inc = incomeGen config;
                   inc = (if \<not> connected_v \<and> b \<noteq> BNone
                          then real_of_int \<lfloor>inc * 0.5\<rfloor> else inc);
                   st = applyConfig config inc st
               in Inr (grid, countJobs b st))
        else Inr (grid, countJobs b st))"

definition gridPositions :: "Grid \<Rightarrow> (nat \<times> nat) list" where
  "gridPositions g =
     concat (map (\<lambda>i. map (\<lambda>j. (i, j)) [0 ..< length (g ! i)]) [0 ..< length g])"

fun censusLoop_part003 ::
  "(nat \<times> nat) list \<Rightarrow> Grid \<times> 'a Sim \<Rightarrow> js_error + (Grid \<times> 'a Sim)" where
  "censusLoop_part003 [] acc = Inr acc"
| "censusLoop_part003 ((i, j) # ps) acc =
     (case censusTile_part003 i j acc of
        Inl e \<Rightarrow> Inl e
      | Inr acc' \<Rightarrow> censusLoop_part003 ps acc')"

text \<open>The census with the university bonus, which the gauges overwrite afterwards.\<close>

definition simCensus_part003 :: "Grid \<Rightarrow> 'a Sim \<Rightarrow> js_error + (Grid \<times> 'a Sim)" where
  "simCensus_part003 grid st =
     (case censusLoop_part003 (gridPositions grid) (grid, st) of
        Inl e \<Rightarrow> Inl e
      | Inr (grid', st) \<Rightarrow>
          let ns = newStats st;
              ns = ns\<lparr> housingCapacity := housingCapacityLocal st \<rparr>;
              ns = (if universities st > 0
                    then ns\<lparr> education := education ns + real (universities st) * 10 \<rparr>
                    else ns)
          in Inr (grid', st\<lparr> newStats := ns \<rparr>))"

definition simEconomy_part003 :: "real \<Rightarrow> 'a Sim \<Rightarrow> 'a Sim" where
  "simEconomy_part003 rnd st =
     (let ns = newStats st;
          d = demographicsAt (heap st) (demographics ns);
          unemployment = max 0 (adults d - totalJobs st);
          welfareCost = unemployment * 2;
          ns = simEvents rnd ns;
          bureaucracyCost = real_of_int \<lfloor>Math_pow (population ns) 1.1 * 0.1\<rfloor>;
          serviceUpkeep = serviceUpkeep st + bureaucracyCost;
          serviceUpkeep = (if activeEvent ns = Festival
                           then serviceUpkeep + (100 + (population ns * 2))
                           else serviceUpkeep);
          supplyPenalty = 1 - (1 - supplyLevel ns);
          taxEfficiency = 1 - (shadowEconomy ns * 0.5);
          revenueMultiplier = 1.0;
          revenueMultiplier = (if activeEvent ns = Boom then 1.5 else revenueMultiplier);
          revenueMultiplier = (if activeEvent ns = Recession then 0.7 else revenueMultiplier);
          revenueMultiplier = (if activeEvent ns = Strike then 0.2 else revenueMultiplier);
          revenueMultiplier = (if activeEvent ns = Festival then 1.2 else revenueMultiplier);
          taxRevenue = real_of_int
            \<lfloor>adults d * 5 * taxRate ns * taxEfficiency * revenueMultiplier\<rfloor>;
          businessRevenue = real_of_int
            \<lfloor>min (totalJobs st) (adults d) * 2 * taxRate ns * supplyPenalty
               * revenueMultiplier\<rfloor>;
          totalIncome = taxRevenue + businessRevenue;
          theftLoss = (if crimeRate ns > 20
                       then real_of_int \<lfloor>(crimeRate ns - 20) * 5\<rfloor> else 0);
          totalExpenses = serviceUpkeep + welfareCost + theftLoss;
          ns = ns\<lparr> money := money ns + (totalIncome - totalExpenses) \<rparr>;
          (b, h) = allocBudget
                     \<lparr> income = totalIncome, expenses = totalExpenses,
                       details = \<lparr> tax = taxRevenue, business = businessRevenue,
                                   services = serviceUpkeep, welfare = welfareCost \<rparr>,
                       lastMonthProfit = Some (totalIncome - totalExpenses) \<rparr> (heap st);
          ns = ns\<lparr> budget := b \<rparr>
      in st\<lparr> newStats := ns, heap := h, serviceUpkeep := serviceUpkeep,
              unemployment := unemployment, welfareCost := welfareCost \<rparr>)"

definition isUnconnected :: "TileData \<Rightarrow> bool" where
  "isUnconnected t \<longleftrightarrow>
     buildingType t \<noteq> BNone \<and> buildingType t \<noteq> Road \<and> buildingType t \<noteq> Water
     \<and> hasRoadAccess t = Some False"

text \<open>The event terms of part_003, with the festival.\<close>

definition happinessEvents_part003 :: "EconomicEvent \<Rightarrow> real \<Rightarrow> real" where
  "happinessEvents_part003 ev baseHappiness =
     (let baseHappiness = (if ev = Boom then baseHappiness + 10 else baseHappiness);
          baseHappiness = (if ev = Recession then baseHappiness - 10 else baseHappiness);
          baseHappiness = (if ev = Strike then baseHappiness - 20 else baseHappiness);
          baseHappiness = (if ev = Festival then baseHappiness + 20 else baseHappiness)
      in baseHappiness)"

definition simHappiness_part003 :: "Grid \<Rightarrow> 'a Sim \<Rightarrow> 'a Sim" where
  "simHappiness_part003 grid st =
     (let ns = newStats st;
          baseHappiness = happinessTaxParks (taxRate ns) (parks st);
          stadiums = length (filter (\<lambda>t. buildingType t = Stadium) (concat grid));
          baseHappiness = (if stadiums > 0 then baseHappiness + 15 else baseHappiness);
          baseHappiness = happinessPenalties (pollutionLevel ns) (shadowEconomy ns)
                            (supplyLevel ns) grid (unemployment st) baseHappiness;
          unconnectedCount = length (filter isUnconnected (concat grid));
          baseHappiness = (if unconnectedCount > 0
                           then baseHappiness - min 20 (real unconnectedCount)
                           else baseHappiness);
          baseHappiness = happinessEvents_part003 (activeEvent ns) baseHappiness
      in st\<lparr> newStats := ns\<lparr> happiness := happinessFinish (crimeRate ns) baseHappiness \<rparr> \<rparr>)"

text \<open>The state of part_003 once income and expenses are applied, with the grid as the
  census left it.\<close>

definition simBeforeDebt_part003 ::
  "Heap \<Rightarrow> 'a CityStats_scheme \<Rightarrow> Grid \<Rightarrow> real \<Rightarrow> js_error + (Grid \<times> 'a Sim)" where
  "simBeforeDebt_part003 h currentStats grid rnd =
     (case simCensus_part003 grid (simStart h currentStats) of
        Inl e \<Rightarrow> Inl e
      | Inr (grid', st) \<Rightarrow>
          Inr (grid', simEconomy_part003 rnd (simPopulation (simGauges st))))"

text \<open>\<open>updateSimulation(currentStats, grid)\<close> of part_003: the returned stats, the store
  and the argument grid as the call leaves them, or the exception thrown.\<close>

definition updateSimulation_part003 ::
  "Heap \<Rightarrow> 'a CityStats_scheme \<Rightarrow> Grid \<Rightarrow> real
     \<Rightarrow> js_error + ('a CityStats_scheme \<times> Heap \<times> Grid)" where
  "updateSimulation_part003 h currentStats grid rnd =
     (case simBeforeDebt_part003 h currentStats grid rnd of
        Inl e \<Rightarrow> Inl e
      | Inr (grid', st) \<Rightarrow>
          let st = simDebtSpiral st;
              st = simJobs st;
              st = simHappiness_part003 grid' st
          in Inr (newStats st, heap st, grid'))"

section \<open>The call of updateSimulation as its caller sees it\<close>

text \<open>
  What the caller of \<open>updateSimulation\<close> can reach before and after the call: the stats
  objects, by address, their nested objects, and the tile objects of the grid. The argument
  \<open>currentStats\<close> is the address of a stats object. \<open>let newStats = { ...currentStats }\<close>
  makes a new stats object, at the first address that holds none, every assignment
  \<open>newStats.f = v\<close> of the body goes to that object, and \<open>return newStats\<close> returns its
  address. The body has no assignment to a field of \<open>currentStats\<close>, and in simulation.ts
  none to a tile; part_003 assigns to \<open>tile.hasRoadAccess\<close>.
\<close>

record 'a Memory =
  nested :: Heap
  statsAt :: "ref \<Rightarrow> 'a CityStats_scheme"
  nextStats :: ref
  tiles :: Grid

definition updateSimulation_call :: "'a Memory \<Rightarrow> ref \<Rightarrow> real \<Rightarrow> ref \<times> 'a Memory" where
  "updateSimulation_call m currentStats rnd =
     (case updateSimulation (nested m) (statsAt m currentStats) (tiles m) rnd of
        (ns, h) \<Rightarrow>
          (nextStats m,
           m\<lparr> nested := h, statsAt := (statsAt m)(nextStats m := ns),
              nextStats := nextStats m + 1 \<rparr>))"

definition updateSimulation_part003_call ::
  "'a Memory \<Rightarrow> ref \<Rightarrow> real \<Rightarrow> js_error + (ref \<times> 'a Memory)" where
  "updateSimulation_part003_call m currentStats rnd =
     (case updateSimulation_part003 (nested m) (statsAt m currentStats) (tiles m) rnd of
        Inl e \<Rightarrow> Inl e
      | Inr (ns, h, grid') \<Rightarrow>
          Inr (nextStats m,
               m\<lparr> nested := h, statsAt := (statsAt m)(nextStats m := ns),
                  nextStats := nextStats m + 1, tiles := grid' \<rparr>))"

text \<open>The initial stats at address 0 and a grid of one house.\<close>

definition houseMemory :: "unit Memory" where
  "houseMemory =
     \<lparr> nested = INITIAL_HEAP, statsAt = (\<lambda>_. INITIAL_STATS), nextStats = 1,
       tiles = [[sampleTile 0 0 Residential]] \<rparr>"

section \<open>Auxiliary notions for the properties of the simulation\<close>

text \<open>A grid is rectangular when every row is as long as row 0 (a grid without rows
  is).\<close>

definition rectangular :: "Grid \<Rightarrow> bool" where
  "rectangular g \<longleftrightarrow> list_all (\<lambda>row. length row = length (g ! 0)) g"

text \<open>The grid with the road-access flag of every tile blanked: two grids with the same
  image differ in these flags at most.\<close>

definition eraseAccess :: "Grid \<Rightarrow> Grid" where
  "eraseAccess g = map (map (\<lambda>t. t\<lparr> hasRoadAccess := None \<rparr>)) g"

text \<open>The empty \<open>n\<close> by \<open>n\<close> grid: every tile None, no pollution.\<close>

definition emptyGrid :: "nat \<Rightarrow> Grid" where
  "emptyGrid n =
     map (\<lambda>y. map (\<lambda>x. \<lparr> tileX = int x, tileY = int y, buildingType = BNone,
                          pollution = Some 0, hasRoadAccess = None \<rparr>) [0 ..< n]) [0 ..< n]"

text \<open>
  The step of simulation.ts with the statement \<open>newStats.happiness -= 5\<close> of the debt
  branch deleted, and nothing else changed.
\<close>

definition simDebtSpiral_noHit :: "'a Sim \<Rightarrow> 'a Sim" where
  "simDebtSpiral_noHit st =
     (let ns = newStats st
      in if money ns < 0 then
           let debtService = \<bar>money ns\<bar> * 0.01;
               ns = ns\<lparr> money := money ns - real_of_int \<lfloor>debtService\<rfloor> \<rparr>;
               bud = budgetAt (heap st) (budget ns);
               h = (heap st)\<lparr> budgetAt := (budgetAt (heap st))
                      (budget ns := bud\<lparr> expenses := expenses bud + real_of_int \<lfloor>debtService\<rfloor> \<rparr>) \<rparr>
           in st\<lparr> newStats := ns, heap := h \<rparr>
         else st)"

definition updateSimulation_noHit ::
  "Heap \<Rightarrow> 'a CityStats_scheme \<Rightarrow> Grid \<Rightarrow> real \<Rightarrow> 'a CityStats_scheme \<times> Heap" where
  "updateSimulation_noHit h currentStats grid rnd =
     (let st = simBeforeDebt h currentStats grid rnd;
          st = simDebtSpiral_noHit st;
          st = simJobs st;
          st = simHappiness grid st
      in (newStats st, heap st))"

section \<open>Agent action generator (localAiService.ts, in constants.tsx)\<close>

text \<open>
  The network is an oracle: \<open>net i\<close> is what attempt \<open>i\<close> of the request meets. Either
  \<open>fetch\<close> throws (a network error, or the abort that the five-minute timer triggers while
  the request is pending), or a response with a status arrives. The timer is cleared as
  soon as \<open>fetch\<close> has resolved, that is when the headers are there, so reading the body
  (\<open>await response.text()\<close>, \<open>await response.json()\<close>) has no time limit: it throws (so
  does the access \<open>data.choices[0].message.content\<close>), it never settles, or it yields the
  content: a string, a value that is \<open>null\<close>, \<open>undefined\<close> or otherwise falsy, or a truthy
  value that is not a string.
\<close>

datatype Content = Text string | Missing | NonText

datatype ResponseBody = BodyThrows | BodyStalls | Body Content

datatype FetchOutcome = FetchThrows | Response nat ResponseBody

text \<open>What awaiting a promise gives: its value, or nothing when it never settles.\<close>

datatype 'a Promise = Pending | Settled 'a

definition MAX_RETRIES :: nat where
  "MAX_RETRIES = 1"

definition response_ok :: "nat \<Rightarrow> bool" where
  "response_ok status \<longleftrightarrow> 200 \<le> status \<and> status \<le> 299"

text \<open>The loop \<open>for (let i = 0; i <= MAX_RETRIES; i++)\<close> of \<open>callLocalAI\<close>, from attempt
  \<open>i\<close> on. \<open>Missing\<close> is the returned \<open>null\<close>. An exception inside the \<open>try\<close> leads to
  the next attempt, or to \<open>null\<close> after the last one; a status that is not 2xx leads to
  the next attempt only when it is 500 or above.\<close>

function callLocalAI_from :: "(nat \<Rightarrow> FetchOutcome) \<Rightarrow> nat \<Rightarrow> Content Promise" where
  "callLocalAI_from net i =
     (if i \<le> MAX_RETRIES then
        (case net i of
           FetchThrows \<Rightarrow>
             if i < MAX_RETRIES then callLocalAI_from net (i + 1) else Settled Missing
         | Response status body \<Rightarrow>
             if \<not> response_ok status then
               (case body of
                  BodyThrows \<Rightarrow>
                    if i < MAX_RETRIES then callLocalAI_from net (i + 1) else Settled Missing
                | BodyStalls \<Rightarrow> Pending
                | Body errorText \<Rightarrow>
                    if status \<ge> 500 \<and> i < MAX_RETRIES then callLocalAI_from net (i + 1)
                    else Settled Missing)
             else
               (case body of
                  BodyThrows \<Rightarrow>
                    if i < MAX_RETRIES then callLocalAI_from net (i + 1) else Settled Missing
                | BodyStalls \<Rightarrow> Pending
                | Body content \<Rightarrow> Settled content))
      else Settled Missing)"
  by pat_completeness auto
termination
  by (relation "measure (\<lambda>(net, i). Suc MAX_RETRIES - i)") auto

declare callLocalAI_from.simps [simp del]

definition callLocalAI :: "(nat \<Rightarrow> FetchOutcome) \<Rightarrow> Content Promise" where
  "callLocalAI net = callLocalAI_from net 0"

text \<open>\<open>AIAction\<close>; its fields \<open>action\<close>, \<open>buildingType\<close>, \<open>x\<close>, \<open>y\<close> are called
  \<open>actionKind\<close>, \<open>actionBuildingType\<close>, \<open>actionX\<close>, \<open>actionY\<close>.\<close>

record AIAction =
  actionKind :: string
  actionBuildingType :: "BuildingType option"
  actionX :: real
  actionY :: real
  reasoning :: string
  failedAttempt :: "(real \<times> real) option"

definition mockGameAction :: AIAction where
  "mockGameAction =
     \<lparr> actionKind = ''WAIT'', actionBuildingType = None, actionX = 0, actionY = 0,
       reasoning = ''AI is offline (Mock Mode). Holding position.'',
       failedAttempt = None \<rparr>"

text \<open>The match of \<open>/\{[\s\S]*\}/\<close>: from the first opening brace to the last closing
  brace after it, if there is one.\<close>

definition extractJson :: "string \<Rightarrow> string option" where
  "extractJson content =
     (let fromBrace = dropWhile (\<lambda>c. c \<noteq> CHR ''{'') content
      in if fromBrace = [] then None
         else if CHR ''}'' \<in> set (tl fromBrace)
         then Some (rev (dropWhile (\<lambda>c. c \<noteq> CHR ''}'') (rev fromBrace)))
         else None)"

text \<open>JSON values; \<open>JSON.parse\<close> is a parameter of the model (\<open>None\<close>: it throws).\<close>

datatype Json =
    JNull | JBool bool | JNum real | JStr string | JArr "Json list"
  | JObj "(string \<times> Json) list"

text \<open>Reading a property: of \<open>null\<close> it throws, of an object it is the last entry of that
  name, of anything else \<open>undefined\<close>.\<close>

definition jsonField :: "Json \<Rightarrow> string \<Rightarrow> js_error + Json option" where
  "jsonField v k =
     (case v of
        JNull \<Rightarrow> Inl TypeError
      | JObj kvs \<Rightarrow> Inr (map_of (rev kvs) k)
      | _ \<Rightarrow> Inr None)"

text \<open>What \<open>generateGameAction\<close> returns: an action it has built itself, or the parsed
  object as it is.\<close>

datatype ActionResult = Made AIAction | Parsed Json

text \<open>The enforcement layer: a BUILD with numeric in-range coordinates on an occupied
  tile is turned into a WAIT that reports the attempt. Coordinates that are not whole
  numbers, a grid without rows and short rows make the tile access throw.\<close>

definition enforce :: "Grid \<Rightarrow> Json \<Rightarrow> js_error + ActionResult" where
  "enforce grid action =
     (case jsonField action ''action'' of
        Inl e \<Rightarrow> Inl e
      | Inr kind \<Rightarrow>
          if kind = Some (JStr ''BUILD'') then
            (case (jsonField action ''x'', jsonField action ''y'') of
               (Inr (Some (JNum x)), Inr (Some (JNum y))) \<Rightarrow>
                 if x \<ge> 0 then
                   (if grid = [] then Inl TypeError
                    else if x < real (length (grid ! 0)) \<and> y \<ge> 0 \<and> y < real (length grid) then
                      (if y = real_of_int \<lfloor>y\<rfloor> \<and> x = real_of_int \<lfloor>x\<rfloor>
                       then (case tileAt grid \<lfloor>x\<rfloor> \<lfloor>y\<rfloor> of
                               Inr (Some targetTile) \<Rightarrow>
                                 if buildingType targetTile \<noteq> BNone
                                 then Inr (Made
                                   \<lparr> actionKind = ''WAIT'', actionBuildingType = None,
                                     actionX = 0, actionY = 0,
                                     reasoning = ''Surveyors found site occupied. Conserving funds.'',
                                     failedAttempt = Some (x, y) \<rparr>)
                                 else Inr (Parsed action)
                             | _ \<Rightarrow> Inl TypeError)
                       else Inl TypeError)
                    else Inr (Parsed action))
                 else Inr (Parsed action)
             | _ \<Rightarrow> Inr (Parsed action))
          else Inr (Parsed action))"

text \<open>
  \<open>generateGameAction\<close>. Building the prompt from the stats and the grid has no part in
  the result and is left out. An empty string is falsy, like \<open>null\<close>; \<open>match\<close> on a value
  that is not a string throws inside the \<open>try\<close>; every exception inside the \<open>try\<close> ends
  in the mock action. While \<open>await callLocalAI(...)\<close> is pending, so is the result.
\<close>

definition generateGameAction ::
  "(string \<Rightarrow> Json option) \<Rightarrow> (nat \<Rightarrow> FetchOutcome) \<Rightarrow> Grid
     \<Rightarrow> ActionResult Promise" where
  "generateGameAction JSON_parse net grid =
     (case callLocalAI net of
        Pending \<Rightarrow> Pending
      | Settled Missing \<Rightarrow> Settled (Made mockGameAction)
      | Settled NonText \<Rightarrow> Settled (Made mockGameAction)
      | Settled (Text content) \<Rightarrow>
          if content = [] then Settled (Made mockGameAction)
          else
            (case extractJson content of
               None \<Rightarrow> Settled (Made mockGameAction)
             | Some jsonStr \<Rightarrow>
                 (case JSON_parse jsonStr of
                    None \<Rightarrow> Settled (Made mockGameAction)
                  | Some action \<Rightarrow>
                      (case enforce grid action of
                         Inl e \<Rightarrow> Settled (Made mockGameAction)
                       | Inr result \<Rightarrow> Settled result))))"

text \<open>An attempt fails when \<open>fetch\<close> throws, the status is not 2xx, or no body is
  read; its body read settles unless the body stalls.\<close>

definition attemptFails :: "FetchOutcome \<Rightarrow> bool" where
  "attemptFails outcome =
     (case outcome of
        FetchThrows \<Rightarrow> True
      | Response status body \<Rightarrow>
          \<not> response_ok status \<or> body = BodyThrows \<or> body = BodyStalls)"

definition attemptSettles :: "FetchOutcome \<Rightarrow> bool" where
  "attemptSettles outcome =
     (case outcome of
        FetchThrows \<Rightarrow> True
      | Response status body \<Rightarrow> body \<noteq> BodyStalls)"

section \<open>Environment step: simulateEnvironment (utils/simulation.ts)\<close>

text \<open>\<open>Math.atan2\<close> and \<open>Math.round\<close> on the reals (signed zeros are outside the
  model; \<open>Math.round\<close> rounds halves up).\<close>

definition Math_atan2 :: "real \<Rightarrow> real \<Rightarrow> real" where
  "Math_atan2 b a =
     (if a > 0 then arctan (b / a)
      else if a < 0 \<and> b \<ge> 0 then arctan (b / a) + pi
      else if a < 0 \<and> b < 0 then arctan (b / a) - pi
      else if b > 0 then pi / 2
      else if b < 0 then - pi / 2
      else 0)"

definition Math_round :: "real \<Rightarrow> int" where
  "Math_round v = \<lfloor>v + 1 / 2\<rfloor>"

text \<open>The wind: \<open>r1\<close>, \<open>r2\<close>, \<open>r3\<close> are the values of the three calls of
  \<open>Math.random()\<close>, the last two made only when the wind changes.\<close>

definition windStep :: "real \<Rightarrow> real \<Rightarrow> real \<Rightarrow> Vec2 \<Rightarrow> real \<Rightarrow> Vec2 \<times> real" where
  "windStep r1 r2 r3 wind speed =
     (if r1 < 0.05 then
        let angle = Math_atan2 (vecY wind) (vecX wind);
            newAngle = angle + (r2 * 1.0 - 0.5);
            wind = wind\<lparr> vecX := cos newAngle \<rparr>;
            wind = wind\<lparr> vecY := sin newAngle \<rparr>;
            speed = min 1.0 (max 0.1 (speed + (r3 * 0.2 - 0.1)))
        in (wind, speed)
      else (wind, speed))"

text \<open>Reading \<open>(newGrid[y][x].pollution || 0)\<close> and writing \<open>newGrid[y][x].pollution\<close>.\<close>

definition getPollution :: "Grid \<Rightarrow> nat \<Rightarrow> nat \<Rightarrow> real" where
  "getPollution g y x = orZero (pollution (g ! y ! x))"

definition setPollution :: "Grid \<Rightarrow> nat \<Rightarrow> nat \<Rightarrow> real \<Rightarrow> Grid" where
  "setPollution g y x p = g[y := (g ! y)[x := (g ! y ! x)\<lparr> pollution := Some p \<rparr>]]"

text \<open>A. Generation.\<close>

definition envGenerate :: "nat \<Rightarrow> nat \<Rightarrow> Grid \<Rightarrow> Grid" where
  "envGenerate y x g =
     (let config = BUILDINGS (buildingType (g ! y ! x))
      in if truthy (cfgPollution config)
         then setPollution g y x
                (min 100 (getPollution g y x + orZero (cfgPollution config) * 2))
         else g)"

text \<open>B. Decay.\<close>

definition envDecay :: "nat \<Rightarrow> nat \<Rightarrow> Grid \<Rightarrow> Grid" where
  "envDecay y x g =
     (let decay = 0.90;
          decay = (if buildingType (g ! y ! x) = Park then 0.70 else decay);
          decay = (if buildingType (g ! y ! x) = Water then 0.95 else decay)
      in setPollution g y x (getPollution g y x * decay))"

text \<open>C. Advection. The target tile is written first and the tile itself afterwards, so
  a tile that is its own target ends with what it had. A target that is within the bounds
  but missing from a short row makes the access throw.\<close>

definition envAdvect ::
  "Vec2 \<Rightarrow> real \<Rightarrow> nat \<Rightarrow> nat \<Rightarrow> nat \<Rightarrow> nat \<Rightarrow> Grid \<Rightarrow> js_error + Grid" where
  "envAdvect wind speed GRID_W GRID_H y x g =
     (if getPollution g y x > 1 then
        let moveAmount = getPollution g y x * 0.3 * speed;
            targetX = real x + vecX wind;
            targetY = real y + vecY wind;
            tx = Math_round targetX;
            ty = Math_round targetY
        in if tx \<ge> 0 \<and> tx < int GRID_W \<and> ty \<ge> 0 \<and> ty < int GRID_H then
             (if nat tx < length (g ! nat ty) then
                let g = setPollution g (nat ty) (nat tx)
                          (getPollution g (nat ty) (nat tx) + moveAmount)
                in Inr (setPollution g y x (getPollution g y x - moveAmount))
              else Inl TypeError)
           else Inr (setPollution g y x (getPollution g y x - moveAmount))
      else Inr g)"

text \<open>Validation: residues below 0.5 become 0.\<close>

definition envValidate :: "nat \<Rightarrow> nat \<Rightarrow> Grid \<Rightarrow> Grid" where
  "envValidate y x g = (if getPollution g y x < 0.5 then setPollution g y x 0 else g)"

text \<open>The body of the two nested loops, with \<open>totalPollution\<close> and \<open>pollutedTiles\<close>. A
  tile missing from a short row makes \<open>tile.buildingType\<close> throw.\<close>

definition envTile ::
  "Vec2 \<Rightarrow> real \<Rightarrow> nat \<Rightarrow> nat \<Rightarrow> nat \<Rightarrow> nat \<Rightarrow> Grid \<times> real \<times> nat
     \<Rightarrow> js_error + (Grid \<times> real \<times> nat)" where
  "envTile wind speed GRID_W GRID_H y x acc =
     (case acc of (g, totalPollution, pollutedTiles) \<Rightarrow>
        if \<not> x < length (g ! y) then Inl TypeError
        else
          (case envAdvect wind speed GRID_W GRID_H y x (envDecay y x (envGenerate y x g)) of
             Inl e \<Rightarrow> Inl e
           | Inr g \<Rightarrow>
               let g = envValidate y x g
               in if getPollution g y x > 0
                  then Inr (g, totalPollution + getPollution g y x, pollutedTiles + 1)
                  else Inr (g, totalPollution, pollutedTiles)))"

fun envLoop ::
  "Vec2 \<Rightarrow> real \<Rightarrow> nat \<Rightarrow> nat \<Rightarrow> (nat \<times> nat) list \<Rightarrow> Grid \<times> real \<times> nat
     \<Rightarrow> js_error + (Grid \<times> real \<times> nat)" where
  "envLoop wind speed GRID_W GRID_H [] acc = Inr acc"
| "envLoop wind speed GRID_W GRID_H ((y, x) # ps) acc =
     (case envTile wind speed GRID_W GRID_H y x acc of
        Inl e \<Rightarrow> Inl e
      | Inr acc' \<Rightarrow> envLoop wind speed GRID_W GRID_H ps acc')"

text \<open>The result: the new grid and the \<open>windUpdate\<close> object.\<close>

record WindUpdate =
  updWindDirection :: Vec2
  updWindSpeed :: real
  updPollutionLevel :: real

record EnvResult =
  newGrid :: Grid
  windUpdate :: WindUpdate

text \<open>
  \<open>simulateEnvironment(grid, stats)\<close>. The rows are visited for \<open>y\<close> from 0 to
  \<open>GRID_H - 1\<close> and in each row \<open>x\<close> from 0 to \<open>GRID_W - 1\<close>, on the deep copy of the grid.
  \<open>grid[0].length\<close> of a grid without rows throws.
\<close>

definition simulateEnvironment ::
  "Grid \<Rightarrow> 'a CityStats_scheme \<Rightarrow> real \<Rightarrow> real \<Rightarrow> real \<Rightarrow> js_error + EnvResult" where
  "simulateEnvironment grid stats r1 r2 r3 =
     (case windStep r1 r2 r3 (windDirection stats) (windSpeed stats) of (wind, speed) \<Rightarrow>
        if grid = [] then Inl TypeError
        else
          let GRID_H = length grid;
              GRID_W = length (grid ! 0)
          in (case envLoop wind speed GRID_W GRID_H
                     (List.product [0 ..< GRID_H] [0 ..< GRID_W]) (grid, 0, 0) of
                Inl e \<Rightarrow> Inl e
              | Inr (g, totalPollution, pollutedTiles) \<Rightarrow>
                  let avgPollution = (if pollutedTiles > 0
                                      then totalPollution / real (GRID_W * GRID_H) else 0)
                  in Inr \<lparr> newGrid = g,
                           windUpdate = \<lparr> updWindDirection = wind, updWindSpeed = speed,
                             updPollutionLevel =
                               min 100 (real_of_int \<lfloor>avgPollution * 5\<rfloor>) \<rparr> \<rparr>))"

text \<open>
  Repeated calls, as the game loop of App.tsx makes them: the new grid replaces the grid
  and the wind update is merged into the stats. \<open>draws n\<close> are the random values of call
  \<open>n\<close>.
\<close>

fun envRun ::
  "(nat \<Rightarrow> real \<times> real \<times> real) \<Rightarrow> nat \<Rightarrow> Grid \<Rightarrow> 'a CityStats_scheme
     \<Rightarrow> js_error + (Grid \<times> 'a CityStats_scheme)" where
  "envRun draws 0 grid stats = Inr (grid, stats)"
| "envRun draws (Suc n) grid stats =
     (case envRun draws n grid stats of
        Inl e \<Rightarrow> Inl e
      | Inr (g, s) \<Rightarrow>
          (case draws n of (r1, r2, r3) \<Rightarrow>
             (case simulateEnvironment g s r1 r2 r3 of
                Inl e \<Rightarrow> Inl e
              | Inr res \<Rightarrow>
                  Inr (newGrid res,
                       s\<lparr> windDirection := updWindDirection (windUpdate res),
                          windSpeed := updWindSpeed (windUpdate res),
                          pollutionLevel := updPollutionLevel (windUpdate res) \<rparr>))))"

text \<open>The total pollution of a grid, the grids without a pollution source, and the
  grids whose tiles hold no negative pollution.\<close>

definition gridPollution :: "Grid \<Rightarrow> real" where
  "gridPollution g = sum_list (map (\<lambda>t. orZero (pollution t)) (concat g))"

definition noSources :: "Grid \<Rightarrow> bool" where
  "noSources g \<longleftrightarrow>
     list_all (\<lambda>t. \<not> orZero (cfgPollution (BUILDINGS (buildingType t))) > 0) (concat g)"

definition pollutionNonNegative :: "Grid \<Rightarrow> bool" where
  "pollutionNonNegative g \<longleftrightarrow> list_all (\<lambda>t. 0 \<le> orZero (pollution t)) (concat g)"

text \<open>Notions for the proofs about the environment step: the positions that hold a tile,
  the pollution as a function of the position, its sum over a list of positions, and the
  grids of \<open>h\<close> rows of \<open>w\<close> tiles that hold no negative pollution and no source.\<close>

definition validPos :: "Grid \<Rightarrow> nat \<Rightarrow> nat \<Rightarrow> bool" where
  "validPos g y x \<longleftrightarrow> y < length g \<and> x < length (g ! y)"

definition pol :: "Grid \<Rightarrow> nat \<times> nat \<Rightarrow> real" where
  "pol g = (\<lambda>(y, x). getPollution g y x)"

definition posSum :: "(nat \<times> nat \<Rightarrow> real) \<Rightarrow> (nat \<times> nat) list \<Rightarrow> real" where
  "posSum f ps = sum_list (map f ps)"

definition cleanGrid :: "nat \<Rightarrow> nat \<Rightarrow> Grid \<Rightarrow> bool" where
  "cleanGrid w h g \<longleftrightarrow>
     length g = h \<and> (\<forall>y < h. length (g ! y) = w)
     \<and> (\<forall>y < h. \<forall>x < w. 0 \<le> pol g (y, x))
     \<and> (\<forall>y < h. \<forall>x < w.
           \<not> orZero (cfgPollution (BUILDINGS (buildingType (g ! y ! x)))) > 0)"

text \<open>A same-shape grid with the same buildings.\<close>

definition sameLayout :: "Grid \<Rightarrow> Grid \<Rightarrow> bool" where
  "sameLayout g' g \<longleftrightarrow>
     map length g' = map length g
     \<and> (\<forall>y x. buildingType (g' ! y ! x) = buildingType (g ! y ! x))"

text \<open>A grid of two rows of two tiles, one of them holding pollution.\<close>

definition smokyGrid :: Grid where
  "smokyGrid =
     [[(sampleTile 0 0 BNone)\<lparr> pollution := Some 3 \<rparr>, sampleTile 1 0 Road],
      [sampleTile 0 1 Park, sampleTile 1 1 Water]]"


section \<open>Properties of the action layer\<close>

text \<open>
  C1. At every in-bounds coordinate that holds a tile: a Build of a type other than Bridge
  on a Water tile is rejected whatever the money; a Build of Bridge on a tile that is not
  Water is rejected; a Build on a tile that is neither None nor Water is rejected; a
  Demolish on a None tile is rejected. Each rejection returns false and leaves the grid
  and the stats as they were. Both versions of \<open>performAction\<close> behave so.
\<close>

theorem performAction_rejects:
  assumes "0 \<le> x" "x < GRID_SIZE" "0 \<le> y" "y < GRID_SIZE"
    and "tileAt g x y = Inr (Some t)"
  shows "(buildingType t = Water \<and> ty \<noteq> Bridge \<longrightarrow>
            performAction g s ''BUILD'' (Some ty) x y = Inr (False, g, s) \<and>
            performAction_part001 g s' ''BUILD'' (Some ty) x y = Inr (False, g, s'))
       \<and> (buildingType t \<noteq> Water \<longrightarrow>
            performAction g s ''BUILD'' (Some Bridge) x y = Inr (False, g, s) \<and>
            performAction_part001 g s' ''BUILD'' (Some Bridge) x y = Inr (False, g, s'))
       \<and> (buildingType t \<noteq> BNone \<and> buildingType t \<noteq> Water \<longrightarrow>
            performAction g s ''BUILD'' (Some ty) x y = Inr (False, g, s) \<and>
            performAction_part001 g s' ''BUILD'' (Some ty) x y = Inr (False, g, s'))
       \<and> (buildingType t = BNone \<longrightarrow>
            performAction g s ''DEMOLISH'' ty' x y = Inr (False, g, s) \<and>
            performAction_part001 g s' ''DEMOLISH'' ty' x y = Inr (False, g, s'))"
  using assms by (simp add: performAction_def performAction_part001_def Let_def)

lemma sampleRow_tiles:
  "tileAt sampleRow 0 0 = Inr (Some (sampleTile 0 0 Water))"
  "tileAt sampleRow 1 0 = Inr (Some (sampleTile 1 0 Road))"
  "tileAt sampleRow 2 0 = Inr (Some (sampleTile 2 0 BNone))"
  "tileAt sampleRow 3 0 = Inr (Some (sampleTile 3 0 Bridge))"
  by (simp_all add: tileAt_def sampleRow_def)

text \<open>The four rejections on a one-row grid (Water, Road, None, Bridge).\<close>

theorem performAction_rejects_witness:
  "performAction sampleRow (sampleAppStats 1000000) ''BUILD'' (Some Residential) 0 0
     = Inr (False, sampleRow, sampleAppStats 1000000)
   \<and> performAction_part001 sampleRow INITIAL_STATS ''BUILD'' (Some Residential) 0 0
     = Inr (False, sampleRow, INITIAL_STATS)
   \<and> performAction sampleRow (sampleAppStats 1000000) ''BUILD'' (Some Bridge) 2 0
     = Inr (False, sampleRow, sampleAppStats 1000000)
   \<and> performAction sampleRow (sampleAppStats 1000000) ''BUILD'' (Some Park) 1 0
     = Inr (False, sampleRow, sampleAppStats 1000000)
   \<and> performAction sampleRow (sampleAppStats 1000000) ''DEMOLISH'' None 2 0
     = Inr (False, sampleRow, sampleAppStats 1000000)"
  using performAction_rejects [of 0 0 sampleRow "sampleTile 0 0 Water" Residential
          "sampleAppStats 1000000" INITIAL_STATS None]
        performAction_rejects [of 2 0 sampleRow "sampleTile 2 0 BNone" Residential
          "sampleAppStats 1000000" INITIAL_STATS None]
        performAction_rejects [of 1 0 sampleRow "sampleTile 1 0 Road" Park
          "sampleAppStats 1000000" INITIAL_STATS None]
  by (simp add: sampleRow_tiles GRID_SIZE_def sampleTile_def)

lemma setTile_onlyTileChanged: "onlyTileChanged g (setTile g x y t) x y"
proof -
  have "length (g[nat y := (g ! nat y)[nat x := t]] ! i) = length (g ! i)"
    if "i < length g" for i
    using that by (cases "i = nat y") simp_all
  moreover have "g[nat y := (g ! nat y)[nat x := t]] ! i ! j = g ! i ! j"
    if "i < length g" "j < length (g ! i)" "(i, j) \<noteq> (nat y, nat x)" for i j
    using that by (cases "i = nat y") (auto simp: nth_list_update)
  ultimately show ?thesis
    by (simp add: onlyTileChanged_def setTile_def)
qed

lemma setTile_at:
  "tileAt g x y = Inr (Some t) \<Longrightarrow> tileAt (setTile g x y t') x y = Inr (Some t')"
  by (auto simp: tileAt_def setTile_def split: if_splits)


lemma sampleAppStats_simps:
  "money (sampleAppStats m) = m"
  "unlockedGridSize (sampleAppStats m) = 45"
  "research (sampleAppStats m) = \<lparr> isResearchCentreBuilt = False, landExpansionLevel = 0,
      isMarsDiscovered = False, nauticalLevel = 0 \<rparr>"
  "(sampleAppStats m)\<lparr> money := m' \<rparr> = sampleAppStats m'"
  by (simp_all add: sampleAppStats_def INITIAL_STATS_def CityStats.defs AppStats.defs)


text \<open>
  C3. At every in-bounds coordinate that holds a tile: Demolish of a Bridge is accepted and
  the tile at that coordinate is afterwards the same tile with building type Water;
  Demolish of any other building (a type that is not None, Water or Bridge) is accepted and
  the tile is afterwards the same tile with building type None; no other tile changes;
  Demolish of a None tile is rejected. An accepted Demolish lowers money by the flat fee 5
  and has no condition on money, so it goes through at any balance, negative ones
  included.
\<close>

theorem performAction_demolish:
  assumes "0 \<le> x" "x < GRID_SIZE" "0 \<le> y" "y < GRID_SIZE"
    and "tileAt g x y = Inr (Some t)"
  shows "(buildingType t = Bridge \<longrightarrow>
            (\<exists>g'. performAction g s ''DEMOLISH'' tyo x y
                     = Inr (True, g', s\<lparr> money := money s - 5 \<rparr>)
                 \<and> tileAt g' x y = Inr (Some (t\<lparr> buildingType := Water \<rparr>))
                 \<and> onlyTileChanged g g' x y)
          \<and> (\<exists>g'. performAction_part001 g p ''DEMOLISH'' tyo x y
                     = Inr (True, g', p\<lparr> money := money p - 5 \<rparr>)
                 \<and> tileAt g' x y = Inr (Some (t\<lparr> buildingType := Water \<rparr>))
                 \<and> onlyTileChanged g g' x y))
       \<and> (buildingType t \<notin> {BNone, Water, Bridge} \<longrightarrow>
            (\<exists>g'. performAction g s ''DEMOLISH'' tyo x y
                     = Inr (True, g', s\<lparr> money := money s - 5 \<rparr>)
                 \<and> tileAt g' x y = Inr (Some (t\<lparr> buildingType := BNone \<rparr>))
                 \<and> onlyTileChanged g g' x y)
          \<and> (\<exists>g'. performAction_part001 g p ''DEMOLISH'' tyo x y
                     = Inr (True, g', p\<lparr> money := money p - 5 \<rparr>)
                 \<and> tileAt g' x y = Inr (Some (t\<lparr> buildingType := BNone \<rparr>))
                 \<and> onlyTileChanged g g' x y))
       \<and> (buildingType t = BNone \<longrightarrow>
            performAction g s ''DEMOLISH'' tyo x y = Inr (False, g, s)
          \<and> performAction_part001 g p ''DEMOLISH'' tyo x y = Inr (False, g, p))"
  using assms
  by (simp add: performAction_def performAction_part001_def BuildingType_ResearchCentre_def
      Let_def setTile_at setTile_onlyTileChanged)

text \<open>Demolition at a balance of -300: the bridge becomes water, the road becomes empty
  land, the empty tile is refused.\<close>

theorem performAction_demolish_witness:
  "performAction sampleRow (sampleAppStats (-300)) ''DEMOLISH'' None 3 0
     = Inr (True, [[sampleTile 0 0 Water, sampleTile 1 0 Road, sampleTile 2 0 BNone,
                    sampleTile 3 0 Water]], sampleAppStats (-305))
   \<and> performAction_part001 sampleRow (INITIAL_STATS\<lparr> money := -300 \<rparr>) ''DEMOLISH'' None 1 0
     = Inr (True, [[sampleTile 0 0 Water, sampleTile 1 0 BNone, sampleTile 2 0 BNone,
                    sampleTile 3 0 Bridge]], INITIAL_STATS\<lparr> money := -305 \<rparr>)
   \<and> performAction sampleRow (sampleAppStats (-300)) ''DEMOLISH'' None 2 0
     = Inr (False, sampleRow, sampleAppStats (-300))
   \<and> (\<exists>g'. performAction sampleRow (sampleAppStats (-300)) ''DEMOLISH'' None 3 0
              = Inr (True, g', sampleAppStats (-305))
          \<and> tileAt g' 3 0 = Inr (Some (sampleTile 3 0 Water))
          \<and> onlyTileChanged sampleRow g' 3 0)
   \<and> (\<exists>g'. performAction_part001 sampleRow (INITIAL_STATS\<lparr> money := -300 \<rparr>) ''DEMOLISH''
                None 1 0 = Inr (True, g', INITIAL_STATS\<lparr> money := -305 \<rparr>)
          \<and> tileAt g' 1 0 = Inr (Some (sampleTile 1 0 BNone))
          \<and> onlyTileChanged sampleRow g' 1 0)"
proof -
  have a: "performAction sampleRow (sampleAppStats (-300)) ''DEMOLISH'' None 3 0
     = Inr (True, [[sampleTile 0 0 Water, sampleTile 1 0 Road, sampleTile 2 0 BNone,
                    sampleTile 3 0 Water]], sampleAppStats (-305))"
    by (simp add: performAction_def BuildingType_ResearchCentre_def Let_def GRID_SIZE_def
        sampleRow_tiles sampleAppStats_simps)
       (simp add: setTile_def sampleRow_def sampleTile_def)
  have b: "performAction_part001 sampleRow (INITIAL_STATS\<lparr> money := -300 \<rparr>) ''DEMOLISH'' None 1 0
     = Inr (True, [[sampleTile 0 0 Water, sampleTile 1 0 BNone, sampleTile 2 0 BNone,
                    sampleTile 3 0 Bridge]], INITIAL_STATS\<lparr> money := -305 \<rparr>)"
    by (simp add: performAction_part001_def Let_def GRID_SIZE_def sampleRow_tiles)
       (simp add: setTile_def sampleRow_def sampleTile_def)
  note d3 = performAction_demolish [of 3 0 sampleRow "sampleTile 3 0 Bridge"
          "sampleAppStats (-300)" None "INITIAL_STATS\<lparr> money := -300 \<rparr>"]
  note d1 = performAction_demolish [of 1 0 sampleRow "sampleTile 1 0 Road"
          "sampleAppStats (-300)" None "INITIAL_STATS\<lparr> money := -300 \<rparr>"]
  note d2 = performAction_demolish [of 2 0 sampleRow "sampleTile 2 0 BNone"
          "sampleAppStats (-300)" None "INITIAL_STATS\<lparr> money := -300 \<rparr>"]
  have c: "performAction sampleRow (sampleAppStats (-300)) ''DEMOLISH'' None 2 0
     = Inr (False, sampleRow, sampleAppStats (-300))"
    using d2 by (simp add: sampleRow_tiles GRID_SIZE_def sampleTile_def)
  have w3: "\<exists>g'. performAction sampleRow (sampleAppStats (-300)) ''DEMOLISH'' None 3 0
              = Inr (True, g', sampleAppStats (-305))
          \<and> tileAt g' 3 0 = Inr (Some (sampleTile 3 0 Water))
          \<and> onlyTileChanged sampleRow g' 3 0"
    using d3 by (simp add: sampleRow_tiles GRID_SIZE_def sampleTile_def sampleAppStats_simps)
  have w1: "\<exists>g'. performAction_part001 sampleRow (INITIAL_STATS\<lparr> money := -300 \<rparr>) ''DEMOLISH''
                None 1 0 = Inr (True, g', INITIAL_STATS\<lparr> money := -305 \<rparr>)
          \<and> tileAt g' 1 0 = Inr (Some (sampleTile 1 0 BNone))
          \<and> onlyTileChanged sampleRow g' 1 0"
    using d1 by (simp add: sampleRow_tiles GRID_SIZE_def sampleTile_def)
  from a b c w3 w1 show ?thesis by blast
qed

section \<open>Properties of the economic simulation step\<close>

subsection \<open>Happiness stays within bounds\<close>

lemma happinessFinish_bounds:
  "happinessFinish c b \<in> \<int>" "0 \<le> happinessFinish c b" "happinessFinish c b \<le> 100"
proof -
  have "max 0 (min 100 (real_of_int k)) \<in> \<int>" for k :: int
    by (simp add: max_def min_def)
  then show "happinessFinish c b \<in> \<int>"
    by (simp add: happinessFinish_def Let_def)
qed (simp_all add: happinessFinish_def Let_def)

lemma simHappiness_bounds:
  "happiness (newStats (simHappiness g st)) \<in> \<int>"
  "0 \<le> happiness (newStats (simHappiness g st))"
  "happiness (newStats (simHappiness g st)) \<le> 100"
  by (simp_all add: simHappiness_def Let_def happinessFinish_bounds)

lemma simHappiness_part003_bounds:
  "happiness (newStats (simHappiness_part003 g st)) \<in> \<int>"
  "0 \<le> happiness (newStats (simHappiness_part003 g st))"
  "happiness (newStats (simHappiness_part003 g st)) \<le> 100"
  by (simp_all add: simHappiness_part003_def Let_def happinessFinish_bounds)

text \<open>On a rectangular grid the census of part_003 reads no missing neighbour, so the
  step returns.\<close>

lemma rectangular_row:
  "rectangular g \<Longrightarrow> i < length g \<Longrightarrow> length (g ! i) = length (g ! 0)"
  by (simp add: rectangular_def list_all_length)

lemma neighbourScan_total:
  "rectangular g \<Longrightarrow> \<exists>b. neighbourScan g ns = Inr b"
proof (induction ns)
  case Nil
  then show ?case by auto
next
  case (Cons p ns)
  obtain nx ny where p: "p = (nx, ny)" by (cases p)
  show ?case
  proof (cases "ny \<ge> 0 \<and> ny < int (length g) \<and> nx \<ge> 0 \<and> nx < int (length (g ! 0))")
    case True
    then have "nat ny < length g" "nat nx < length (g ! nat ny)"
      using rectangular_row [OF Cons.prems, of "nat ny"] by auto
    with True have "tileAt g nx ny = Inr (Some (g ! nat ny ! nat nx))"
      by (simp add: tileAt_def)
    with True Cons p show ?thesis by auto
  next
    case False
    with Cons p show ?thesis by auto
  qed
qed

lemma roadConnected_total: "rectangular g \<Longrightarrow> \<exists>b. roadConnected g t = Inr b"
  by (auto simp: roadConnected_def neighbourScan_total simp del: neighbourScan.simps)

lemma update_shape: "map length (g[i := (g ! i)[j := t]]) = map length g"
proof (cases "i < length g")
  case True
  then show ?thesis by (simp add: map_update list_update_same_conv)
next
  case False
  then show ?thesis by (simp add: list_update_beyond)
qed

lemma rectangular_shape:
  assumes a: "map length g' = map length g" and r: "rectangular g"
  shows "rectangular g'"
proof -
  have l: "length g' = length g" using a by (metis length_map)
  have n: "length (g' ! i) = length (g ! i)" if "i < length g" for i
    using a that l by (metis nth_map)
  show ?thesis
    unfolding rectangular_def list_all_length
  proof (intro allI impI)
    fix i assume i: "i < length g'"
    then have "0 < length g" using l by auto
    with i l n r show "length (g' ! i) = length (g' ! 0)"
      by (metis rectangular_row)
  qed
qed

lemma update_erase:
  "eraseAccess (g[i := (g ! i)[j := (g ! i ! j)\<lparr> hasRoadAccess := c \<rparr>]]) = eraseAccess g"
proof (cases "i < length g")
  case False
  then show ?thesis by (simp add: list_update_beyond)
next
  case i: True
  let ?f = "\<lambda>t :: TileData. t\<lparr> hasRoadAccess := None \<rparr>"
  have row: "map ?f ((g ! i)[j := (g ! i ! j)\<lparr> hasRoadAccess := c \<rparr>]) = map ?f (g ! i)"
  proof (cases "j < length (g ! i)")
    case True
    then show ?thesis by (simp add: map_update list_update_same_conv)
  next
    case False
    then show ?thesis by (simp add: list_update_beyond)
  qed
  have "eraseAccess (g[i := (g ! i)[j := (g ! i ! j)\<lparr> hasRoadAccess := c \<rparr>]])
          = (eraseAccess g)[i := map ?f ((g ! i)[j := (g ! i ! j)\<lparr> hasRoadAccess := c \<rparr>])]"
    by (simp only: eraseAccess_def map_update)
  also have "\<dots> = (eraseAccess g)[i := map ?f (g ! i)]"
    by (simp only: row)
  also have "\<dots> = eraseAccess g"
    using i by (simp add: eraseAccess_def list_update_same_conv)
  finally show ?thesis .
qed

text \<open>What the shared pieces of the loop body leave alone: all of \<open>newStats\<close> but
  \<open>money\<close>, and the store.\<close>

lemma countServices_frame:
  "newStats (countServices b st) = newStats st" "heap (countServices b st) = heap st"
  by (simp_all add: countServices_def Let_def)

lemma countJobs_frame:
  "newStats (countJobs b st) = newStats st" "heap (countJobs b st) = heap st"
  by (simp_all add: countJobs_def Let_def)

lemma applyConfig_frame:
  "(newStats (applyConfig c i st))\<lparr> money := m \<rparr> = (newStats st)\<lparr> money := m \<rparr>"
  "heap (applyConfig c i st) = heap st"
  by (simp_all add: applyConfig_def Let_def)

lemma serviceCosts_frame:
  "newStats (serviceCosts b st) = newStats st" "heap (serviceCosts b st) = heap st"
  by (simp_all add: serviceCosts_def Let_def)

lemma countUniversities_frame:
  "newStats (countUniversities b st) = newStats st" "heap (countUniversities b st) = heap st"
  by (simp_all add: countUniversities_def)

lemma censusTile_frame:
  "(newStats (censusTile t st))\<lparr> money := m \<rparr> = (newStats st)\<lparr> money := m \<rparr>"
  "heap (censusTile t st) = heap st"
  by (simp_all add: censusTile_def Let_def countJobs_frame countServices_frame
      serviceCosts_frame applyConfig_frame)

lemma fold_censusTile_frame:
  "(newStats (fold censusTile ts st))\<lparr> money := m \<rparr> = (newStats st)\<lparr> money := m \<rparr>"
  "heap (fold censusTile ts st) = heap st"
  by (induction ts arbitrary: st) (simp_all add: censusTile_frame)

lemma simCensus_frame:
  "(newStats (simCensus g st))\<lparr> money := m, housingCapacity := c \<rparr>
     = (newStats st)\<lparr> money := m, housingCapacity := c \<rparr>"
  "heap (simCensus g st) = heap st"
  by (simp_all add: simCensus_def Let_def fold_censusTile_frame)

text \<open>The census of part_003: it returns on a rectangular grid, and whenever it returns
  it has changed nothing in the grid but road-access flags, and nothing in the store.\<close>

lemma censusTile_part003_frame:
  assumes "censusTile_part003 i j (g, st) = Inr (g', st')"
  shows "map length g' = map length g" "eraseAccess g' = eraseAccess g" "heap st' = heap st"
    "(newStats st')\<lparr> money := m \<rparr> = (newStats st)\<lparr> money := m \<rparr>"
proof -
  let ?b = "buildingType (g ! i ! j)"
  let ?st = "countUniversities ?b (countServices ?b st)"
  have "map length g' = map length g \<and> eraseAccess g' = eraseAccess g \<and> heap st' = heap st
        \<and> (newStats st')\<lparr> money := m \<rparr> = (newStats st)\<lparr> money := m \<rparr>"
  proof (cases "?b = BNone")
    case True
    with assms show ?thesis
      by (auto simp: censusTile_part003_def Let_def countJobs_frame countServices_frame
          countUniversities_frame)
  next
    case False
    then obtain c where rc: "roadConnected g (g ! i ! j) = Inr c"
      using assms by (auto simp: censusTile_part003_def Let_def split: sum.splits)
    define inc where "inc = (if \<not> c \<and> ?b \<noteq> BNone
        then real_of_int \<lfloor>incomeGen (BUILDINGS ?b) * 0.5\<rfloor> else incomeGen (BUILDINGS ?b))"
    have g': "g' = g[i := (g ! i)[j := (g ! i ! j)\<lparr> hasRoadAccess := Some c \<rparr>]]"
      and st': "st' = countJobs ?b (applyConfig (BUILDINGS ?b) inc ?st)"
      using assms False rc by (simp_all add: censusTile_part003_def Let_def inc_def)
    show ?thesis
      unfolding g' st'
      by (simp add: update_shape update_erase countServices_frame countUniversities_frame
          countJobs_frame applyConfig_frame)
  qed
  then show "map length g' = map length g" "eraseAccess g' = eraseAccess g" "heap st' = heap st"
    "(newStats st')\<lparr> money := m \<rparr> = (newStats st)\<lparr> money := m \<rparr>" by simp_all
qed

lemma censusTile_part003_total:
  assumes "rectangular g"
  shows "\<exists>g' st'. censusTile_part003 i j (g, st) = Inr (g', st')"
proof -
  obtain b where "roadConnected g (g ! i ! j) = Inr b"
    using roadConnected_total [OF assms] by blast
  then show ?thesis
    by (simp add: censusTile_part003_def Let_def)
qed

lemma censusLoop_part003_frame:
  "censusLoop_part003 ps (g, st) = Inr (g', st') \<Longrightarrow>
     map length g' = map length g \<and> eraseAccess g' = eraseAccess g \<and> heap st' = heap st
     \<and> (newStats st')\<lparr> money := m \<rparr> = (newStats st)\<lparr> money := m \<rparr>"
proof (induction ps arbitrary: g st)
  case Nil
  then show ?case by simp
next
  case (Cons p ps)
  obtain i j where p: "p = (i, j)" by (cases p)
  from Cons.prems p obtain g1 st1 where
    s1: "censusTile_part003 i j (g, st) = Inr (g1, st1)"
    and s2: "censusLoop_part003 ps (g1, st1) = Inr (g', st')"
    by (auto split: sum.splits)
  show ?case
    using Cons.IH [OF s2] censusTile_part003_frame [OF s1] by simp
qed

lemma censusLoop_part003_total:
  "rectangular g \<Longrightarrow> \<exists>g' st'. censusLoop_part003 ps (g, st) = Inr (g', st')"
proof (induction ps arbitrary: g st)
  case Nil
  then show ?case by simp
next
  case (Cons p ps)
  obtain i j where p: "p = (i, j)" by (cases p)
  obtain g1 st1 where s1: "censusTile_part003 i j (g, st) = Inr (g1, st1)"
    using censusTile_part003_total [OF Cons.prems] by blast
  then have "rectangular g1"
    using censusTile_part003_frame(1) Cons.prems rectangular_shape by blast
  from Cons.IH [OF this, of st1] s1 p show ?case by auto
qed

lemma updateSimulation_part003_total:
  assumes "rectangular g"
  shows "\<exists>s' h' g'. updateSimulation_part003 h s g rnd = Inr (s', h', g')"
proof -
  obtain g1 st1 where "censusLoop_part003 (gridPositions g) (g, simStart h s) = Inr (g1, st1)"
    using censusLoop_part003_total [OF assms] by blast
  then show ?thesis
    by (simp add: updateSimulation_part003_def simBeforeDebt_part003_def
        simCensus_part003_def Let_def)
qed

text \<open>
  C4. For every stats record and every grid, the happiness of the stats that one step
  returns is an integer between 0 and 100; so for simulation.ts, which always returns, and
  for part_003 whenever it returns.
\<close>

theorem updateSimulation_happiness_bounds:
  "happiness (fst (updateSimulation h s g rnd)) \<in> \<int>
   \<and> 0 \<le> happiness (fst (updateSimulation h s g rnd))
   \<and> happiness (fst (updateSimulation h s g rnd)) \<le> 100
   \<and> (updateSimulation_part003 h s g rnd = Inr (s', h', g') \<longrightarrow>
        happiness s' \<in> \<int> \<and> 0 \<le> happiness s' \<and> happiness s' \<le> 100)"
proof -
  have "happiness s' \<in> \<int> \<and> 0 \<le> happiness s' \<and> happiness s' \<le> 100"
    if "updateSimulation_part003 h s g rnd = Inr (s', h', g')"
  proof -
    from that obtain gr st where "s' = newStats (simHappiness_part003 gr st)"
      by (auto simp: updateSimulation_part003_def Let_def split: sum.splits prod.splits)
    then show ?thesis
      by (simp add: simHappiness_part003_bounds)
  qed
  then show ?thesis
    by (simp add: updateSimulation_def Let_def simHappiness_bounds)
qed

subsection \<open>What each phase does to the store and to money\<close>

lemma simStart_heap: "heap (simStart h s) = h"
  by (simp add: simStart_def)

lemma simGauges_heap: "heap (simGauges st) = heap st"
  by (simp add: simGauges_def Let_def)

lemma simPopulation_heap:
  "jobsAt (heap (simPopulation st)) = jobsAt (heap st)"
  "budgetAt (heap (simPopulation st)) = budgetAt (heap st)"
  "nextRef (heap (simPopulation st)) = nextRef (heap st)"
  by (simp_all add: simPopulation_def Let_def)

lemma simEconomy_heap:
  "jobsAt (heap (simEconomy rnd st)) = jobsAt (heap st)"
  "r \<noteq> nextRef (heap st) \<Longrightarrow> budgetAt (heap (simEconomy rnd st)) r = budgetAt (heap st) r"
  "nextRef (heap (simEconomy rnd st)) = nextRef (heap st) + 1"
  "budget (newStats (simEconomy rnd st)) = nextRef (heap st)"
  "demographicsAt (heap (simEconomy rnd st)) = demographicsAt (heap st)"
  by (simp_all add: simEconomy_def allocBudget_def Let_def split del: if_split)

lemma simEconomy_part003_heap:
  "jobsAt (heap (simEconomy_part003 rnd st)) = jobsAt (heap st)"
  "r \<noteq> nextRef (heap st) \<Longrightarrow> budgetAt (heap (simEconomy_part003 rnd st)) r = budgetAt (heap st) r"
  "nextRef (heap (simEconomy_part003 rnd st)) = nextRef (heap st) + 1"
  "budget (newStats (simEconomy_part003 rnd st)) = nextRef (heap st)"
  "demographicsAt (heap (simEconomy_part003 rnd st)) = demographicsAt (heap st)"
  by (simp_all add: simEconomy_part003_def allocBudget_def Let_def split del: if_split)

lemma simDebtSpiral_heap:
  "jobsAt (heap (simDebtSpiral st)) = jobsAt (heap st)"
  "r \<noteq> budget (newStats st) \<Longrightarrow> budgetAt (heap (simDebtSpiral st)) r = budgetAt (heap st) r"
  "nextRef (heap (simDebtSpiral st)) = nextRef (heap st)"
  "budget (newStats (simDebtSpiral st)) = budget (newStats st)"
  "demographicsAt (heap (simDebtSpiral st)) = demographicsAt (heap st)"
  by (simp_all add: simDebtSpiral_def Let_def)

lemma simJobs_heap:
  "r \<noteq> nextRef (heap st) \<Longrightarrow> jobsAt (heap (simJobs st)) r = jobsAt (heap st) r"
  "budgetAt (heap (simJobs st)) = budgetAt (heap st)"
  "jobs (newStats (simJobs st)) = nextRef (heap st)"
  "budget (newStats (simJobs st)) = budget (newStats st)"
  "demographicsAt (heap (simJobs st)) = demographicsAt (heap st)"
  by (simp_all add: simJobs_def allocJobs_def Let_def)

lemma simHappiness_heap:
  "heap (simHappiness g st) = heap st"
  "jobs (newStats (simHappiness g st)) = jobs (newStats st)"
  "budget (newStats (simHappiness g st)) = budget (newStats st)"
  "heap (simHappiness_part003 g st) = heap st"
  "jobs (newStats (simHappiness_part003 g st)) = jobs (newStats st)"
  "budget (newStats (simHappiness_part003 g st)) = budget (newStats st)"
  by (simp_all add: simHappiness_def simHappiness_part003_def Let_def)

text \<open>The phases after the economy, common to both versions up to the happiness formula.\<close>

lemma tail_frame:
  assumes j: "jobsAt (heap st) = jobsAt h"
    and b: "\<And>r. r < nextRef h \<Longrightarrow> budgetAt (heap st) r = budgetAt h r"
    and n: "nextRef (heap st) = nextRef h + 1"
    and bn: "budget (newStats st) = nextRef h"
  shows "\<forall>r < nextRef h. jobsAt (heap (simJobs (simDebtSpiral st))) r = jobsAt h r
            \<and> budgetAt (heap (simJobs (simDebtSpiral st))) r = budgetAt h r"
    and "nextRef h \<le> jobs (newStats (simJobs (simDebtSpiral st)))"
    and "nextRef h \<le> budget (newStats (simJobs (simDebtSpiral st)))"
proof -
  have "jobsAt (heap (simJobs (simDebtSpiral st))) r = jobsAt h r
        \<and> budgetAt (heap (simJobs (simDebtSpiral st))) r = budgetAt h r"
    if r: "r < nextRef h" for r
  proof -
    have "r \<noteq> nextRef (heap (simDebtSpiral st))"
      using r n by (simp add: simDebtSpiral_heap)
    then have 1: "jobsAt (heap (simJobs (simDebtSpiral st))) r = jobsAt h r"
      by (simp add: simJobs_heap simDebtSpiral_heap j)
    have "r \<noteq> budget (newStats st)" using r bn by simp
    then have "budgetAt (heap (simJobs (simDebtSpiral st))) r = budgetAt h r"
      by (simp add: simJobs_heap simDebtSpiral_heap b r)
    with 1 show ?thesis by simp
  qed
  then show "\<forall>r < nextRef h. jobsAt (heap (simJobs (simDebtSpiral st))) r = jobsAt h r
            \<and> budgetAt (heap (simJobs (simDebtSpiral st))) r = budgetAt h r"
    by blast
  show "nextRef h \<le> jobs (newStats (simJobs (simDebtSpiral st)))"
    by (simp add: simJobs_heap simDebtSpiral_heap n)
  show "nextRef h \<le> budget (newStats (simJobs (simDebtSpiral st)))"
    by (simp add: simJobs_heap simDebtSpiral_heap bn)
qed

lemma simBeforeDebt_heap:
  "jobsAt (heap (simBeforeDebt h s g rnd)) = jobsAt h"
  "r < nextRef h \<Longrightarrow> budgetAt (heap (simBeforeDebt h s g rnd)) r = budgetAt h r"
  "nextRef (heap (simBeforeDebt h s g rnd)) = nextRef h + 1"
  "budget (newStats (simBeforeDebt h s g rnd)) = nextRef h"
  by (simp_all add: simBeforeDebt_def simEconomy_heap simPopulation_heap simGauges_heap
      simCensus_frame simStart_heap)

lemma simBeforeDebt_part003_heap:
  assumes "simBeforeDebt_part003 h s g rnd = Inr (g1, st)"
  shows "jobsAt (heap st) = jobsAt h"
    "r < nextRef h \<Longrightarrow> budgetAt (heap st) r = budgetAt h r"
    "nextRef (heap st) = nextRef h + 1"
    "budget (newStats st) = nextRef h"
    "eraseAccess g1 = eraseAccess g"
proof -
  from assms obtain st0 where
    c: "censusLoop_part003 (gridPositions g) (g, simStart h s) = Inr (g1, st0)"
    and st: "\<exists>ns. st = simEconomy_part003 rnd (simPopulation (simGauges (st0\<lparr> newStats := ns \<rparr>)))"
    by (auto simp: simBeforeDebt_part003_def simCensus_part003_def Let_def
        split: sum.splits prod.splits)
  from st obtain ns where st: "st = simEconomy_part003 rnd (simPopulation (simGauges (st0\<lparr> newStats := ns \<rparr>)))" ..
  have h0: "heap st0 = h" and e: "eraseAccess g1 = eraseAccess g"
    using censusLoop_part003_frame [OF c] by (simp_all add: simStart_heap)
  show "jobsAt (heap st) = jobsAt h"
    "r < nextRef h \<Longrightarrow> budgetAt (heap st) r = budgetAt h r"
    "nextRef (heap st) = nextRef h + 1"
    "budget (newStats st) = nextRef h"
    by (simp_all add: st simEconomy_part003_heap simPopulation_heap simGauges_heap h0)
  show "eraseAccess g1 = eraseAccess g" by (rule e)
qed

text \<open>
  One step leaves every jobs object and every budget object that existed before the call
  as it was, and the returned record holds a jobs object and a budget object created by
  the call. part_003 changes the \<open>hasRoadAccess\<close> flag of tiles and nothing else of the
  grid.
\<close>

lemma updateSimulation_store_frame:
  "(updateSimulation h s g rnd = (s', h') \<longrightarrow>
      (\<forall>r < nextRef h. jobsAt h' r = jobsAt h r \<and> budgetAt h' r = budgetAt h r)
      \<and> nextRef h \<le> jobs s' \<and> nextRef h \<le> budget s')
   \<and> (updateSimulation_part003 h s g rnd = Inr (s', h', g') \<longrightarrow>
      (\<forall>r < nextRef h. jobsAt h' r = jobsAt h r \<and> budgetAt h' r = budgetAt h r)
      \<and> nextRef h \<le> jobs s' \<and> nextRef h \<le> budget s'
      \<and> eraseAccess g' = eraseAccess g)"
proof (intro conjI impI)
  assume a: "updateSimulation h s g rnd = (s', h')"
  let ?st = "simBeforeDebt h s g rnd"
  have s': "s' = newStats (simHappiness g (simJobs (simDebtSpiral ?st)))"
    and h': "h' = heap (simJobs (simDebtSpiral ?st))"
    using a by (simp_all add: updateSimulation_def Let_def simHappiness_heap)
  note t = tail_frame [of ?st h, OF simBeforeDebt_heap(1) simBeforeDebt_heap(2)
      simBeforeDebt_heap(3) simBeforeDebt_heap(4)]
  show "\<forall>r < nextRef h. jobsAt h' r = jobsAt h r \<and> budgetAt h' r = budgetAt h r"
    unfolding h' by (rule t(1))
  show "nextRef h \<le> jobs s'" "nextRef h \<le> budget s'"
    unfolding s' simHappiness_heap using t(2,3) by simp_all
next
  assume a: "updateSimulation_part003 h s g rnd = Inr (s', h', g')"
  then obtain st where b: "simBeforeDebt_part003 h s g rnd = Inr (g', st)"
    by (auto simp: updateSimulation_part003_def Let_def split: sum.splits prod.splits)
  have s': "s' = newStats (simHappiness_part003 g' (simJobs (simDebtSpiral st)))"
    and h': "h' = heap (simJobs (simDebtSpiral st))"
    using a b by (simp_all add: updateSimulation_part003_def Let_def simHappiness_heap)
  note t = tail_frame [of st h, OF simBeforeDebt_part003_heap(1) [OF b]
      simBeforeDebt_part003_heap(2) [OF b] simBeforeDebt_part003_heap(3) [OF b]
      simBeforeDebt_part003_heap(4) [OF b]]
  show "\<forall>r < nextRef h. jobsAt h' r = jobsAt h r \<and> budgetAt h' r = budgetAt h r"
    unfolding h' by (rule t(1))
  show "nextRef h \<le> jobs s'" "nextRef h \<le> budget s'"
    unfolding s' simHappiness_heap using t(2,3) by simp_all
  show "eraseAccess g' = eraseAccess g"
    by (rule simBeforeDebt_part003_heap(5) [OF b])
qed

subsection \<open>The debt spiral\<close>

lemma simJobs_money: "money (newStats (simJobs st)) = money (newStats st)"
  by (simp add: simJobs_def allocJobs_def Let_def)

lemma simHappiness_money:
  "money (newStats (simHappiness g st)) = money (newStats st)"
  "money (newStats (simHappiness_part003 g st)) = money (newStats st)"
  by (simp_all add: simHappiness_def simHappiness_part003_def Let_def)

lemma simDebtSpiral_money:
  "money (newStats (simDebtSpiral st)) =
     (if money (newStats st) < 0
      then money (newStats st) - real_of_int \<lfloor>\<bar>money (newStats st)\<bar> * 0.01\<rfloor>
      else money (newStats st))"
  by (simp add: simDebtSpiral_def Let_def)

lemma updateSimulation_money:
  "money (fst (updateSimulation h s g rnd))
     = money (newStats (simDebtSpiral (simBeforeDebt h s g rnd)))"
  by (simp add: updateSimulation_def Let_def simHappiness_money simJobs_money)

lemma penalty_bounds:
  fixes m :: real
  assumes "m < 0"
  shows "m - real_of_int \<lfloor>\<bar>m\<bar> * 0.01\<rfloor> \<le> m"
    and "m \<le> -100 \<Longrightarrow> m - real_of_int \<lfloor>\<bar>m\<bar> * 0.01\<rfloor> < m"
proof -
  have "0 \<le> \<bar>m\<bar> * 0.01" by simp
  then have "0 \<le> \<lfloor>\<bar>m\<bar> * 0.01\<rfloor>" by (simp only: zero_le_floor)
  then show "m - real_of_int \<lfloor>\<bar>m\<bar> * 0.01\<rfloor> \<le> m" by simp
next
  assume "m \<le> -100"
  then have "1 \<le> \<bar>m\<bar> * 0.01" by simp
  then have "1 \<le> \<lfloor>\<bar>m\<bar> * 0.01\<rfloor>" by (simp only: one_le_floor)
  then show "m - real_of_int \<lfloor>\<bar>m\<bar> * 0.01\<rfloor> < m" by simp
qed

text \<open>
  C5, as the code has it. When money is negative once income and expenses are applied,
  the step charges one percent of the deficit rounded down to a whole number: the money
  of the returned stats is that much lower; it is never higher than before the charge and
  it is strictly lower when the deficit is 100 or more. (Nothing is said here about
  happiness.)
\<close>

theorem debt_penalty:
  "(money (newStats (simBeforeDebt h s g rnd)) < 0 \<longrightarrow>
      money (fst (updateSimulation h s g rnd))
        = money (newStats (simBeforeDebt h s g rnd))
          - real_of_int \<lfloor>\<bar>money (newStats (simBeforeDebt h s g rnd))\<bar> * 0.01\<rfloor>
      \<and> money (fst (updateSimulation h s g rnd)) \<le> money (newStats (simBeforeDebt h s g rnd))
      \<and> (money (newStats (simBeforeDebt h s g rnd)) \<le> -100 \<longrightarrow>
           money (fst (updateSimulation h s g rnd))
             < money (newStats (simBeforeDebt h s g rnd))))
   \<and> (simBeforeDebt_part003 h s g rnd = Inr (g1, st) \<and> money (newStats st) < 0 \<longrightarrow>
      (\<exists>s' h'. updateSimulation_part003 h s g rnd = Inr (s', h', g1)
         \<and> money s' = money (newStats st) - real_of_int \<lfloor>\<bar>money (newStats st)\<bar> * 0.01\<rfloor>
         \<and> money s' \<le> money (newStats st)
         \<and> (money (newStats st) \<le> -100 \<longrightarrow> money s' < money (newStats st))))"
proof (intro conjI impI)
  assume neg: "money (newStats (simBeforeDebt h s g rnd)) < 0"
  have eq: "money (fst (updateSimulation h s g rnd))
        = money (newStats (simBeforeDebt h s g rnd))
          - real_of_int \<lfloor>\<bar>money (newStats (simBeforeDebt h s g rnd))\<bar> * 0.01\<rfloor>"
    using neg by (simp add: updateSimulation_money simDebtSpiral_money)
  show "money (fst (updateSimulation h s g rnd))
        = money (newStats (simBeforeDebt h s g rnd))
          - real_of_int \<lfloor>\<bar>money (newStats (simBeforeDebt h s g rnd))\<bar> * 0.01\<rfloor>"
    by (rule eq)
  show "money (fst (updateSimulation h s g rnd)) \<le> money (newStats (simBeforeDebt h s g rnd))"
    unfolding eq by (rule penalty_bounds(1) [OF neg])
  show "money (fst (updateSimulation h s g rnd)) < money (newStats (simBeforeDebt h s g rnd))"
    if "money (newStats (simBeforeDebt h s g rnd)) \<le> -100"
    unfolding eq by (rule penalty_bounds(2) [OF neg that])
next
  assume a: "simBeforeDebt_part003 h s g rnd = Inr (g1, st) \<and> money (newStats st) < 0"
  then have neg: "money (newStats st) < 0" by simp
  let ?s' = "newStats (simHappiness_part003 g1 (simJobs (simDebtSpiral st)))"
  let ?h' = "heap (simHappiness_part003 g1 (simJobs (simDebtSpiral st)))"
  have r: "updateSimulation_part003 h s g rnd = Inr (?s', ?h', g1)"
    using a by (simp add: updateSimulation_part003_def Let_def)
  have eq: "money ?s' = money (newStats st) - real_of_int \<lfloor>\<bar>money (newStats st)\<bar> * 0.01\<rfloor>"
    using neg by (simp add: simHappiness_money simJobs_money simDebtSpiral_money)
  have le: "money ?s' \<le> money (newStats st)"
    unfolding eq by (rule penalty_bounds(1) [OF neg])
  have lt: "money ?s' < money (newStats st)" if "money (newStats st) \<le> -100"
    unfolding eq by (rule penalty_bounds(2) [OF neg that])
  show "\<exists>s' h'. updateSimulation_part003 h s g rnd = Inr (s', h', g1)
         \<and> money s' = money (newStats st) - real_of_int \<lfloor>\<bar>money (newStats st)\<bar> * 0.01\<rfloor>
         \<and> money s' \<le> money (newStats st)
         \<and> (money (newStats st) \<le> -100 \<longrightarrow> money s' < money (newStats st))"
    using r eq le lt by blast
qed

subsection \<open>The happiness decrement of the debt branch\<close>

lemma simJobs_happiness:
  "simJobs (st\<lparr> newStats := (newStats st)\<lparr> happiness := v \<rparr> \<rparr>)
     = (simJobs st)\<lparr> newStats := (newStats (simJobs st))\<lparr> happiness := v \<rparr> \<rparr>"
  by (simp add: simJobs_def allocJobs_def Let_def)

lemma simHappiness_happiness:
  "simHappiness g (st\<lparr> newStats := (newStats st)\<lparr> happiness := v \<rparr> \<rparr>) = simHappiness g st"
  by (simp add: simHappiness_def Let_def)

lemma simDebtSpiral_noHit_rel:
  "simDebtSpiral st = simDebtSpiral_noHit st
   \<or> simDebtSpiral st = (simDebtSpiral_noHit st)\<lparr> newStats :=
        (newStats (simDebtSpiral_noHit st))\<lparr> happiness :=
           happiness (newStats (simDebtSpiral_noHit st)) - 5 \<rparr> \<rparr>"
  by (simp add: simDebtSpiral_def simDebtSpiral_noHit_def Let_def)

text \<open>
  C10. The statement \<open>newStats.happiness -= 5\<close> of the debt branch has no effect on what
  the step returns: the step without it returns the same stats and leaves the same store,
  for every input. Happiness is computed afresh from 100 after the branch and the
  decremented value is not read in between.
\<close>

theorem happiness_decrement_is_dead:
  "updateSimulation_noHit h s g rnd = updateSimulation h s g rnd"
  using simDebtSpiral_noHit_rel [of "simBeforeDebt h s g rnd"]
  by (auto simp: updateSimulation_def updateSimulation_noHit_def Let_def
      simJobs_happiness simHappiness_happiness)

subsection \<open>Reading the result off the state before the debt spiral\<close>

lemma simHappiness_cong:
  assumes "taxRate (newStats a) = taxRate (newStats b)"
    "pollutionLevel (newStats a) = pollutionLevel (newStats b)"
    "shadowEconomy (newStats a) = shadowEconomy (newStats b)"
    "supplyLevel (newStats a) = supplyLevel (newStats b)"
    "activeEvent (newStats a) = activeEvent (newStats b)"
    "crimeRate (newStats a) = crimeRate (newStats b)"
    "parks a = parks b" "unemployment a = unemployment b"
  shows "happiness (newStats (simHappiness g a)) = happiness (newStats (simHappiness g b))"
  using assms by (simp add: simHappiness_def Let_def)

lemma simDebtSpiral_fields:
  "taxRate (newStats (simDebtSpiral st)) = taxRate (newStats st)"
  "pollutionLevel (newStats (simDebtSpiral st)) = pollutionLevel (newStats st)"
  "shadowEconomy (newStats (simDebtSpiral st)) = shadowEconomy (newStats st)"
  "supplyLevel (newStats (simDebtSpiral st)) = supplyLevel (newStats st)"
  "activeEvent (newStats (simDebtSpiral st)) = activeEvent (newStats st)"
  "crimeRate (newStats (simDebtSpiral st)) = crimeRate (newStats st)"
  "population (newStats (simDebtSpiral st)) = population (newStats st)"
  "parks (simDebtSpiral st) = parks st"
  "unemployment (simDebtSpiral st) = unemployment st"
  by (simp_all add: simDebtSpiral_def Let_def)

lemma simJobs_fields:
  "taxRate (newStats (simJobs st)) = taxRate (newStats st)"
  "pollutionLevel (newStats (simJobs st)) = pollutionLevel (newStats st)"
  "shadowEconomy (newStats (simJobs st)) = shadowEconomy (newStats st)"
  "supplyLevel (newStats (simJobs st)) = supplyLevel (newStats st)"
  "activeEvent (newStats (simJobs st)) = activeEvent (newStats st)"
  "crimeRate (newStats (simJobs st)) = crimeRate (newStats st)"
  "population (newStats (simJobs st)) = population (newStats st)"
  "parks (simJobs st) = parks st"
  "unemployment (simJobs st) = unemployment st"
  by (simp_all add: simJobs_def allocJobs_def Let_def)

lemma simHappiness_population:
  "population (newStats (simHappiness g st)) = population (newStats st)"
  by (simp add: simHappiness_def Let_def)

lemma updateSimulation_happiness:
  "happiness (fst (updateSimulation h s g rnd))
     = happiness (newStats (simHappiness g (simBeforeDebt h s g rnd)))"
  unfolding updateSimulation_def Let_def fst_conv
  by (rule simHappiness_cong) (simp_all only: simDebtSpiral_fields simJobs_fields)

lemma updateSimulation_population:
  "population (fst (updateSimulation h s g rnd)) = population (newStats (simBeforeDebt h s g rnd))"
  by (simp add: updateSimulation_def Let_def simHappiness_population simDebtSpiral_fields
      simJobs_fields)

lemma updateSimulation_demographics:
  "demographicsAt (snd (updateSimulation h s g rnd))
     = demographicsAt (heap (simPopulation (simGauges (simCensus g (simStart h s)))))"
  by (simp add: updateSimulation_def Let_def simHappiness_heap simJobs_heap simDebtSpiral_heap
      simBeforeDebt_def simEconomy_heap)

subsection \<open>Steps on an empty grid\<close>

lemma censusTile_BNone: "buildingType t = BNone \<Longrightarrow> censusTile t st = st"
  by (simp add: censusTile_def countServices_def countJobs_def Let_def)

lemma fold_censusTile_BNone:
  "\<forall>t \<in> set ts. buildingType t = BNone \<Longrightarrow> fold censusTile ts st = st"
  by (induction ts arbitrary: st) (simp_all add: censusTile_BNone)

lemma fold_resPollutionTile_BNone:
  "\<forall>t \<in> set ts. buildingType t = BNone \<Longrightarrow> fold resPollutionTile ts acc = acc"
  by (induction ts arbitrary: acc)
    (simp_all add: resPollutionTile_def isHousing_def split: prod.splits)

lemma emptyGrid_tiles: "\<forall>t \<in> set (concat (emptyGrid n)). buildingType t = BNone"
  by (auto simp: emptyGrid_def)

text \<open>The initial stats with another balance and tax rate.\<close>

lemma start_empty:
  "simPopulation (simGauges (simCensus (emptyGrid n)
      (simStart INITIAL_HEAP (INITIAL_STATS\<lparr> money := m, taxRate := t \<rparr>))))
     = simStart INITIAL_HEAP (INITIAL_STATS\<lparr> money := m, taxRate := t \<rparr>)"
  by (simp add: simCensus_def fold_censusTile_BNone [OF emptyGrid_tiles] simGauges_def
      simPopulation_def popDynamics_def simStart_def INITIAL_STATS_def INITIAL_HEAP_def Let_def
      fun_upd_idem_iff)

lemma economy_start:
  "money (newStats (simEconomy rnd (simStart INITIAL_HEAP (INITIAL_STATS\<lparr> money := m, taxRate := t \<rparr>)))) = m"
  "population (newStats (simEconomy rnd (simStart INITIAL_HEAP (INITIAL_STATS\<lparr> money := m, taxRate := t \<rparr>)))) = 0"
  "taxRate (newStats (simEconomy rnd (simStart INITIAL_HEAP (INITIAL_STATS\<lparr> money := m, taxRate := t \<rparr>)))) = t"
  "pollutionLevel (newStats (simEconomy rnd (simStart INITIAL_HEAP (INITIAL_STATS\<lparr> money := m, taxRate := t \<rparr>)))) = 0"
  "shadowEconomy (newStats (simEconomy rnd (simStart INITIAL_HEAP (INITIAL_STATS\<lparr> money := m, taxRate := t \<rparr>)))) = 0"
  "supplyLevel (newStats (simEconomy rnd (simStart INITIAL_HEAP (INITIAL_STATS\<lparr> money := m, taxRate := t \<rparr>)))) = 1"
  "activeEvent (newStats (simEconomy rnd (simStart INITIAL_HEAP (INITIAL_STATS\<lparr> money := m, taxRate := t \<rparr>)))) = ENone"
  "crimeRate (newStats (simEconomy rnd (simStart INITIAL_HEAP (INITIAL_STATS\<lparr> money := m, taxRate := t \<rparr>)))) = 0"
  "parks (simEconomy rnd (simStart INITIAL_HEAP (INITIAL_STATS\<lparr> money := m, taxRate := t \<rparr>))) = 0"
  "unemployment (simEconomy rnd (simStart INITIAL_HEAP (INITIAL_STATS\<lparr> money := m, taxRate := t \<rparr>))) = 0"
  by (simp_all add: simEconomy_def simEvents_def allocBudget_def Math_pow_def simStart_def
      INITIAL_STATS_def INITIAL_HEAP_def Let_def split del: if_split cong: if_cong)

lemma beforeDebt_empty:
  "simBeforeDebt INITIAL_HEAP (INITIAL_STATS\<lparr> money := m, taxRate := t \<rparr>) (emptyGrid n) rnd
     = simEconomy rnd (simStart INITIAL_HEAP (INITIAL_STATS\<lparr> money := m, taxRate := t \<rparr>))"
  by (simp only: simBeforeDebt_def start_empty)

lemma happiness_empty:
  "happiness (fst (updateSimulation INITIAL_HEAP (INITIAL_STATS\<lparr> money := m, taxRate := t \<rparr>)
      (emptyGrid n) rnd)) = max 0 (min 100 (real_of_int \<lfloor>100 - t * 200\<rfloor>))"
  apply (simp only: updateSimulation_happiness beforeDebt_empty)
  apply (simp only: simHappiness_def Let_def economy_start)
  apply (simp add: happinessTaxParks_def happinessPenalties_def happinessEvents_def
      happinessFinish_def fold_resPollutionTile_BNone [OF emptyGrid_tiles] Let_def)
  done

lemma money_empty:
  "money (fst (updateSimulation INITIAL_HEAP (INITIAL_STATS\<lparr> money := m, taxRate := t \<rparr>)
      (emptyGrid n) rnd)) = (if m < 0 then m - real_of_int \<lfloor>\<bar>m\<bar> * 0.01\<rfloor> else m)"
  by (simp only: updateSimulation_money beforeDebt_empty simDebtSpiral_money economy_start)

lemma population_empty:
  "population (fst (updateSimulation INITIAL_HEAP (INITIAL_STATS\<lparr> money := m, taxRate := t \<rparr>)
      (emptyGrid n) rnd)) = 0"
  by (simp only: updateSimulation_population beforeDebt_empty economy_start)

lemma INITIAL_STATS_eq: "INITIAL_STATS\<lparr> money := 2000, taxRate := 0.1 \<rparr> = INITIAL_STATS"
  by (simp add: INITIAL_STATS_def)

text \<open>
  C7. From the empty 10 by 10 grid and the initial stats, one step returns population 0,
  money 2000 and happiness 80, whatever the random draw.
\<close>

theorem initial_step_on_empty_grid:
  "population (fst (updateSimulation INITIAL_HEAP INITIAL_STATS (emptyGrid 10) rnd)) = 0
   \<and> money (fst (updateSimulation INITIAL_HEAP INITIAL_STATS (emptyGrid 10) rnd)) = 2000
   \<and> happiness (fst (updateSimulation INITIAL_HEAP INITIAL_STATS (emptyGrid 10) rnd)) = 80"
  using population_empty [where m = 2000 and t = "0.1" and n = 10 and rnd = rnd]
    money_empty [where m = 2000 and t = "0.1" and n = 10 and rnd = rnd]
    happiness_empty [where m = 2000 and t = "0.1" and n = 10 and rnd = rnd]
  by (simp add: INITIAL_STATS_eq)

text \<open>
  C5 as stated fails. With a deficit of 50 after income and expenses the charge is
  \<open>\<lfloor>0.5\<rfloor> = 0\<close>: money is -50 before and after the debt branch, not strictly lower. And
  the happiness returned is 80, the same as with 2000 in the treasury: the hit of the debt
  branch does not reach the returned stats.
\<close>

theorem debt_penalty_counterexample:
  "money (newStats (simBeforeDebt INITIAL_HEAP (INITIAL_STATS\<lparr> money := -50, taxRate := 0.1 \<rparr>)
      (emptyGrid 10) 0)) = -50
   \<and> money (fst (updateSimulation INITIAL_HEAP (INITIAL_STATS\<lparr> money := -50, taxRate := 0.1 \<rparr>)
      (emptyGrid 10) 0)) = -50
   \<and> happiness (fst (updateSimulation INITIAL_HEAP (INITIAL_STATS\<lparr> money := -50, taxRate := 0.1 \<rparr>)
      (emptyGrid 10) 0)) = 80
   \<and> happiness (fst (updateSimulation INITIAL_HEAP (INITIAL_STATS\<lparr> money := 2000, taxRate := 0.1 \<rparr>)
      (emptyGrid 10) 0)) = 80"
  by (simp add: beforeDebt_empty economy_start money_empty happiness_empty)

subsection \<open>The later version on an empty grid\<close>

lemma censusTile_part003_BNone:
  "buildingType (g ! i ! j) = BNone \<Longrightarrow> censusTile_part003 i j (g, st) = Inr (g, st)"
  by (simp add: censusTile_part003_def countServices_def countUniversities_def countJobs_def
      Let_def)

lemma censusLoop_part003_BNone:
  "\<forall>(i, j) \<in> set ps. buildingType (g ! i ! j) = BNone \<Longrightarrow>
     censusLoop_part003 ps (g, st) = Inr (g, st)"
  by (induction ps) (auto simp: censusTile_part003_BNone)

lemma gridPositions_emptyGrid:
  "\<forall>(i, j) \<in> set (gridPositions (emptyGrid n)). buildingType (emptyGrid n ! i ! j) = BNone"
  by (auto simp: gridPositions_def emptyGrid_def)

lemma rectangular_emptyGrid: "rectangular (emptyGrid n)"
  by (auto simp: rectangular_def emptyGrid_def list_all_iff)

lemma start_empty_part003:
  "simCensus_part003 (emptyGrid n) (simStart INITIAL_HEAP (INITIAL_STATS\<lparr> money := m, taxRate := t \<rparr>))
     = Inr (emptyGrid n, simStart INITIAL_HEAP (INITIAL_STATS\<lparr> money := m, taxRate := t \<rparr>))"
  by (simp add: simCensus_part003_def censusLoop_part003_BNone [OF gridPositions_emptyGrid]
      simStart_def INITIAL_STATS_def Let_def)

lemma gauges_population_start:
  "simPopulation (simGauges (simStart INITIAL_HEAP (INITIAL_STATS\<lparr> money := m, taxRate := t \<rparr>)))
     = simStart INITIAL_HEAP (INITIAL_STATS\<lparr> money := m, taxRate := t \<rparr>)"
  by (simp add: simGauges_def simPopulation_def popDynamics_def simStart_def INITIAL_STATS_def
      INITIAL_HEAP_def Let_def fun_upd_idem_iff)

lemma beforeDebt_empty_part003:
  "simBeforeDebt_part003 INITIAL_HEAP (INITIAL_STATS\<lparr> money := m, taxRate := t \<rparr>) (emptyGrid n) rnd
     = Inr (emptyGrid n,
            simEconomy_part003 rnd (simStart INITIAL_HEAP (INITIAL_STATS\<lparr> money := m, taxRate := t \<rparr>)))"
  by (simp add: simBeforeDebt_part003_def start_empty_part003 gauges_population_start)

lemma economy_part003_start:
  "money (newStats (simEconomy_part003 rnd
      (simStart INITIAL_HEAP (INITIAL_STATS\<lparr> money := m, taxRate := t \<rparr>)))) = m"
  by (simp add: simEconomy_part003_def simEvents_def allocBudget_def Math_pow_def simStart_def
      INITIAL_STATS_def INITIAL_HEAP_def Let_def split del: if_split cong: if_cong)

text \<open>C4 at a tax rate of 1 on the empty grid: simulation.ts returns happiness 0, part_003
  returns and its happiness is within the bounds.\<close>

theorem updateSimulation_happiness_bounds_witness:
  "happiness (fst (updateSimulation INITIAL_HEAP (INITIAL_STATS\<lparr> money := 2000, taxRate := 1 \<rparr>)
      (emptyGrid 10) 0)) = 0
   \<and> (\<exists>s' h' g'. updateSimulation_part003 INITIAL_HEAP
          (INITIAL_STATS\<lparr> money := 2000, taxRate := 1 \<rparr>) (emptyGrid 10) 0 = Inr (s', h', g')
        \<and> happiness s' \<in> \<int> \<and> 0 \<le> happiness s' \<and> happiness s' \<le> 100)"
proof -
  obtain s' h' g' where r: "updateSimulation_part003 INITIAL_HEAP
      (INITIAL_STATS\<lparr> money := 2000, taxRate := 1 \<rparr>) (emptyGrid 10) 0 = Inr (s', h', g')"
    using updateSimulation_part003_total [OF rectangular_emptyGrid] by blast
  from updateSimulation_happiness_bounds [where h = INITIAL_HEAP
      and s = "INITIAL_STATS\<lparr> money := 2000, taxRate := 1 \<rparr>" and g = "emptyGrid 10" and rnd = 0
      and s' = s' and h' = h' and g' = g'] r
  have "happiness s' \<in> \<int> \<and> 0 \<le> happiness s' \<and> happiness s' \<le> 100" by simp
  with r show ?thesis by (simp add: happiness_empty)
qed

text \<open>C5 at a deficit of 1000 on the empty grid: the charge is 10 in both versions.\<close>

theorem debt_penalty_witness:
  "money (newStats (simBeforeDebt INITIAL_HEAP (INITIAL_STATS\<lparr> money := -1000, taxRate := 0.1 \<rparr>)
      (emptyGrid 10) 0)) = -1000
   \<and> money (fst (updateSimulation INITIAL_HEAP (INITIAL_STATS\<lparr> money := -1000, taxRate := 0.1 \<rparr>)
      (emptyGrid 10) 0)) = -1010
   \<and> (\<exists>s' h'. updateSimulation_part003 INITIAL_HEAP
          (INITIAL_STATS\<lparr> money := -1000, taxRate := 0.1 \<rparr>) (emptyGrid 10) 0
            = Inr (s', h', emptyGrid 10)
        \<and> money s' = -1010)"
proof -
  let ?s = "INITIAL_STATS\<lparr> money := -1000, taxRate := 0.1 \<rparr>"
  let ?st = "simEconomy_part003 0 (simStart INITIAL_HEAP ?s)"
  have m: "money (newStats (simBeforeDebt INITIAL_HEAP ?s (emptyGrid 10) 0)) = -1000"
    by (simp only: beforeDebt_empty economy_start)
  have p: "simBeforeDebt_part003 INITIAL_HEAP ?s (emptyGrid 10) 0 = Inr (emptyGrid 10, ?st)"
    by (rule beforeDebt_empty_part003)
  have pm: "money (newStats ?st) = -1000"
    by (rule economy_part003_start)
  have neg: "money (newStats (simBeforeDebt INITIAL_HEAP ?s (emptyGrid 10) 0)) < 0"
    and pneg: "money (newStats ?st) < 0"
    by (simp_all add: m pm)
  note dp = debt_penalty [where h = INITIAL_HEAP and s = ?s and g = "emptyGrid 10" and rnd = 0
      and ?g1.0 = "emptyGrid 10" and st = ?st]
  from dp neg have "money (fst (updateSimulation INITIAL_HEAP ?s (emptyGrid 10) 0))
      = money (newStats (simBeforeDebt INITIAL_HEAP ?s (emptyGrid 10) 0))
        - real_of_int \<lfloor>\<bar>money (newStats (simBeforeDebt INITIAL_HEAP ?s (emptyGrid 10) 0))\<bar> * 0.01\<rfloor>"
    by blast
  then have 1: "money (fst (updateSimulation INITIAL_HEAP ?s (emptyGrid 10) 0)) = -1010"
    by (simp only: m) simp
  from dp p pneg obtain s' h' where
    r: "updateSimulation_part003 INITIAL_HEAP ?s (emptyGrid 10) 0 = Inr (s', h', emptyGrid 10)"
    and ms: "money s' = money (newStats ?st) - real_of_int \<lfloor>\<bar>money (newStats ?st)\<bar> * 0.01\<rfloor>"
    by blast
  from ms have "money s' = -1010"
    by (simp only: pm) simp
  with r m 1 show ?thesis by blast
qed

subsection \<open>The demographics object of the input\<close>

lemma simPopulation_demographics:
  "demographicsAt (heap (simPopulation st)) (demographics (newStats st))
     = popDynamics (happiness (newStats st)) (schools st) (hospitals st)
         (housingCapacityLocal st) (crimeRate (newStats st))
         (demographicsAt (heap st) (demographics (newStats st)))"
  by (simp add: simPopulation_def Let_def)

lemma census_one_house:
  "simGauges (simCensus [[sampleTile 0 0 Residential]] (simStart INITIAL_HEAP INITIAL_STATS))
     = (simStart INITIAL_HEAP INITIAL_STATS)\<lparr> newStats := (INITIAL_STATS\<lparr> day := 2 \<rparr>)\<lparr> housingCapacity := 10 \<rparr>,
          housingCapacityLocal := 10 \<rparr>"
  by (simp add: simGauges_def simCensus_def censusTile_def countServices_def serviceCosts_def
      applyConfig_def countJobs_def mkConfig_def truthy_def orZero_def sampleTile_def
      simStart_def INITIAL_STATS_def Let_def)

text \<open>
  The shallow copy \<open>newStats\<close> shares the demographics object of the input, and the
  population phase writes to it: on a grid with one house, the adults of the input stats
  are 0 before the step and 2 after it (two immigrants). The sibling objects \<open>jobs\<close> and
  \<open>budget\<close> are replaced by new ones instead.
\<close>

lemma input_demographics_shared:
  "adults (demographicsAt INITIAL_HEAP (demographics INITIAL_STATS)) = 0
   \<and> adults (demographicsAt
        (snd (updateSimulation INITIAL_HEAP INITIAL_STATS [[sampleTile 0 0 Residential]] 0))
        (demographics INITIAL_STATS)) = 2"
proof -
  have d: "demographics INITIAL_STATS
      = demographics (newStats (simGauges (simCensus [[sampleTile 0 0 Residential]]
          (simStart INITIAL_HEAP INITIAL_STATS))))"
    by (simp add: census_one_house)
  have "adults (demographicsAt
        (snd (updateSimulation INITIAL_HEAP INITIAL_STATS [[sampleTile 0 0 Residential]] 0))
        (demographics INITIAL_STATS)) = 2"
    apply (simp only: updateSimulation_demographics)
    apply (subst d)
    apply (simp only: simPopulation_demographics)
    apply (simp only: census_one_house)
    apply (simp add: simStart_def INITIAL_STATS_def INITIAL_HEAP_def popDynamics_def Let_def
        split del: if_split cong: if_cong)
    done
  then show ?thesis
    by (simp add: INITIAL_HEAP_def)
qed

subsection \<open>What the caller finds after the call\<close>

lemma one_house_scan:
  "censusLoop_part003 (gridPositions [[sampleTile 0 0 Residential]])
       ([[sampleTile 0 0 Residential]], st) = Inr (g1, st1)
     \<Longrightarrow> g1 = [[(sampleTile 0 0 Residential)\<lparr> hasRoadAccess := Some False \<rparr>]]"
  by (simp add: gridPositions_def censusTile_part003_def roadConnected_def tileAt_def
      sampleTile_def Let_def)

lemma one_house_part003:
  assumes "updateSimulation_part003 h s [[sampleTile 0 0 Residential]] rnd = Inr (s', h', g')"
  shows "g' = [[(sampleTile 0 0 Residential)\<lparr> hasRoadAccess := Some False \<rparr>]]"
proof -
  from assms obtain st0 where
    "censusLoop_part003 (gridPositions [[sampleTile 0 0 Residential]])
       ([[sampleTile 0 0 Residential]], simStart h s) = Inr (g', st0)"
    by (auto simp: updateSimulation_part003_def simBeforeDebt_part003_def
        simCensus_part003_def Let_def split: sum.splits prod.splits)
  then show ?thesis by (rule one_house_scan)
qed

text \<open>
  C8, as the code has it by design. For every stats object, grid and random draw, after
  the step has returned: every stats object that existed before the call, the input among
  them, holds what it held, so the fields of the input and the addresses of its nested
  objects are unchanged; every jobs object and every budget object that existed before
  the call is unchanged, those of the input among them; the returned object is a new one,
  and its jobs and budget objects are new ones. simulation.ts leaves every tile as it
  was; part_003, when it returns, leaves every field of every tile as it was except
  \<open>hasRoadAccess\<close>.
\<close>

theorem updateSimulation_call_frame:
  "(updateSimulation_call m cur rnd = (new, m') \<longrightarrow>
      new = nextStats m \<and> nextStats m' = nextStats m + 1
      \<and> (\<forall>r < nextStats m. statsAt m' r = statsAt m r)
      \<and> (\<forall>r < nextRef (nested m). jobsAt (nested m') r = jobsAt (nested m) r
                                   \<and> budgetAt (nested m') r = budgetAt (nested m) r)
      \<and> nextRef (nested m) \<le> jobs (statsAt m' new)
      \<and> nextRef (nested m) \<le> budget (statsAt m' new)
      \<and> tiles m' = tiles m)
   \<and> (updateSimulation_part003_call m cur rnd = Inr (new, m') \<longrightarrow>
      new = nextStats m \<and> nextStats m' = nextStats m + 1
      \<and> (\<forall>r < nextStats m. statsAt m' r = statsAt m r)
      \<and> (\<forall>r < nextRef (nested m). jobsAt (nested m') r = jobsAt (nested m) r
                                   \<and> budgetAt (nested m') r = budgetAt (nested m) r)
      \<and> nextRef (nested m) \<le> jobs (statsAt m' new)
      \<and> nextRef (nested m) \<le> budget (statsAt m' new)
      \<and> eraseAccess (tiles m') = eraseAccess (tiles m))"
proof (intro conjI impI)
  assume a: "updateSimulation_call m cur rnd = (new, m')"
  obtain s' h' where u: "updateSimulation (nested m) (statsAt m cur) (tiles m) rnd = (s', h')"
    by (cases "updateSimulation (nested m) (statsAt m cur) (tiles m) rnd")
  from a u have n: "new = nextStats m"
    and m': "m' = m\<lparr> nested := h', statsAt := (statsAt m)(nextStats m := s'),
                      nextStats := nextStats m + 1 \<rparr>"
    by (auto simp: updateSimulation_call_def)
  note f = updateSimulation_store_frame [THEN conjunct1, rule_format, OF u]
  show "new = nextStats m" by (rule n)
  show "nextStats m' = nextStats m + 1" by (simp add: m')
  show "\<forall>r < nextStats m. statsAt m' r = statsAt m r" by (simp add: m')
  show "\<forall>r < nextRef (nested m). jobsAt (nested m') r = jobsAt (nested m) r
                                   \<and> budgetAt (nested m') r = budgetAt (nested m) r"
    using f by (simp add: m')
  show "nextRef (nested m) \<le> jobs (statsAt m' new)"
    "nextRef (nested m) \<le> budget (statsAt m' new)"
    using f by (simp_all add: m' n)
  show "tiles m' = tiles m" by (simp add: m')
next
  assume a: "updateSimulation_part003_call m cur rnd = Inr (new, m')"
  then obtain s' h' g' where
    u: "updateSimulation_part003 (nested m) (statsAt m cur) (tiles m) rnd = Inr (s', h', g')"
    by (auto simp: updateSimulation_part003_call_def split: sum.splits)
  from a u have n: "new = nextStats m"
    and m': "m' = m\<lparr> nested := h', statsAt := (statsAt m)(nextStats m := s'),
                      nextStats := nextStats m + 1, tiles := g' \<rparr>"
    by (auto simp: updateSimulation_part003_call_def)
  note f = updateSimulation_store_frame [THEN conjunct2, rule_format, OF u]
  show "new = nextStats m" by (rule n)
  show "nextStats m' = nextStats m + 1" by (simp add: m')
  show "\<forall>r < nextStats m. statsAt m' r = statsAt m r" by (simp add: m')
  show "\<forall>r < nextRef (nested m). jobsAt (nested m') r = jobsAt (nested m) r
                                   \<and> budgetAt (nested m') r = budgetAt (nested m) r"
    using f by (simp add: m')
  show "nextRef (nested m) \<le> jobs (statsAt m' new)"
    "nextRef (nested m) \<le> budget (statsAt m' new)"
    using f by (simp_all add: m' n)
  show "eraseAccess (tiles m') = eraseAccess (tiles m)"
    using f by (simp add: m')
qed

lemma houseMemory_simps:
  "nested houseMemory = INITIAL_HEAP"
  "statsAt houseMemory r = INITIAL_STATS"
  "nextStats houseMemory = 1"
  "tiles houseMemory = [[sampleTile 0 0 Residential]]"
  "nextRef INITIAL_HEAP = 1"
  by (simp_all add: houseMemory_def INITIAL_HEAP_def)

lemma houseMemory_part003_returns:
  "\<exists>m'. updateSimulation_part003_call houseMemory 0 rnd = Inr (1, m')"
proof -
  have "rectangular [[sampleTile 0 0 Residential]]" by (simp add: rectangular_def)
  then obtain s' h' g' where
    "updateSimulation_part003 INITIAL_HEAP INITIAL_STATS [[sampleTile 0 0 Residential]] rnd
       = Inr (s', h', g')"
    using updateSimulation_part003_total by blast
  then show ?thesis
    by (simp add: updateSimulation_part003_call_def houseMemory_simps)
qed

text \<open>
  C8 as stated fails by design in part_003: the step writes the result of its road scan
  into the tiles of the grid it is given. On a grid of one house, the tile of the input
  grid has no \<open>hasRoadAccess\<close> before the step and \<open>hasRoadAccess = false\<close> after it.
\<close>

theorem part003_writes_hasRoadAccess_counterexample:
  "\<not> isl (updateSimulation_part003_call houseMemory 0 0)
   \<and> tiles houseMemory = [[sampleTile 0 0 Residential]]
   \<and> hasRoadAccess (sampleTile 0 0 Residential) = None
   \<and> tiles (snd (projr (updateSimulation_part003_call houseMemory 0 0)))
       = [[(sampleTile 0 0 Residential)\<lparr> hasRoadAccess := Some False \<rparr>]]"
proof -
  obtain s' h' g' where
    u: "updateSimulation_part003 INITIAL_HEAP INITIAL_STATS [[sampleTile 0 0 Residential]] 0
       = Inr (s', h', g')"
    using houseMemory_part003_returns [of 0]
    by (auto simp: updateSimulation_part003_call_def houseMemory_simps split: sum.splits)
  have g': "g' = [[(sampleTile 0 0 Residential)\<lparr> hasRoadAccess := Some False \<rparr>]]"
    by (rule one_house_part003 [OF u])
  show ?thesis
    by (simp add: updateSimulation_part003_call_def houseMemory_simps u g')
       (simp add: sampleTile_def)
qed

text \<open>C8 on the grid with one house: the initial stats at address 0 and their jobs and
  budget objects are as before, the returned object is the one at address 1 with new jobs
  and budget objects, and the tile is as before up to its \<open>hasRoadAccess\<close>.\<close>

theorem updateSimulation_call_frame_witness:
  "fst (updateSimulation_call houseMemory 0 0) = 1
   \<and> statsAt (snd (updateSimulation_call houseMemory 0 0)) 0 = INITIAL_STATS
   \<and> jobsAt (nested (snd (updateSimulation_call houseMemory 0 0))) 0 = jobsAt INITIAL_HEAP 0
   \<and> budgetAt (nested (snd (updateSimulation_call houseMemory 0 0))) 0 = budgetAt INITIAL_HEAP 0
   \<and> 1 \<le> jobs (statsAt (snd (updateSimulation_call houseMemory 0 0)) 1)
   \<and> 1 \<le> budget (statsAt (snd (updateSimulation_call houseMemory 0 0)) 1)
   \<and> tiles (snd (updateSimulation_call houseMemory 0 0)) = [[sampleTile 0 0 Residential]]
   \<and> \<not> isl (updateSimulation_part003_call houseMemory 0 0)
   \<and> statsAt (snd (projr (updateSimulation_part003_call houseMemory 0 0))) 0 = INITIAL_STATS
   \<and> jobsAt (nested (snd (projr (updateSimulation_part003_call houseMemory 0 0)))) 0
       = jobsAt INITIAL_HEAP 0
   \<and> budgetAt (nested (snd (projr (updateSimulation_part003_call houseMemory 0 0)))) 0
       = budgetAt INITIAL_HEAP 0
   \<and> eraseAccess (tiles (snd (projr (updateSimulation_part003_call houseMemory 0 0))))
       = eraseAccess [[sampleTile 0 0 Residential]]"
proof -
  obtain m3 where r: "updateSimulation_part003_call houseMemory 0 0 = Inr (1, m3)"
    using houseMemory_part003_returns [of 0] by blast
  note f = updateSimulation_call_frame [where m = houseMemory and cur = 0 and rnd = 0,
      THEN conjunct1, rule_format, OF prod.collapse [symmetric]]
  have n: "fst (updateSimulation_call houseMemory 0 0) = 1"
    using f by (simp add: houseMemory_simps)
  have 1: "fst (updateSimulation_call houseMemory 0 0) = 1
   \<and> statsAt (snd (updateSimulation_call houseMemory 0 0)) 0 = INITIAL_STATS
   \<and> jobsAt (nested (snd (updateSimulation_call houseMemory 0 0))) 0 = jobsAt INITIAL_HEAP 0
   \<and> budgetAt (nested (snd (updateSimulation_call houseMemory 0 0))) 0 = budgetAt INITIAL_HEAP 0
   \<and> 1 \<le> jobs (statsAt (snd (updateSimulation_call houseMemory 0 0)) 1)
   \<and> 1 \<le> budget (statsAt (snd (updateSimulation_call houseMemory 0 0)) 1)
   \<and> tiles (snd (updateSimulation_call houseMemory 0 0)) = [[sampleTile 0 0 Residential]]"
    using f unfolding n by (simp add: houseMemory_simps)
  from updateSimulation_call_frame [where m = houseMemory and cur = 0 and rnd = 0
      and new = 1 and m' = m3] r
  have 2: "statsAt m3 0 = INITIAL_STATS
   \<and> jobsAt (nested m3) 0 = jobsAt INITIAL_HEAP 0
   \<and> budgetAt (nested m3) 0 = budgetAt INITIAL_HEAP 0
   \<and> eraseAccess (tiles m3) = eraseAccess [[sampleTile 0 0 Residential]]"
    by (simp add: houseMemory_simps)
  from 1 2 show ?thesis by (simp add: r)
qed

section \<open>Properties of the agent action generator\<close>

text \<open>
  C9 fails on the code. A reply with status 500 whose body never arrives is a failed call
  (the status is not 2xx), and the action generator stays pending on it: the abort timer
  is cleared before \<open>await response.text()\<close>, so nothing ends the wait and no WAIT action
  is returned. The same holds for a 2xx reply whose body never arrives. When the body of
  the same reply does arrive, the generator returns the mock action.
\<close>

theorem generateGameAction_stalled_body:
  "\<not> response_ok 500
   \<and> generateGameAction JSON_parse (\<lambda>i. Response 500 BodyStalls) grid = Pending
   \<and> generateGameAction JSON_parse (\<lambda>i. Response 200 BodyStalls) grid = Pending
   \<and> generateGameAction JSON_parse (\<lambda>i. Response 500 (Body (Text ''busy''))) grid
       = Settled (Made mockGameAction)"
  by (simp add: generateGameAction_def callLocalAI_def callLocalAI_from.simps MAX_RETRIES_def
      response_ok_def)

text \<open>What the code does when no body read stalls. When every attempt the bounded retry
  makes fails and settles, and also when a reply arrives whose text holds no JSON object or
  one that \<open>JSON.parse\<close> rejects, the generator returns the mock action: a WAIT whose
  reasoning is the offline marker. After an exception or a status of 500 or above on the
  first attempt a second attempt is made, and its outcome decides; after any other status
  that is not 2xx no second attempt is made.\<close>

lemma callLocalAI_from_fails:
  "\<forall>j \<le> MAX_RETRIES. attemptFails (net j) \<and> attemptSettles (net j)
     \<Longrightarrow> callLocalAI_from net i = Settled Missing"
proof (induction net i rule: callLocalAI_from.induct)
  case (1 net i)
  show ?case
  proof (cases "i \<le> MAX_RETRIES")
    case False
    then show ?thesis by (subst callLocalAI_from.simps) simp
  next
    case True
    with "1.prems" have f: "attemptFails (net i)" "attemptSettles (net i)" by simp_all
    show ?thesis
      using True f "1.IH" "1.prems"
      by (subst callLocalAI_from.simps)
        (auto simp: attemptFails_def attemptSettles_def
           split: FetchOutcome.splits ResponseBody.splits)
  qed
qed

lemma generateGameAction_fallback:
  "((\<forall>i \<le> MAX_RETRIES. attemptFails (net i) \<and> attemptSettles (net i)) \<longrightarrow>
       generateGameAction JSON_parse net grid = Settled (Made mockGameAction))
   \<and> (callLocalAI net = Settled (Text content) \<and> extractJson content = None \<longrightarrow>
       generateGameAction JSON_parse net grid = Settled (Made mockGameAction))
   \<and> (callLocalAI net = Settled (Text content) \<and> extractJson content = Some jsonStr
        \<and> JSON_parse jsonStr = None \<longrightarrow>
       generateGameAction JSON_parse net grid = Settled (Made mockGameAction))
   \<and> actionKind mockGameAction = ''WAIT''
   \<and> reasoning mockGameAction = ''AI is offline (Mock Mode). Holding position.''"
  by (auto simp: generateGameAction_def callLocalAI_def callLocalAI_from_fails
      mockGameAction_def)

lemma callLocalAI_retry:
  "(net 0 = FetchThrows \<or> net 0 = Response status BodyThrows
      \<or> (net 0 = Response status (Body errorText) \<and> 500 \<le> status)) \<longrightarrow>
     callLocalAI net =
       (case net 1 of
          FetchThrows \<Rightarrow> Settled Missing
        | Response status1 BodyThrows \<Rightarrow> Settled Missing
        | Response status1 BodyStalls \<Rightarrow> Pending
        | Response status1 (Body content) \<Rightarrow>
            if response_ok status1 then Settled content else Settled Missing)"
  "net 0 = Response status (Body errorText) \<and> \<not> response_ok status \<and> status < 500 \<longrightarrow>
     callLocalAI net = Settled Missing"
  by (auto simp: callLocalAI_def callLocalAI_from.simps MAX_RETRIES_def response_ok_def
      split: FetchOutcome.splits ResponseBody.splits)

section \<open>Properties of the environment step\<close>

subsection \<open>Reading and writing the pollution of a tile\<close>

lemma setPollution_shape: "map length (setPollution g y x p) = map length g"
  unfolding setPollution_def by (rule update_shape)

lemma shape_validPos:
  assumes "map length g' = map length g"
  shows "validPos g' y x = validPos g y x"
proof -
  have l: "length g' = length g" using assms by (metis length_map)
  have "length (g' ! y) = length (g ! y)" if "y < length g"
    using assms that l by (metis nth_map)
  with l show ?thesis by (auto simp: validPos_def)
qed

lemma shape_dims:
  assumes "map length g' = map length g"
  shows "length g' = length g" and "y < length g \<Longrightarrow> length (g' ! y) = length (g ! y)"
proof -
  show l: "length g' = length g" using assms by (metis length_map)
  show "length (g' ! y) = length (g ! y)" if "y < length g"
    using assms that l by (metis nth_map)
qed

lemma getPollution_setPollution:
  assumes "validPos g y x"
  shows "getPollution (setPollution g y x p) y' x'
           = (if y' = y \<and> x' = x then p else getPollution g y' x')"
proof (cases "y' = y")
  case False
  then show ?thesis by (simp add: getPollution_def setPollution_def)
next
  case True
  with assms show ?thesis
    by (cases "x' = x") (simp_all add: getPollution_def setPollution_def validPos_def orZero_def)
qed

lemma pol_setPollution:
  "validPos g y x \<Longrightarrow> pol (setPollution g y x p) = (pol g)((y, x) := p)"
  by (auto simp: pol_def getPollution_setPollution fun_eq_iff)

lemma buildingType_setPollution:
  "buildingType (setPollution g y x p ! y' ! x') = buildingType (g ! y' ! x')"
proof (cases "y' = y \<and> y < length g")
  case False
  then show ?thesis
    by (auto simp: setPollution_def list_update_beyond)
next
  case True
  then show ?thesis
    by (cases "x' = x \<and> x < length (g ! y)") (auto simp: setPollution_def list_update_beyond)
qed

lemma posSum_upd:
  "distinct ps \<Longrightarrow>
     posSum (f(a := v)) ps = posSum f ps + (if a \<in> set ps then v - f a else 0)"
  by (induction ps) (auto simp: posSum_def)

lemma posSum_mono:
  "(\<And>p. p \<in> set ps \<Longrightarrow> f p \<le> f' p) \<Longrightarrow> posSum f ps \<le> posSum f' ps"
  unfolding posSum_def by (induction ps) (auto intro: add_mono)

subsection \<open>The four parts of the loop body\<close>

lemma sameLayout_refl: "sameLayout g g"
  by (simp add: sameLayout_def)

lemma sameLayout_trans:
  assumes a: "sameLayout g'' g'" and b: "sameLayout g' g"
  shows "sameLayout g'' g"
proof -
  have 1: "map length g'' = map length g'"
    and 2: "buildingType (g'' ! y ! x) = buildingType (g' ! y ! x)" for y x
    using a unfolding sameLayout_def by blast+
  have 3: "map length g' = map length g"
    and 4: "buildingType (g' ! y ! x) = buildingType (g ! y ! x)" for y x
    using b unfolding sameLayout_def by blast+
  show ?thesis
    unfolding sameLayout_def by (simp only: 1 2 3 4) simp
qed

lemma sameLayout_setPollution: "sameLayout (setPollution g y x p) g"
  by (simp add: sameLayout_def setPollution_shape buildingType_setPollution)

lemma sameLayout_validPos: "sameLayout g' g \<Longrightarrow> validPos g' y x = validPos g y x"
  unfolding sameLayout_def by (elim conjE) (rule shape_validPos)



lemma envGenerate_props:
  assumes v: "validPos g y x"
    and n: "\<not> orZero (cfgPollution (BUILDINGS (buildingType (g ! y ! x)))) > 0"
  shows "sameLayout (envGenerate y x g) g"
    and "\<exists>v1. v1 \<le> pol g (y, x) \<and> pol (envGenerate y x g) = (pol g)((y, x) := v1)"
proof -
  show "sameLayout (envGenerate y x g) g"
    by (simp add: envGenerate_def Let_def sameLayout_setPollution sameLayout_refl)
  let ?c = "orZero (cfgPollution (BUILDINGS (buildingType (g ! y ! x))))"
  show "\<exists>v1. v1 \<le> pol g (y, x) \<and> pol (envGenerate y x g) = (pol g)((y, x) := v1)"
  proof (cases "truthy (cfgPollution (BUILDINGS (buildingType (g ! y ! x))))")
    case True
    have "min 100 (getPollution g y x + ?c * 2) \<le> pol g (y, x)"
      using n by (simp add: pol_def min_def)
    with True v show ?thesis
      by (auto simp: envGenerate_def Let_def pol_setPollution)
  next
    case False
    then have "pol (envGenerate y x g) = (pol g)((y, x) := pol g (y, x))"
      by (simp add: envGenerate_def Let_def)
    then show ?thesis by blast
  qed
qed

lemma envDecay_props:
  assumes v: "validPos g y x"
  shows "sameLayout (envDecay y x g) g"
    and "\<exists>d. 0.7 \<le> d \<and> d \<le> 0.95 \<and> pol (envDecay y x g) = (pol g)((y, x) := pol g (y, x) * d)"
proof -
  show "sameLayout (envDecay y x g) g"
    by (simp add: envDecay_def Let_def sameLayout_setPollution)
  define d :: real where "d = (if buildingType (g ! y ! x) = Water then 0.95
      else if buildingType (g ! y ! x) = Park then 0.70 else 0.90)"
  have "envDecay y x g = setPollution g y x (getPollution g y x * d)"
    by (simp add: envDecay_def Let_def d_def)
  then have "pol (envDecay y x g) = (pol g)((y, x) := pol g (y, x) * d)"
    using v by (simp add: pol_setPollution) (simp add: pol_def)
  moreover have "0.7 \<le> d \<and> d \<le> 0.95" by (simp add: d_def)
  ultimately show "\<exists>d. 0.7 \<le> d \<and> d \<le> 0.95
      \<and> pol (envDecay y x g) = (pol g)((y, x) := pol g (y, x) * d)"
    by blast
qed

lemma envValidate_props:
  assumes v: "validPos g y x"
  shows "sameLayout (envValidate y x g) g"
    and "pol (envValidate y x g)
           = (if pol g (y, x) < 0.5 then (pol g)((y, x) := 0) else pol g)"
proof -
  show "sameLayout (envValidate y x g) g"
    by (simp add: envValidate_def sameLayout_setPollution sameLayout_refl)
  show "pol (envValidate y x g) = (if pol g (y, x) < 0.5 then (pol g)((y, x) := 0) else pol g)"
    using v by (simp add: envValidate_def pol_setPollution) (simp add: pol_def)
qed

lemma envAdvect_props:
  assumes v: "validPos g y x"
    and h: "length g = h" and w: "\<forall>y < h. length (g ! y) = w"
    and s0: "0 \<le> speed" and s1: "speed \<le> 1"
  shows "\<exists>g'. envAdvect wind speed w h y x g = Inr g' \<and> sameLayout g' g
     \<and> (pol g (y, x) \<le> 1 \<longrightarrow> g' = g)
     \<and> (pol g (y, x) > 1 \<longrightarrow>
          (\<exists>m t. 0 \<le> m \<and> m \<le> 0.3 * pol g (y, x)
             \<and> (pol g' = ((pol g)(t := pol g t + m))
                             ((y, x) := ((pol g)(t := pol g t + m)) (y, x) - m)
                   \<and> fst t < h \<and> snd t < w
                 \<or> pol g' = (pol g)((y, x) := pol g (y, x) - m))))"
proof (cases "pol g (y, x) > 1")
  case False
  then show ?thesis
    by (simp add: envAdvect_def pol_def sameLayout_refl)
next
  case True
  define m where "m = getPollution g y x * 0.3 * speed"
  define tx where "tx = Math_round (real x + vecX wind)"
  define ty where "ty = Math_round (real y + vecY wind)"
  have p: "getPollution g y x = pol g (y, x)" by (simp add: pol_def)
  have pos: "0 < pol g (y, x)" using True by simp
  have m0: "0 \<le> m" using pos s0 by (simp add: m_def p)
  have "pol g (y, x) * 0.3 * speed \<le> pol g (y, x) * 0.3 * 1"
    using pos s1 by (intro mult_left_mono) simp_all
  then have m1: "m \<le> 0.3 * pol g (y, x)" by (simp add: m_def p)
  have unfold: "envAdvect wind speed w h y x g =
      (if tx \<ge> 0 \<and> tx < int w \<and> ty \<ge> 0 \<and> ty < int h then
         (if nat tx < length (g ! nat ty) then
            Inr (setPollution
                   (setPollution g (nat ty) (nat tx) (getPollution g (nat ty) (nat tx) + m))
                   y x
                   (getPollution
                      (setPollution g (nat ty) (nat tx) (getPollution g (nat ty) (nat tx) + m))
                      y x - m))
          else Inl TypeError)
       else Inr (setPollution g y x (getPollution g y x - m)))"
    unfolding envAdvect_def Let_def m_def tx_def ty_def p
    using True by (simp only: if_True)
  show ?thesis
  proof (cases "tx \<ge> 0 \<and> tx < int w \<and> ty \<ge> 0 \<and> ty < int h")
    case out: False
    let ?g' = "setPollution g y x (getPollution g y x - m)"
    have e: "envAdvect wind speed w h y x g = Inr ?g'"
      unfolding unfold using out by (simp only: if_False simp_thms)
    have "pol ?g' = (pol g)((y, x) := pol g (y, x) - m)"
      using v by (simp add: pol_setPollution p)
    with e m0 m1 True show ?thesis
      by (auto simp: sameLayout_setPollution)
  next
    case inb: True
    then have ty: "nat ty < h" and tx: "nat tx < w" by auto
    then have vt: "validPos g (nat ty) (nat tx)"
      using h w by (simp add: validPos_def)
    let ?g1 = "setPollution g (nat ty) (nat tx) (getPollution g (nat ty) (nat tx) + m)"
    let ?g' = "setPollution ?g1 y x (getPollution ?g1 y x - m)"
    have len: "nat tx < length (g ! nat ty)" using vt by (simp add: validPos_def)
    have e: "envAdvect wind speed w h y x g = Inr ?g'"
      unfolding unfold using inb len by (simp only: if_True simp_thms)
    have p1: "pol ?g1 = (pol g)((nat ty, nat tx) := pol g (nat ty, nat tx) + m)"
      using vt by (simp add: pol_setPollution) (simp add: pol_def)
    have v1: "validPos ?g1 y x"
      using v by (simp add: sameLayout_validPos [OF sameLayout_setPollution])
    have "pol ?g' = (pol ?g1)((y, x) := pol ?g1 (y, x) - m)"
      using v1 by (simp add: pol_setPollution) (simp add: pol_def)
    then have p2: "pol ?g' = ((pol g)((nat ty, nat tx) := pol g (nat ty, nat tx) + m))
        ((y, x) := ((pol g)((nat ty, nat tx) := pol g (nat ty, nat tx) + m)) (y, x) - m)"
      by (simp only: p1)
    have l: "sameLayout ?g' g"
      by (rule sameLayout_trans [OF sameLayout_setPollution sameLayout_setPollution])
    from e l p2 m0 m1 ty tx True show ?thesis
      by (intro exI [of _ ?g'] conjI impI exI [of _ m] exI [of _ "(nat ty, nat tx)"]) simp_all
  qed
qed

text \<open>The loop body on the pollution function: \<open>f0\<close> before, \<open>f2\<close> after generation and
  decay, \<open>f3\<close> after advection, \<open>f4\<close> after validation. In the end the tile holds \<open>q\<close>
  and one tile \<open>t\<close> has received \<open>m\<close>.\<close>

lemma tile_fun_normal_form:
  fixes f0 f2 f3 f4 :: "nat \<times> nat \<Rightarrow> real"
  assumes p0: "0 \<le> f0 s" and v2: "v2 \<le> 0.95 * f0 s"
    and f2: "f2 = f0(s := v2)"
    and f3: "(v2 \<le> 1 \<and> f3 = f2)
       \<or> (v2 > 1 \<and> (\<exists>m t. 0 \<le> m \<and> m \<le> 0.3 * v2
            \<and> (f3 = (f2(t := f2 t + m))(s := (f2(t := f2 t + m)) s - m) \<and> t \<in> set ps
                \<or> f3 = f2(s := f2 s - m))))"
    and f4: "f4 = (if f3 s < 0.5 then f3(s := 0) else f3)"
  shows "\<exists>q t m. f4 = (f0(t := f0 t + m))(s := q) \<and> 0 \<le> m \<and> 0 \<le> q
          \<and> q + m \<le> 0.95 * f0 s \<and> (m \<noteq> 0 \<longrightarrow> t \<in> set ps \<and> t \<noteq> s)
          \<and> (f0 s \<le> 1 \<longrightarrow> m = 0 \<and> (f0 s < 0.5 \<longrightarrow> q = 0))"
proof -
  have triv: "(f0(s := f0 s + 0))(s := q) = f0(s := q)" for q by simp
  from f3 show ?thesis
  proof (elim disjE conjE exE)
    assume a: "v2 \<le> 1" "f3 = f2"
    define q :: real where "q = (if v2 < 0.5 then 0 else v2)"
    have "f4 = f0(s := q)"
      unfolding f4 a(2) f2 q_def by simp
    then have 1: "f4 = (f0(s := f0 s + 0))(s := q)" by (simp only: triv)
    have 2: "0 \<le> q" by (simp add: q_def)
    have 3: "q + 0 \<le> 0.95 * f0 s" using v2 p0 by (simp add: q_def)
    have 4: "f0 s < 0.5 \<longrightarrow> q = 0" using v2 p0 by (simp add: q_def)
    from 1 2 3 4 show ?thesis
      by (intro exI [of _ q] exI [of _ s] exI [of _ "0::real"]) simp
  next
    fix m t
    assume a: "v2 > 1" "0 \<le> m" "m \<le> 0.3 * v2"
      "f3 = (f2(t := f2 t + m))(s := (f2(t := f2 t + m)) s - m)" "t \<in> set ps"
    have big: "\<not> f0 s \<le> 1" using a(1) v2 p0 by simp
    show ?thesis
    proof (cases "t = s")
      case True
      have "f3 = f0(s := v2)"
        unfolding a(4) f2 True by simp
      then have "f4 = f0(s := v2)"
        unfolding f4 using a(1) by simp
      then have 1: "f4 = (f0(s := f0 s + 0))(s := v2)" by (simp only: triv)
      have 2: "0 \<le> v2" using a(1) by simp
      have 3: "v2 + 0 \<le> 0.95 * f0 s" using v2 by simp
      from 1 2 3 big show ?thesis
        by (intro exI [of _ v2] exI [of _ s] exI [of _ "0::real"]) simp
    next
      case False
      have f3': "f3 = (f0(t := f0 t + m))(s := v2 - m)"
        unfolding a(4) f2 using False by (simp add: fun_eq_iff)
      have ge: "\<not> v2 - m < 0.5" using a(1,3) by simp
      have 1: "f4 = (f0(t := f0 t + m))(s := v2 - m)"
        unfolding f4 f3' using ge by simp
      have 2: "0 \<le> v2 - m" using ge by simp
      have 3: "(v2 - m) + m \<le> 0.95 * f0 s" using v2 by simp
      from 1 2 3 big a(2,5) False show ?thesis
        by (intro exI [of _ "v2 - m"] exI [of _ t] exI [of _ m]) simp
    qed
  next
    fix m t
    assume a: "v2 > 1" "0 \<le> m" "m \<le> 0.3 * v2" "f3 = f2(s := f2 s - m)"
    have big: "\<not> f0 s \<le> 1" using a(1) v2 p0 by simp
    have f3': "f3 = f0(s := v2 - m)"
      unfolding a(4) f2 by simp
    have ge: "\<not> v2 - m < 0.5" using a(1,3) by simp
    have "f4 = f0(s := v2 - m)"
      unfolding f4 f3' using ge by simp
    then have 1: "f4 = (f0(s := f0 s + 0))(s := v2 - m)" by (simp only: triv)
    have 2: "0 \<le> v2 - m" using ge by simp
    have 3: "(v2 - m) + 0 \<le> 0.95 * f0 s" using v2 a(2) by simp
    from 1 2 3 big show ?thesis
      by (intro exI [of _ "v2 - m"] exI [of _ s] exI [of _ "0::real"]) simp
  qed
qed

lemma tile_fun_consequences:
  fixes f0 f4 :: "nat \<times> nat \<Rightarrow> real"
  assumes f4: "f4 = (f0(t := f0 t + m))(s := q)"
    and m: "0 \<le> m" and q: "0 \<le> q" and qm: "q + m \<le> 0.95 * f0 s"
    and t: "m \<noteq> 0 \<longrightarrow> t \<in> set ps \<and> t \<noteq> s"
    and small: "f0 s \<le> 1 \<longrightarrow> m = 0 \<and> (f0 s < 0.5 \<longrightarrow> q = 0)"
    and p0: "0 \<le> f0 s" and d: "distinct ps" and s: "s \<in> set ps"
  shows "\<And>p. p \<noteq> s \<Longrightarrow> f0 p \<le> f4 p"
    and "f4 s = q"
    and "posSum f4 ps \<le> posSum f0 ps - 0.05 * f0 s"
    and "f0 s \<le> 1 \<Longrightarrow> p \<noteq> s \<Longrightarrow> f4 p = f0 p"
    and "f0 s \<le> 1 \<Longrightarrow> f4 s \<le> f0 s"
    and "f0 s < 0.5 \<Longrightarrow> f4 s = 0"
proof -
  show "f0 p \<le> f4 p" if "p \<noteq> s" for p
    using that m by (simp add: f4)
  show fs: "f4 s = q" by (simp add: f4)
  have sum: "posSum f4 ps = posSum f0 ps + m + (q - f0 s)"
  proof (cases "m = 0")
    case True
    then have "f4 = f0(s := q)" by (simp add: f4)
    then show ?thesis using d s True by (simp add: posSum_upd)
  next
    case False
    with t have ts: "t \<in> set ps" "t \<noteq> s" by simp_all
    have "posSum f4 ps = posSum (f0(t := f0 t + m)) ps + (q - (f0(t := f0 t + m)) s)"
      unfolding f4 using d s by (simp only: posSum_upd if_True)
    also have "(f0(t := f0 t + m)) s = f0 s" using ts by simp
    also have "posSum (f0(t := f0 t + m)) ps = posSum f0 ps + m"
      using d ts by (simp add: posSum_upd)
    finally show ?thesis .
  qed
  show "posSum f4 ps \<le> posSum f0 ps - 0.05 * f0 s"
    unfolding sum using qm by simp
  show "f4 p = f0 p" if "f0 s \<le> 1" "p \<noteq> s"
    using that small by (simp add: f4)
  show "f4 s \<le> f0 s" if "f0 s \<le> 1"
    unfolding fs using qm m p0 by simp
  show "f4 s = 0" if "f0 s < 0.5"
    unfolding fs using that small by simp
qed

subsection \<open>One tile of the loop\<close>

lemma cleanGrid_layout:
  assumes c: "cleanGrid w h g" and l: "sameLayout g' g"
    and n: "\<And>y x. y < h \<Longrightarrow> x < w \<Longrightarrow> 0 \<le> pol g' (y, x)"
  shows "cleanGrid w h g'"
proof -
  have m: "map length g' = map length g"
    and b: "buildingType (g' ! y ! x) = buildingType (g ! y ! x)" for y x
    using l unfolding sameLayout_def by blast+
  have h: "length g = h" and w: "\<forall>y < h. length (g ! y) = w"
    and s: "\<forall>y < h. \<forall>x < w.
           \<not> orZero (cfgPollution (BUILDINGS (buildingType (g ! y ! x)))) > 0"
    using c unfolding cleanGrid_def by blast+
  have h': "length g' = h" using shape_dims(1) [OF m] h by simp
  have w': "\<forall>y < h. length (g' ! y) = w"
    using shape_dims(2) [OF m] h w by simp
  show ?thesis
    unfolding cleanGrid_def using h' w' n s by (simp add: b)
qed

lemma cleanGrid_validPos: "cleanGrid w h g \<Longrightarrow> y < h \<Longrightarrow> x < w \<Longrightarrow> validPos g y x"
  by (simp add: cleanGrid_def validPos_def)

lemma envTile_step:
  assumes c: "cleanGrid w h g" and y: "y < h" and x: "x < w"
    and s0: "0 \<le> speed" and s1: "speed \<le> 1"
    and d: "distinct ps" and sp: "(y, x) \<in> set ps"
    and al: "\<And>y' x'. y' < h \<Longrightarrow> x' < w \<Longrightarrow> (y', x') \<in> set ps"
  shows "\<exists>g' T' n'. envTile wind speed w h y x (g, T, n) = Inr (g', T', n')
      \<and> cleanGrid w h g' \<and> sameLayout g' g
      \<and> (\<forall>p. p \<noteq> (y, x) \<longrightarrow> pol g p \<le> pol g' p)
      \<and> posSum (pol g') ps \<le> posSum (pol g) ps - 0.05 * pol g (y, x)
      \<and> (pol g (y, x) \<le> 1 \<longrightarrow>
            (\<forall>p. p \<noteq> (y, x) \<longrightarrow> pol g' p = pol g p) \<and> pol g' (y, x) \<le> pol g (y, x))
      \<and> (pol g (y, x) < 0.5 \<longrightarrow> pol g' (y, x) = 0)"
proof -
  let ?s = "(y, x)"
  have v: "validPos g y x" by (rule cleanGrid_validPos [OF c y x])
  have p0: "0 \<le> pol g ?s" using c y x unfolding cleanGrid_def by blast
  have ns: "\<not> orZero (cfgPollution (BUILDINGS (buildingType (g ! y ! x)))) > 0"
    using c y x unfolding cleanGrid_def by blast
  define g1 where "g1 = envGenerate y x g"
  define g2 where "g2 = envDecay y x g1"
  have l1: "sameLayout g1 g" unfolding g1_def by (rule envGenerate_props(1) [OF v ns])
  obtain v1 where v1: "v1 \<le> pol g ?s" and f1: "pol g1 = (pol g)(?s := v1)"
    using envGenerate_props(2) [OF v ns] unfolding g1_def by blast
  have val1: "validPos g1 y x" using v by (simp add: sameLayout_validPos [OF l1])
  have l2: "sameLayout g2 g1" unfolding g2_def by (rule envDecay_props(1) [OF val1])
  obtain dc where dc: "0.7 \<le> dc" "dc \<le> 0.95"
    and f2': "pol g2 = (pol g1)(?s := pol g1 ?s * dc)"
    using envDecay_props(2) [OF val1] unfolding g2_def by blast
  define v2 where "v2 = v1 * dc"
  have f2: "pol g2 = (pol g)(?s := v2)"
    unfolding f2' f1 v2_def by simp
  have v2le: "v2 \<le> 0.95 * pol g ?s"
  proof (cases "0 \<le> v1")
    case True
    have "v1 * dc \<le> v1 * 0.95" using True dc(2) by (intro mult_left_mono) simp_all
    also have "\<dots> \<le> pol g ?s * 0.95" using v1 by simp
    finally show ?thesis by (simp add: v2_def)
  next
    case False
    then have "v1 * dc \<le> 0" using dc(1) by (simp add: mult_le_0_iff)
    with p0 show ?thesis by (simp add: v2_def)
  qed
  have l2g: "sameLayout g2 g" by (rule sameLayout_trans [OF l2 l1])
  have val2: "validPos g2 y x" using v by (simp add: sameLayout_validPos [OF l2g])
  have c2: "length g2 = h" "\<forall>y < h. length (g2 ! y) = w"
  proof -
    have m: "map length g2 = map length g" using l2g unfolding sameLayout_def by blast
    have h: "length g = h" and w: "\<forall>y < h. length (g ! y) = w"
      using c unfolding cleanGrid_def by blast+
    show "length g2 = h" using shape_dims(1) [OF m] h by simp
    show "\<forall>y < h. length (g2 ! y) = w" using shape_dims(2) [OF m] h w by simp
  qed
  obtain g3 where e3: "envAdvect wind speed w h y x g2 = Inr g3" and l3: "sameLayout g3 g2"
    and still: "pol g2 ?s \<le> 1 \<longrightarrow> g3 = g2"
    and moved: "pol g2 ?s > 1 \<longrightarrow>
          (\<exists>m t. 0 \<le> m \<and> m \<le> 0.3 * pol g2 ?s
             \<and> (pol g3 = ((pol g2)(t := pol g2 t + m))
                             (?s := ((pol g2)(t := pol g2 t + m)) ?s - m)
                   \<and> fst t < h \<and> snd t < w
                 \<or> pol g3 = (pol g2)(?s := pol g2 ?s - m)))"
    using envAdvect_props [OF val2 c2 s0 s1, of wind] by blast
  have s2: "pol g2 ?s = v2" by (simp add: f2)
  have f3: "(v2 \<le> 1 \<and> pol g3 = pol g2)
       \<or> (v2 > 1 \<and> (\<exists>m t. 0 \<le> m \<and> m \<le> 0.3 * v2
            \<and> (pol g3 = ((pol g2)(t := pol g2 t + m))(?s := ((pol g2)(t := pol g2 t + m)) ?s - m)
                  \<and> t \<in> set ps
                \<or> pol g3 = (pol g2)(?s := pol g2 ?s - m))))"
  proof (cases "v2 \<le> 1")
    case True
    with still s2 show ?thesis by simp
  next
    case False
    then have gt: "pol g2 ?s > 1" by (simp only: s2 not_le)
    from moved [rule_format, OF gt] obtain m t where m0: "0 \<le> m"
      and m1: "m \<le> 0.3 * pol g2 ?s"
      and alt: "pol g3 = ((pol g2)(t := pol g2 t + m))(?s := ((pol g2)(t := pol g2 t + m)) ?s - m)
         \<and> fst t < h \<and> snd t < w
       \<or> pol g3 = (pol g2)(?s := pol g2 ?s - m)"
      by (elim exE conjE)
    have tin: "fst t < h \<and> snd t < w \<Longrightarrow> t \<in> set ps"
      using al [of "fst t" "snd t"] by simp
    have m1': "m \<le> 0.3 * v2" using m1 by (simp only: s2)
    have "pol g3 = ((pol g2)(t := pol g2 t + m))(?s := ((pol g2)(t := pol g2 t + m)) ?s - m)
                  \<and> t \<in> set ps
                \<or> pol g3 = (pol g2)(?s := pol g2 ?s - m)"
      using alt tin by blast
    moreover have "1 < v2" using False by simp
    ultimately show ?thesis using m0 m1' by blast
  qed
  define g4 where "g4 = envValidate y x g3"
  have l3g: "sameLayout g3 g" by (rule sameLayout_trans [OF l3 l2g])
  have val3: "validPos g3 y x" using v by (simp add: sameLayout_validPos [OF l3g])
  have l4: "sameLayout g4 g"
    unfolding g4_def by (rule sameLayout_trans [OF envValidate_props(1) [OF val3] l3g])
  have f4: "pol g4 = (if pol g3 ?s < 0.5 then (pol g3)(?s := 0) else pol g3)"
    unfolding g4_def by (rule envValidate_props(2) [OF val3])
  obtain q t m where nf: "pol g4 = ((pol g)(t := pol g t + m))(?s := q)" "0 \<le> m" "0 \<le> q"
    "q + m \<le> 0.95 * pol g ?s" "m \<noteq> 0 \<longrightarrow> t \<in> set ps \<and> t \<noteq> ?s"
    "pol g ?s \<le> 1 \<longrightarrow> m = 0 \<and> (pol g ?s < 0.5 \<longrightarrow> q = 0)"
    using tile_fun_normal_form [OF p0 v2le f2 f3 f4] by blast
  note cons = tile_fun_consequences [OF nf p0 d sp]
  have oth: "\<forall>p. p \<noteq> ?s \<longrightarrow> pol g p \<le> pol g4 p" using cons(1) by blast
  have nonneg: "0 \<le> pol g4 (y', x')" if "y' < h" "x' < w" for y' x'
  proof (cases "(y', x') = ?s")
    case True
    then show ?thesis using cons(2) nf(3) by simp
  next
    case False
    have a: "0 \<le> pol g (y', x')" using c that unfolding cleanGrid_def by blast
    have b: "pol g (y', x') \<le> pol g4 (y', x')" by (rule oth [rule_format, OF False])
    show ?thesis by (rule order_trans [OF a b])
  qed
  have c4: "cleanGrid w h g4" by (rule cleanGrid_layout [OF c l4 nonneg])
  have xl: "x < length (g ! y)" using v by (simp add: validPos_def)
  have "\<exists>T' n'. envTile wind speed w h y x (g, T, n) = Inr (g4, T', n')"
    using xl e3 by (simp add: envTile_def Let_def g1_def [symmetric] g2_def [symmetric]
        g4_def [symmetric])
  then obtain T' n' where e: "envTile wind speed w h y x (g, T, n) = Inr (g4, T', n')"
    by blast
  have r5: "pol g (y, x) \<le> 1 \<longrightarrow>
            (\<forall>p. p \<noteq> (y, x) \<longrightarrow> pol g4 p = pol g p) \<and> pol g4 (y, x) \<le> pol g (y, x)"
    using cons(4) cons(5) by blast
  have r6: "pol g (y, x) < 0.5 \<longrightarrow> pol g4 (y, x) = 0"
    using cons(6) by blast
  show ?thesis
    apply (rule exI [of _ g4])
    apply (rule exI [of _ T'])
    apply (rule exI [of _ n'])
    apply (intro conjI)
          apply (rule e)
         apply (rule c4)
        apply (rule l4)
       apply (rule oth)
      apply (rule cons(3))
     apply (rule r5)
    apply (rule r6)
    done
qed

subsection \<open>The loop over the positions\<close>

lemma posSum_Cons: "posSum f (p # ps) = f p + posSum f ps"
  by (simp add: posSum_def)

lemma posSum_Nil: "posSum f [] = 0"
  by (simp add: posSum_def)

lemma envLoop_step:
  assumes s0: "0 \<le> speed" and s1: "speed \<le> 1"
    and d: "distinct al"
    and al: "\<And>y' x'. y' < h \<Longrightarrow> x' < w \<Longrightarrow> (y', x') \<in> set al"
  shows "cleanGrid w h g \<Longrightarrow> distinct ps \<Longrightarrow> set ps \<subseteq> set al
      \<Longrightarrow> (\<And>y x. (y, x) \<in> set ps \<Longrightarrow> y < h \<and> x < w)
      \<Longrightarrow> \<exists>g' T' n'. envLoop wind speed w h ps (g, T, n) = Inr (g', T', n')
            \<and> cleanGrid w h g' \<and> sameLayout g' g
            \<and> posSum (pol g') al \<le> posSum (pol g) al - 0.05 * posSum (pol g) ps
            \<and> ((\<forall>p \<in> set ps. pol g p < 0.5)
                 \<longrightarrow> (\<forall>p. pol g' p = (if p \<in> set ps then 0 else pol g p)))"
proof (induction ps arbitrary: g T n)
  case Nil
  then show ?case by (simp add: sameLayout_refl posSum_Nil)
next
  case (Cons s ps)
  obtain y x where s: "s = (y, x)" by (cases s)
  have yx: "y < h" "x < w" using Cons.prems(4) [of y x] s by simp_all
  have sin: "(y, x) \<in> set al" using Cons.prems(3) s by simp
  have snot: "(y, x) \<notin> set ps" using Cons.prems(2) s by simp
  obtain g1 T1 n1 where e1: "envTile wind speed w h y x (g, T, n) = Inr (g1, T1, n1)"
    and c1: "cleanGrid w h g1" and l1: "sameLayout g1 g"
    and o1: "\<forall>p. p \<noteq> (y, x) \<longrightarrow> pol g p \<le> pol g1 p"
    and t1: "posSum (pol g1) al \<le> posSum (pol g) al - 0.05 * pol g (y, x)"
    and q1: "pol g (y, x) \<le> 1 \<longrightarrow>
            (\<forall>p. p \<noteq> (y, x) \<longrightarrow> pol g1 p = pol g p) \<and> pol g1 (y, x) \<le> pol g (y, x)"
    and z1: "pol g (y, x) < 0.5 \<longrightarrow> pol g1 (y, x) = 0"
    using envTile_step [OF Cons.prems(1) yx s0 s1 d sin al, of wind T n] by blast
  have d': "distinct ps" using Cons.prems(2) by simp
  have sub': "set ps \<subseteq> set al" using Cons.prems(3) by simp
  have in': "\<And>y x. (y, x) \<in> set ps \<Longrightarrow> y < h \<and> x < w"
  proof -
    fix y x assume "(y, x) \<in> set ps"
    then have "(y, x) \<in> set (s # ps)" by simp
    then show "y < h \<and> x < w" by (rule Cons.prems(4))
  qed
  obtain g' T' n' where e': "envLoop wind speed w h ps (g1, T1, n1) = Inr (g', T', n')"
    and c': "cleanGrid w h g'" and l': "sameLayout g' g1"
    and t': "posSum (pol g') al \<le> posSum (pol g1) al - 0.05 * posSum (pol g1) ps"
    and z': "(\<forall>p \<in> set ps. pol g1 p < 0.5)
                 \<longrightarrow> (\<forall>p. pol g' p = (if p \<in> set ps then 0 else pol g1 p))"
    using Cons.IH [OF c1 d' sub' in', of T1 n1] by blast
  have e: "envLoop wind speed w h (s # ps) (g, T, n) = Inr (g', T', n')"
    by (simp add: s e1 e')
  have mono: "posSum (pol g) ps \<le> posSum (pol g1) ps"
  proof (rule posSum_mono)
    fix p assume "p \<in> set ps"
    with snot have "p \<noteq> (y, x)" by blast
    with o1 show "pol g p \<le> pol g1 p" by blast
  qed
  have t: "posSum (pol g') al \<le> posSum (pol g) al - 0.05 * posSum (pol g) (s # ps)"
  proof -
    have "posSum (pol g) (s # ps) = pol g (y, x) + posSum (pol g) ps"
      by (simp add: posSum_Cons s)
    with t' t1 mono show ?thesis by (simp add: add_divide_distrib)
  qed
  have z: "(\<forall>p \<in> set (s # ps). pol g p < 0.5)
                 \<longrightarrow> (\<forall>p. pol g' p = (if p \<in> set (s # ps) then 0 else pol g p))"
  proof (intro impI allI)
    fix p
    assume a: "\<forall>p \<in> set (s # ps). pol g p < 0.5"
    then have hs: "pol g (y, x) < 0.5" by (simp add: s)
    then have le: "pol g (y, x) \<le> 1" by simp
    have same: "\<And>p. p \<noteq> (y, x) \<Longrightarrow> pol g1 p = pol g p" using q1 le by blast
    have zero: "pol g1 (y, x) = 0" using z1 hs by blast
    have "\<forall>p \<in> set ps. pol g1 p < 0.5"
    proof
      fix p assume pin: "p \<in> set ps"
      with snot have ne: "p \<noteq> (y, x)" by blast
      have "pol g p < 0.5" using a pin by simp
      then show "pol g1 p < 0.5" by (simp only: same [OF ne])
    qed
    with z' have r: "pol g' p = (if p \<in> set ps then 0 else pol g1 p)" by blast
    show "pol g' p = (if p \<in> set (s # ps) then 0 else pol g p)"
    proof (cases "p = (y, x)")
      case True
      then show ?thesis using r snot zero by (simp add: s)
    next
      case False
      then show ?thesis using r same [OF False] by (simp add: s)
    qed
  qed
  from e c' sameLayout_trans [OF l' l1] t z show ?case by blast
qed

subsection \<open>The total over the grid\<close>

lemma concat_product:
  "concat (map (\<lambda>y. map (f y) xs) ys) = map (\<lambda>(y, x). f y x) (List.product ys xs)"
  by (induction ys) (simp_all add: comp_def)

lemma grid_table:
  assumes h: "length g = h" and w: "\<forall>y < h. length (g ! y) = w"
  shows "g = map (\<lambda>y. map (\<lambda>x. g ! y ! x) [0 ..< w]) [0 ..< h]"
proof (rule nth_equalityI)
  show "length g = length (map (\<lambda>y. map (\<lambda>x. g ! y ! x) [0 ..< w]) [0 ..< h])"
    using h by simp
next
  fix i assume "i < length g"
  then have i: "i < h" using h by simp
  then have l: "length (g ! i) = w" using w by simp
  have "g ! i = map (\<lambda>x. g ! i ! x) [0 ..< w]"
    by (rule nth_equalityI) (simp_all add: l)
  then show "g ! i = map (\<lambda>y. map (\<lambda>x. g ! y ! x) [0 ..< w]) [0 ..< h] ! i"
    using i by simp
qed

lemma gridPollution_posSum:
  assumes h: "length g = h" and w: "\<forall>y < h. length (g ! y) = w"
  shows "gridPollution g = posSum (pol g) (List.product [0 ..< h] [0 ..< w])"
proof -
  have "concat g = concat (map (\<lambda>y. map (\<lambda>x. g ! y ! x) [0 ..< w]) [0 ..< h])"
    by (rule arg_cong [OF grid_table [OF h w]])
  also have "\<dots> = map (\<lambda>(y, x). g ! y ! x) (List.product [0 ..< h] [0 ..< w])"
    by (rule concat_product)
  finally have c: "concat g = map (\<lambda>(y, x). g ! y ! x) (List.product [0 ..< h] [0 ..< w])" .
  have f: "(\<lambda>t. orZero (pollution t)) \<circ> (\<lambda>(y, x). g ! y ! x) = pol g"
    by (rule ext) (simp add: pol_def getPollution_def case_prod_beta)
  show ?thesis
    unfolding gridPollution_def posSum_def c map_map f ..
qed

lemma posSum_nonneg: "(\<And>p. p \<in> set ps \<Longrightarrow> 0 \<le> f p) \<Longrightarrow> 0 \<le> posSum f ps"
  unfolding posSum_def by (induction ps) simp_all

lemma posSum_zero: "(\<And>p. p \<in> set ps \<Longrightarrow> f p = 0) \<Longrightarrow> posSum f ps = 0"
  unfolding posSum_def by (induction ps) simp_all

lemma posSum_member_le:
  "(\<And>p. p \<in> set ps \<Longrightarrow> 0 \<le> f p) \<Longrightarrow> q \<in> set ps \<Longrightarrow> f q \<le> posSum f ps"
proof (induction ps)
  case Nil
  then show ?case by simp
next
  case (Cons a ps)
  have n: "0 \<le> posSum f ps" by (rule posSum_nonneg) (simp add: Cons.prems(1))
  have a: "0 \<le> f a" by (simp add: Cons.prems(1))
  show ?case
  proof (cases "q = a")
    case True
    with n show ?thesis by (simp add: posSum_Cons)
  next
    case False
    with Cons.prems(2) have "q \<in> set ps" by simp
    then have "f q \<le> posSum f ps" by (intro Cons.IH) (simp_all add: Cons.prems(1))
    with a show ?thesis by (simp add: posSum_Cons)
  qed
qed

lemma list_all_concat_nth:
  assumes a: "list_all P (concat g)" and y: "y < length g" and x: "x < length (g ! y)"
  shows "P (g ! y ! x)"
proof -
  have r: "g ! y \<in> set g" using y by simp
  have t: "g ! y ! x \<in> set (g ! y)" using x by simp
  from r t have "g ! y ! x \<in> set (concat g)" by auto
  with a show ?thesis unfolding list_all_iff by blast
qed

lemma cleanGrid_intro:
  assumes r: "rectangular g" and p: "pollutionNonNegative g" and n: "noSources g"
  shows "cleanGrid (length (g ! 0)) (length g) g"
proof -
  have w: "\<forall>y < length g. length (g ! y) = length (g ! 0)"
    using rectangular_row [OF r] by simp
  have a: "0 \<le> pol g (y, x)" if "y < length g" "x < length (g ! 0)" for y x
  proof -
    have "x < length (g ! y)" using that w by simp
    from list_all_concat_nth [OF p [unfolded pollutionNonNegative_def] that(1) this]
    show ?thesis by (simp add: pol_def getPollution_def)
  qed
  have b: "\<not> orZero (cfgPollution (BUILDINGS (buildingType (g ! y ! x)))) > 0"
    if "y < length g" "x < length (g ! 0)" for y x
  proof -
    have "x < length (g ! y)" using that w by simp
    from list_all_concat_nth [OF n [unfolded noSources_def] that(1) this]
    show ?thesis .
  qed
  show ?thesis unfolding cleanGrid_def using w a b by blast
qed

lemma cleanGrid_total:
  assumes c: "cleanGrid w h g"
  shows "gridPollution g = posSum (pol g) (List.product [0 ..< h] [0 ..< w])"
    and "0 \<le> gridPollution g"
proof -
  have gl: "length g = h" and gw: "\<forall>y < h. length (g ! y) = w"
    and nn: "\<forall>y < h. \<forall>x < w. 0 \<le> pol g (y, x)"
    using c unfolding cleanGrid_def by blast+
  show t: "gridPollution g = posSum (pol g) (List.product [0 ..< h] [0 ..< w])"
    by (rule gridPollution_posSum [OF gl gw])
  have "0 \<le> posSum (pol g) (List.product [0 ..< h] [0 ..< w])"
    by (rule posSum_nonneg) (use nn in auto)
  then show "0 \<le> gridPollution g" by (simp only: t)
qed

subsection \<open>One call of the environment step\<close>

lemma windStep_speed:
  "0 \<le> speed \<Longrightarrow> speed \<le> 1 \<Longrightarrow>
     0 \<le> snd (windStep r1 r2 r3 wind speed) \<and> snd (windStep r1 r2 r3 wind speed) \<le> 1"
  by (simp add: windStep_def Let_def min_def max_def)

lemma simulateEnvironment_step:
  assumes c: "cleanGrid w h g" and h: "0 < h"
    and s0: "0 \<le> windSpeed s" and s1: "windSpeed s \<le> 1"
  shows "\<exists>res. simulateEnvironment g s r1 r2 r3 = Inr res
      \<and> cleanGrid w h (newGrid res)
      \<and> 0 \<le> updWindSpeed (windUpdate res) \<and> updWindSpeed (windUpdate res) \<le> 1
      \<and> gridPollution (newGrid res) \<le> 0.95 * gridPollution g
      \<and> 0 \<le> gridPollution (newGrid res)
      \<and> (gridPollution g < 0.5 \<longrightarrow> gridPollution (newGrid res) = 0)"
proof -
  obtain wind speed where ws: "windStep r1 r2 r3 (windDirection s) (windSpeed s) = (wind, speed)"
    by (cases "windStep r1 r2 r3 (windDirection s) (windSpeed s)")
  have sp: "0 \<le> speed" "speed \<le> 1"
    using windStep_speed [OF s0 s1, of r1 r2 r3 "windDirection s"] by (simp_all add: ws)
  have gl: "length g = h" and gw: "\<forall>y < h. length (g ! y) = w"
    and nn: "\<forall>y < h. \<forall>x < w. 0 \<le> pol g (y, x)"
    using c unfolding cleanGrid_def by blast+
  have ne: "g \<noteq> []" using gl h by auto
  have w0: "length (g ! 0) = w" using gw h by simp
  define al where "al = List.product [0 ..< h] [0 ..< w]"
  have d: "distinct al" unfolding al_def by (simp add: distinct_product)
  have al: "\<And>y' x'. y' < h \<Longrightarrow> x' < w \<Longrightarrow> (y', x') \<in> set al" unfolding al_def by simp
  have inb: "\<And>y x. (y, x) \<in> set al \<Longrightarrow> y < h \<and> x < w" unfolding al_def by simp
  obtain g' T' n' where e: "envLoop wind speed w h al (g, 0, 0) = Inr (g', T', n')"
    and c': "cleanGrid w h g'"
    and t: "posSum (pol g') al \<le> posSum (pol g) al - 0.05 * posSum (pol g) al"
    and z: "(\<forall>p \<in> set al. pol g p < 0.5)
              \<longrightarrow> (\<forall>p. pol g' p = (if p \<in> set al then 0 else pol g p))"
    using envLoop_step [OF sp d al c d subset_refl inb, of wind 0 0] by blast
  have gp: "gridPollution g = posSum (pol g) al"
    unfolding al_def by (rule cleanGrid_total(1) [OF c])
  have gp': "gridPollution g' = posSum (pol g') al"
    unfolding al_def by (rule cleanGrid_total(1) [OF c'])
  have n': "0 \<le> gridPollution g'" by (rule cleanGrid_total(2) [OF c'])
  have le: "gridPollution g' \<le> 0.95 * gridPollution g"
    using t unfolding gp gp' by simp
  have small: "gridPollution g' = 0" if lt: "gridPollution g < 0.5"
  proof -
    have "\<forall>p \<in> set al. pol g p < 0.5"
    proof
      fix p assume pin: "p \<in> set al"
      have "pol g p \<le> posSum (pol g) al"
      proof (rule posSum_member_le [OF _ pin])
        fix q assume "q \<in> set al"
        then have "fst q < h \<and> snd q < w" using inb [of "fst q" "snd q"] by simp
        then have "0 \<le> pol g (fst q, snd q)" using nn by blast
        then show "0 \<le> pol g q" by simp
      qed
      with lt show "pol g p < 0.5" unfolding gp by simp
    qed
    with z have zz: "\<forall>p. pol g' p = (if p \<in> set al then 0 else pol g p)" by blast
    have "posSum (pol g') al = 0"
    proof (rule posSum_zero)
      fix p assume "p \<in> set al"
      with zz [rule_format, of p] show "pol g' p = 0" by simp
    qed
    then show ?thesis by (simp only: gp')
  qed
  have "\<exists>lvl. simulateEnvironment g s r1 r2 r3 =
          Inr \<lparr> newGrid = g', windUpdate = \<lparr> updWindDirection = wind, updWindSpeed = speed,
                                            updPollutionLevel = lvl \<rparr> \<rparr>"
    using e by (simp add: simulateEnvironment_def ws ne w0 gl Let_def al_def)
  then obtain lvl where r: "simulateEnvironment g s r1 r2 r3 =
          Inr \<lparr> newGrid = g', windUpdate = \<lparr> updWindDirection = wind, updWindSpeed = speed,
                                            updPollutionLevel = lvl \<rparr> \<rparr>" by blast
  show ?thesis
    apply (rule exI)
    apply (intro conjI)
          apply (rule r)
         apply (use c' in simp)
        apply (use sp in simp)
       apply (use sp in simp)
      apply (use le in simp)
     apply (use n' in simp)
    apply (use small in simp)
    done
qed

subsection \<open>Repeated calls\<close>

lemma envRun_inv:
  assumes c: "cleanGrid w h grid" and h: "0 < h"
    and s0: "0 \<le> windSpeed stats" and s1: "windSpeed stats \<le> 1"
  shows "\<exists>g s. envRun draws n grid stats = Inr (g, s) \<and> cleanGrid w h g
           \<and> 0 \<le> windSpeed s \<and> windSpeed s \<le> 1"
proof (induction n)
  case 0
  show ?case using c s0 s1 by simp
next
  case (Suc n)
  then obtain g s where e: "envRun draws n grid stats = Inr (g, s)"
    and cg: "cleanGrid w h g" and b0: "0 \<le> windSpeed s" and b1: "windSpeed s \<le> 1"
    by blast
  obtain r1 r2 r3 where dr: "draws n = (r1, r2, r3)" by (cases "draws n")
  obtain res where r: "simulateEnvironment g s r1 r2 r3 = Inr res"
    and cr: "cleanGrid w h (newGrid res)"
    and u0: "0 \<le> updWindSpeed (windUpdate res)" and u1: "updWindSpeed (windUpdate res) \<le> 1"
    using simulateEnvironment_step [OF cg h b0 b1, of r1 r2 r3] by blast
  show ?case by (simp add: e dr r cr u0 u1)
qed

lemma envRun_Suc_step:
  assumes c: "cleanGrid w h grid" and h: "0 < h"
    and s0: "0 \<le> windSpeed stats" and s1: "windSpeed stats \<le> 1"
    and e: "envRun draws n grid stats = Inr (g, s)"
  shows "\<exists>g' s'. envRun draws (Suc n) grid stats = Inr (g', s')
           \<and> gridPollution g' \<le> 0.95 * gridPollution g
           \<and> 0 \<le> gridPollution g' \<and> 0 \<le> gridPollution g
           \<and> (gridPollution g < 0.5 \<longrightarrow> gridPollution g' = 0)"
proof -
  have "cleanGrid w h g \<and> 0 \<le> windSpeed s \<and> windSpeed s \<le> 1"
    using envRun_inv [OF c h s0 s1, of draws n] by (simp add: e)
  then have cg: "cleanGrid w h g" and b0: "0 \<le> windSpeed s" and b1: "windSpeed s \<le> 1"
    by blast+
  obtain r1 r2 r3 where dr: "draws n = (r1, r2, r3)" by (cases "draws n")
  obtain res where r: "simulateEnvironment g s r1 r2 r3 = Inr res"
    and le: "gridPollution (newGrid res) \<le> 0.95 * gridPollution g"
    and nn: "0 \<le> gridPollution (newGrid res)"
    and sm: "gridPollution g < 0.5 \<longrightarrow> gridPollution (newGrid res) = 0"
    using simulateEnvironment_step [OF cg h b0 b1, of r1 r2 r3] by blast
  have n0: "0 \<le> gridPollution g" by (rule cleanGrid_total(2) [OF cg])
  show ?thesis using le nn sm n0 by (simp add: e dr r)
qed

lemma envRun_bound:
  assumes c: "cleanGrid w h grid" and h: "0 < h"
    and s0: "0 \<le> windSpeed stats" and s1: "windSpeed stats \<le> 1"
  shows "\<exists>g s. envRun draws n grid stats = Inr (g, s)
           \<and> gridPollution g \<le> 0.95 ^ n * gridPollution grid"
proof (induction n)
  case 0
  show ?case by simp
next
  case (Suc n)
  then obtain g s where e: "envRun draws n grid stats = Inr (g, s)"
    and b: "gridPollution g \<le> 0.95 ^ n * gridPollution grid" by blast
  obtain g' s' where e': "envRun draws (Suc n) grid stats = Inr (g', s')"
    and le: "gridPollution g' \<le> 0.95 * gridPollution g"
    using envRun_Suc_step [OF c h s0 s1 e] by blast
  have "0.95 * gridPollution g \<le> 0.95 * (0.95 ^ n * gridPollution grid)"
    using b by (intro mult_left_mono) simp_all
  with le have "gridPollution g' \<le> 0.95 ^ Suc n * gridPollution grid" by simp
  with e' show ?case by blast
qed

lemma envRun_zero_stays:
  assumes c: "cleanGrid w h grid" and h: "0 < h"
    and s0: "0 \<le> windSpeed stats" and s1: "windSpeed stats \<le> 1"
    and e: "envRun draws N grid stats = Inr (g, s)" and z: "gridPollution g = 0"
  shows "\<exists>g s. envRun draws (N + k) grid stats = Inr (g, s) \<and> gridPollution g = 0"
proof (induction k)
  case 0
  show ?case using e z by simp
next
  case (Suc k)
  then obtain g1 s1' where e1: "envRun draws (N + k) grid stats = Inr (g1, s1')"
    and z1: "gridPollution g1 = 0" by blast
  obtain g' s' where e': "envRun draws (Suc (N + k)) grid stats = Inr (g', s')"
    and le: "gridPollution g' \<le> 0.95 * gridPollution g1" and nn: "0 \<le> gridPollution g'"
    using envRun_Suc_step [OF c h s0 s1 e1] by blast
  have "gridPollution g' = 0" using le nn z1 by simp
  with e' show ?case by simp
qed

lemma envRun_eventually_zero:
  assumes c: "cleanGrid w h grid" and h: "0 < h"
    and s0: "0 \<le> windSpeed stats" and s1: "windSpeed stats \<le> 1"
  shows "\<exists>N. \<forall>k. \<exists>g s. envRun draws (N + k) grid stats = Inr (g, s) \<and> gridPollution g = 0"
proof -
  define T where "T = gridPollution grid"
  have T0: "0 \<le> T" unfolding T_def by (rule cleanGrid_total(2) [OF c])
  have "\<exists>n. (0.95 :: real) ^ n < 0.5 / (T + 1)"
    using T0 by (intro real_arch_pow_inv) simp_all
  then obtain N0 where N0: "(0.95 :: real) ^ N0 < 0.5 / (T + 1)" by blast
  have pos: "0 < T + 1" using T0 by simp
  have up: "(0.95 :: real) ^ N0 * (T + 1) < 0.5"
    using N0 unfolding pos_less_divide_eq [OF pos] .
  have lo: "(0.95 :: real) ^ N0 * T \<le> 0.95 ^ N0 * (T + 1)"
    by (intro mult_left_mono) simp_all
  have lt: "(0.95 :: real) ^ N0 * T < 0.5" by (rule le_less_trans [OF lo up])
  obtain g s where e: "envRun draws N0 grid stats = Inr (g, s)"
    and b: "gridPollution g \<le> 0.95 ^ N0 * gridPollution grid"
    using envRun_bound [OF c h s0 s1, of draws N0] by blast
  have small: "gridPollution g < 0.5" using b lt unfolding T_def by simp
  obtain g' s' where e': "envRun draws (Suc N0) grid stats = Inr (g', s')"
    and z: "gridPollution g < 0.5 \<longrightarrow> gridPollution g' = 0"
    using envRun_Suc_step [OF c h s0 s1 e] by blast
  have z': "gridPollution g' = 0" using z small by blast
  have "\<forall>k. \<exists>g s. envRun draws (Suc N0 + k) grid stats = Inr (g, s) \<and> gridPollution g = 0"
    using envRun_zero_stays [OF c h s0 s1 e' z'] by blast
  then show ?thesis by blast
qed

text \<open>
  C6. On a grid of equal rows that holds no tile whose building type has a positive
  pollution coefficient and no negative pollution, with a wind speed between 0 and 1, a
  call of \<open>simulateEnvironment\<close> returns, whatever the random draws, and the pollution
  summed over the tiles of its grid is not above the sum before the call. Under repeated
  calls every call returns, the total after a call is never above the total before it
  and never negative, and from some call on the total is exactly 0.
\<close>

theorem pollution_decreases_to_zero:
  assumes ne: "grid \<noteq> []" and r: "rectangular grid"
    and p: "pollutionNonNegative grid" and n: "noSources grid"
    and s0: "0 \<le> windSpeed stats" and s1: "windSpeed stats \<le> 1"
  shows "(\<forall>r1 r2 r3. \<exists>res. simulateEnvironment grid stats r1 r2 r3 = Inr res
            \<and> gridPollution (newGrid res) \<le> gridPollution grid)
       \<and> (\<forall>k. \<exists>g s g' s'. envRun draws k grid stats = Inr (g, s)
            \<and> envRun draws (Suc k) grid stats = Inr (g', s')
            \<and> gridPollution g' \<le> gridPollution g \<and> 0 \<le> gridPollution g')
       \<and> (\<exists>N. \<forall>k. \<exists>g s. envRun draws (N + k) grid stats = Inr (g, s)
            \<and> gridPollution g = 0)"
proof (intro conjI allI)
  have c: "cleanGrid (length (grid ! 0)) (length grid) grid"
    by (rule cleanGrid_intro [OF r p n])
  have h: "0 < length grid" using ne by simp
  show "\<exists>res. simulateEnvironment grid stats r1 r2 r3 = Inr res
            \<and> gridPollution (newGrid res) \<le> gridPollution grid" for r1 r2 r3
  proof -
    obtain res where e: "simulateEnvironment grid stats r1 r2 r3 = Inr res"
      and le: "gridPollution (newGrid res) \<le> 0.95 * gridPollution grid"
      using simulateEnvironment_step [OF c h s0 s1, of r1 r2 r3] by blast
    have "0 \<le> gridPollution grid" by (rule cleanGrid_total(2) [OF c])
    with le have "gridPollution (newGrid res) \<le> gridPollution grid" by simp
    with e show ?thesis by blast
  qed
  show "\<exists>g s g' s'. envRun draws k grid stats = Inr (g, s)
            \<and> envRun draws (Suc k) grid stats = Inr (g', s')
            \<and> gridPollution g' \<le> gridPollution g \<and> 0 \<le> gridPollution g'" for k
  proof -
    obtain g s where e: "envRun draws k grid stats = Inr (g, s)"
      using envRun_inv [OF c h s0 s1, of draws k] by blast
    obtain g' s' where e': "envRun draws (Suc k) grid stats = Inr (g', s')"
      and le: "gridPollution g' \<le> 0.95 * gridPollution g"
      and nn: "0 \<le> gridPollution g'" and n0: "0 \<le> gridPollution g"
      using envRun_Suc_step [OF c h s0 s1 e] by blast
    from le n0 have "gridPollution g' \<le> gridPollution g" by simp
    with e e' nn show ?thesis by blast
  qed
  show "\<exists>N. \<forall>k. \<exists>g s. envRun draws (N + k) grid stats = Inr (g, s) \<and> gridPollution g = 0"
    by (rule envRun_eventually_zero [OF c h s0 s1])
qed

text \<open>C6 on a grid of two rows of two tiles, one of them holding pollution 3, with the
  initial wind and draws that never change it.\<close>

theorem pollution_decreases_to_zero_witness:
  "smokyGrid \<noteq> [] \<and> rectangular smokyGrid \<and> pollutionNonNegative smokyGrid
   \<and> noSources smokyGrid \<and> 0 \<le> windSpeed INITIAL_STATS \<and> windSpeed INITIAL_STATS \<le> 1
   \<and> (\<forall>r1 r2 r3. \<exists>res. simulateEnvironment smokyGrid INITIAL_STATS r1 r2 r3 = Inr res
            \<and> gridPollution (newGrid res) \<le> gridPollution smokyGrid)
   \<and> (\<forall>k. \<exists>g s g' s'. envRun (\<lambda>n. (1, 0, 0)) k smokyGrid INITIAL_STATS = Inr (g, s)
            \<and> envRun (\<lambda>n. (1, 0, 0)) (Suc k) smokyGrid INITIAL_STATS = Inr (g', s')
            \<and> gridPollution g' \<le> gridPollution g \<and> 0 \<le> gridPollution g')
   \<and> (\<exists>N. \<forall>k. \<exists>g s. envRun (\<lambda>n. (1, 0, 0)) (N + k) smokyGrid INITIAL_STATS = Inr (g, s)
            \<and> gridPollution g = 0)"
proof -
  have ne: "smokyGrid \<noteq> []" by (simp add: smokyGrid_def)
  have r: "rectangular smokyGrid" by (simp add: smokyGrid_def rectangular_def)
  have p: "pollutionNonNegative smokyGrid"
    by (simp add: smokyGrid_def pollutionNonNegative_def sampleTile_def orZero_def)
  have n: "noSources smokyGrid"
    by (simp add: smokyGrid_def noSources_def sampleTile_def orZero_def mkConfig_def)
  have s0: "0 \<le> windSpeed INITIAL_STATS" by (simp add: INITIAL_STATS_def)
  have s1: "windSpeed INITIAL_STATS \<le> 1" by (simp add: INITIAL_STATS_def)
  from pollution_decreases_to_zero [OF ne r p n s0 s1, where draws = "\<lambda>n. (1, 0, 0)"]
    ne r p n s0 s1
  show ?thesis by (intro conjI) blast+
qed

end
